theory Spec2Isabelle
  imports Complex_Main
begin

section \<open>JavaScript values used by the effect section\<close>

subsection \<open>Numbers\<close>

text \<open>
  A JavaScript number is modelled as an exact real or one of the three special values
  that arithmetic on finite operands can produce (a division by zero gives an infinity
  or NaN, it does not raise). This is an idealisation of 64-bit doubles: results are
  not rounded, a finite result never overflows to an infinity, and \<open>Num 0\<close> stands for
  both zeros, so that a division by \<open>-0\<close> has the sign of a division by \<open>0\<close>. The
  model and the code agree wherever every intermediate result is a double, as in the
  worked examples below. A property that rounding could defeat is stated with a bound
  on the magnitudes and with the margin by which it holds, and no property below
  depends on the sign of a zero.
\<close>

datatype jsnum = Num real | PosInf | NegInf | NaN

fun js_neg :: "jsnum \<Rightarrow> jsnum" where
  "js_neg (Num a) = Num (- a)"
| "js_neg PosInf = NegInf"
| "js_neg NegInf = PosInf"
| "js_neg NaN = NaN"

fun js_add :: "jsnum \<Rightarrow> jsnum \<Rightarrow> jsnum" where
  "js_add (Num a) (Num b) = Num (a + b)"
| "js_add NaN _ = NaN"
| "js_add _ NaN = NaN"
| "js_add PosInf NegInf = NaN"
| "js_add NegInf PosInf = NaN"
| "js_add PosInf _ = PosInf"
| "js_add _ PosInf = PosInf"
| "js_add NegInf _ = NegInf"
| "js_add _ NegInf = NegInf"

definition js_sub :: "jsnum \<Rightarrow> jsnum \<Rightarrow> jsnum" where
  "js_sub a b = js_add a (js_neg b)"

text \<open>The sign of a number as \<open>-1\<close>, \<open>0\<close> or \<open>1\<close>; NaN has none.\<close>

fun js_sign :: "jsnum \<Rightarrow> int option" where
  "js_sign (Num a) = Some (if a < 0 then - 1 else if a = 0 then 0 else 1)"
| "js_sign PosInf = Some 1"
| "js_sign NegInf = Some (- 1)"
| "js_sign NaN = None"

definition signed_inf :: "int \<Rightarrow> jsnum" where
  "signed_inf k = (if k = 0 then NaN else if 0 < k then PosInf else NegInf)"

fun js_mul :: "jsnum \<Rightarrow> jsnum \<Rightarrow> jsnum" where
  "js_mul (Num a) (Num b) = Num (a * b)"
| "js_mul a b =
     (case (js_sign a, js_sign b) of
        (Some k, Some l) \<Rightarrow> signed_inf (k * l)
      | _ \<Rightarrow> NaN)"

fun js_div :: "jsnum \<Rightarrow> jsnum \<Rightarrow> jsnum" where
  "js_div (Num a) (Num b) =
     (if b = 0 then (if a = 0 then NaN else if 0 < a then PosInf else NegInf)
      else Num (a / b))"
| "js_div NaN _ = NaN"
| "js_div _ NaN = NaN"
| "js_div (Num a) _ = Num 0"
| "js_div a (Num b) =
     (case js_sign a of
        Some k \<Rightarrow> signed_inf (k * (if b < 0 then - 1 else 1))
      | None \<Rightarrow> NaN)"
| "js_div _ _ = NaN"

text \<open>\<open>Math.max\<close> of two numbers: NaN if either is NaN.\<close>

fun js_max :: "jsnum \<Rightarrow> jsnum \<Rightarrow> jsnum" where
  "js_max (Num a) (Num b) = Num (max a b)"
| "js_max NaN _ = NaN"
| "js_max _ NaN = NaN"
| "js_max PosInf _ = PosInf"
| "js_max _ PosInf = PosInf"
| "js_max NegInf b = b"
| "js_max a NegInf = a"

text \<open>JavaScript truthiness of a number: zero and NaN are falsy.\<close>

definition num_truthy :: "jsnum \<Rightarrow> bool" where
  "num_truthy a = (a \<noteq> Num 0 \<and> a \<noteq> NaN)"

text \<open>\<open>a ?? b\<close> for a value that may be \<open>undefined\<close> or \<open>null\<close>.\<close>

definition nullish :: "'a option \<Rightarrow> 'a \<Rightarrow> 'a" where
  "nullish a b = (case a of Some v \<Rightarrow> v | None \<Rightarrow> b)"

subsection \<open>Strings\<close>

text \<open>
  Strings are byte strings. \<open>split_on c s\<close> is \<open>s.split(c)\<close> for a one-character
  separator: it never returns the empty list.
\<close>

fun split_on :: "char \<Rightarrow> string \<Rightarrow> string list" where
  "split_on c [] = [[]]"
| "split_on c (x # xs) =
     (if x = c then [] # split_on c xs
      else (case split_on c xs of
              [] \<Rightarrow> [[x]]
            | w # ws \<Rightarrow> (x # w) # ws))"

text \<open>\<open>s.replace(pat, rep)\<close> with a string pattern: only the first occurrence.\<close>

fun replace_first :: "string \<Rightarrow> string \<Rightarrow> string \<Rightarrow> string" where
  "replace_first pat rep [] = (if pat = [] then rep else [])"
| "replace_first pat rep (x # xs) =
     (if take (length pat) (x # xs) = pat then rep @ drop (length pat) (x # xs)
      else x # replace_first pat rep xs)"

text \<open>\<open>toLowerCase\<close> on the ASCII letters.\<close>

definition lower_char :: "char \<Rightarrow> char" where
  "lower_char c =
     (let n = of_char c :: nat in
      if 65 \<le> n \<and> n \<le> 90 then char_of (n + 32) else c)"

definition toLowerCase :: "string \<Rightarrow> string" where
  "toLowerCase s = map lower_char s"

text \<open>The last element of a non-empty array (\<open>parts[parts.length - 1]\<close>, \<open>pop()\<close>).\<close>

fun last_elem :: "'a list \<Rightarrow> 'a option" where
  "last_elem [] = None"
| "last_elem [x] = Some x"
| "last_elem (x # y # ys) = last_elem (y # ys)"

text \<open>\<open>arr[i]\<close>: \<open>undefined\<close> out of range.\<close>

definition elem_at :: "'a list \<Rightarrow> nat \<Rightarrow> 'a option" where
  "elem_at xs i = (if i < length xs then Some (xs ! i) else None)"

subsection \<open>String to number conversion\<close>

text \<open>
  \<open>Number(s)\<close> on a string, after the StringNumericLiteral grammar: surrounding white
  space (the ASCII white space characters, strings being byte strings) is dropped; the
  empty string is 0; a signed decimal literal with optional fraction and exponent, or
  \<open>Infinity\<close>, or an unsigned binary, octal or hexadecimal literal is a number;
  everything else is NaN. The value is the exact one; \<open>Number\<close> gives the double
  nearest to it, which is the same number for an integer of at most 15 digits
  (every integer below \<open>2^53\<close> is a double). The properties below read the value of a
  literal only for such integers.
\<close>

definition is_space :: "char \<Rightarrow> bool" where
  "is_space c = (of_char c \<in> {9, 10, 11, 12, 13, 32 :: nat})"

definition trim :: "string \<Rightarrow> string" where
  "trim s = rev (dropWhile is_space (rev (dropWhile is_space s)))"

definition digit_of :: "char \<Rightarrow> nat option" where
  "digit_of c =
     (let n = of_char c :: nat in
      if 48 \<le> n \<and> n \<le> 57 then Some (n - 48)
      else if 97 \<le> n \<and> n \<le> 102 then Some (n - 87)
      else if 65 \<le> n \<and> n \<le> 70 then Some (n - 55)
      else None)"

definition is_digit :: "nat \<Rightarrow> char \<Rightarrow> bool" where
  "is_digit base c = (case digit_of c of Some d \<Rightarrow> d < base | None \<Rightarrow> False)"

fun digits_val :: "nat \<Rightarrow> nat \<Rightarrow> string \<Rightarrow> nat" where
  "digits_val base acc [] = acc"
| "digits_val base acc (c # cs) =
     digits_val base (acc * base + (case digit_of c of Some d \<Rightarrow> d | None \<Rightarrow> 0)) cs"

definition radix_literal :: "nat \<Rightarrow> string \<Rightarrow> jsnum" where
  "radix_literal base ds =
     (if ds \<noteq> [] \<and> list_all (is_digit base) ds then Num (real (digits_val base 0 ds)) else NaN)"

text \<open>The exponent part after the mantissa: empty, or \<open>e\<close>, an optional sign and digits.\<close>

definition exponent_of :: "string \<Rightarrow> int option" where
  "exponent_of r =
     (case r of
        [] \<Rightarrow> Some 0
      | c # cs \<Rightarrow>
          if c = CHR ''e'' \<or> c = CHR ''E'' then
            (let ds = (case cs of
                         [] \<Rightarrow> []
                       | d # ds' \<Rightarrow> if d = CHR ''+'' \<or> d = CHR ''-'' then ds' else cs);
                 neg = (case cs of [] \<Rightarrow> False | d # _ \<Rightarrow> d = CHR ''-'')
             in if ds \<noteq> [] \<and> list_all (is_digit 10) ds
                then Some ((if neg then - 1 else 1) * int (digits_val 10 0 ds))
                else None)
          else None)"

definition scale10 :: "real \<Rightarrow> int \<Rightarrow> real" where
  "scale10 m e = (if 0 \<le> e then m * 10 ^ nat e else m / 10 ^ nat (- e))"

definition decimal_literal :: "string \<Rightarrow> jsnum" where
  "decimal_literal u =
     (let ip = takeWhile (is_digit 10) u;
          r1 = dropWhile (is_digit 10) u;
          fp = (case r1 of
                  [] \<Rightarrow> []
                | c # cs \<Rightarrow> if c = CHR ''.'' then takeWhile (is_digit 10) cs else []);
          r2 = (case r1 of
                  [] \<Rightarrow> []
                | c # cs \<Rightarrow> if c = CHR ''.'' then dropWhile (is_digit 10) cs else r1)
      in if ip = [] \<and> fp = [] then NaN
         else (case exponent_of r2 of
                 None \<Rightarrow> NaN
               | Some e \<Rightarrow>
                   Num (scale10 (real (digits_val 10 0 (ip @ fp))) (e - int (length fp)))))"

definition signed_literal :: "string \<Rightarrow> jsnum" where
  "signed_literal u =
     (if u = ''Infinity'' then PosInf else decimal_literal u)"

definition js_Number :: "string \<Rightarrow> jsnum" where
  "js_Number s =
     (let t = trim s in
      case t of
        [] \<Rightarrow> Num 0
      | c # cs \<Rightarrow>
          if c = CHR ''0'' \<and> cs \<noteq> [] \<and> hd cs \<in> {CHR ''x'', CHR ''X''} then radix_literal 16 (tl cs)
          else if c = CHR ''0'' \<and> cs \<noteq> [] \<and> hd cs \<in> {CHR ''o'', CHR ''O''} then radix_literal 8 (tl cs)
          else if c = CHR ''0'' \<and> cs \<noteq> [] \<and> hd cs \<in> {CHR ''b'', CHR ''B''} then radix_literal 2 (tl cs)
          else if c = CHR ''+'' then signed_literal cs
          else if c = CHR ''-'' then js_neg (signed_literal cs)
          else signed_literal t)"

text \<open>\<open>isNaN(v)\<close> on a string or \<open>undefined\<close>: the value is converted first.\<close>

definition js_isNaN :: "string option \<Rightarrow> bool" where
  "js_isNaN v = (case v of None \<Rightarrow> True | Some s \<Rightarrow> js_Number s = NaN)"

section \<open>Data model\<close>

record point =
  px :: jsnum
  py :: jsnum

text \<open>
  A location as the section holds it after \<open>_validateLocation\<close>: a token (its centre
  and \<open>data.width\<close>, \<open>data.height\<close> in grid units), a measured template (its centre,
  its shape \<open>data.t\<close>, the end point \<open>ray.B\<close>, and \<open>data.width\<close>, \<open>data.height\<close>
  where it has them), the name of an earlier effect, or a plain \<open>{x, y}\<close> object.
\<close>

datatype location =
    Token point "jsnum option" "jsnum option"
  | MeasuredTemplate point string point "jsnum option" "jsnum option"
  | NameRef string
  | Point point

text \<open>\<open>data.file\<close>: a path, an array of paths, or \<open>undefined\<close> (picked from an empty array).\<close>

datatype file_val = FStr string | FArr "string list" | FUndefined

text \<open>\<open>this._scaleMin\<close>: \<open>false\<close> (or any value without \<open>x\<close> and \<open>y\<close>), a number, or an object.\<close>

datatype scale_val = SFalse | SNum jsnum | SObj "jsnum option" "jsnum option"

datatype error =
    UnresolvedNameError
  | AssetMeasurementError
  | HookError
  | TemplateError
  | TypeError
  | Error string

text \<open>
  The descriptor \<open>data\<close> built by \<open>_sanitizeData\<close>. \<open>anchor_shared\<close> is not a field of the
  JavaScript object: it records that \<open>data.anchor\<close> is the very object \<open>this._anchor\<close>
  (line 382 assigns the reference), so that a write to \<open>data.anchor.x\<close> is also a write
  to the section's anchor.
\<close>

record data =
  data_file :: file_val
  data_position :: point
  data_anchor :: point
  anchor_shared :: bool
  data_scale :: point
  data_angle :: jsnum
  data_rotation :: jsnum
  data_speed :: jsnum
  data_playbackRate :: jsnum
  data_distance :: jsnum
  data_fadeIn :: jsnum
  data_fadeOut :: jsnum

type_synonym mustache = "(string \<times> string) list"

text \<open>
  The private fields of \<open>EffectSection\<close> other than the two lists of overrides;
  \<open>this_x\<close> is \<open>this._x\<close>. A field that holds \<open>false\<close> until it is set is an option.
  \<open>this_scaleMax\<close> is \<open>None\<close> unless it holds a number. \<open>this_currentRepetition\<close>
  belongs to the base class \<open>Section\<close>.
\<close>

record EffectFields =
  this_file :: file_val
  this_baseFolder :: string
  this_from :: "location option"
  this_to :: "location option"
  this_scaleMin :: scale_val
  this_scaleMax :: "jsnum option"
  this_anchor :: "point option"
  this_randomRotation :: bool
  this_rotationOnly :: bool
  this_missed :: bool
  this_startPoint :: jsnum
  this_endPoint :: jsnum
  this_mustache :: "mustache option"
  this_JB2A :: bool
  this_randomX :: bool
  this_randomY :: bool
  this_playbackRate :: jsnum
  this_gridSize :: jsnum
  this_name :: "string option"
  this_fadeIn :: jsnum
  this_fadeOut :: jsnum
  this_currentRepetition :: nat

text \<open>
  An override is called as \<open>override(this, data)\<close> and returns the descriptor to go on
  with, or throws. It gets the section and may assign to its fields: it is a function
  of the section's fields and the descriptor that returns the descriptor together with
  the fields as it leaves them. An override is taken not to add or remove overrides
  while they run, and not to touch the scene, the caches or the random source.
\<close>

type_synonym hook = "EffectFields \<Rightarrow> data \<Rightarrow> error + data \<times> EffectFields"

text \<open>The section: its fields, \<open>this._overrides\<close> and \<open>this._postOverrides\<close>.\<close>

record EffectSection = EffectFields +
  this_overrides :: "hook list"
  this_postOverrides :: "hook list"

text \<open>
  The fields of a section as an override sees them, and the section with the fields as
  an override left them.
\<close>

definition fields_of :: "EffectSection \<Rightarrow> EffectFields" where
  "fields_of s = EffectFields.truncate s"

definition with_fields :: "EffectFields \<Rightarrow> EffectSection \<Rightarrow> EffectSection" where
  "with_fields c s = EffectFields.extend c (EffectFields.more s)"

text \<open>
  What the section reads and writes outside itself: the scene's grid size
  (\<open>canvas.grid.size\<close>), the random source (the successive results of \<open>Math.random()\<close>,
  each in \<open>[0, 1)\<close>, and how many were drawn), the two caches of the owning sequence, the
  asset probe \<open>lib.getDimensions\<close> with the list of paths it was asked for, and the
  template engine (\<open>Handlebars.compile(file)(context)\<close>).
\<close>

record world =
  canvas_grid_size :: jsnum
  random_draws :: "nat \<Rightarrow> real"
  random_pos :: nat
  cachedPositions :: "string \<times> nat \<Rightarrow> point option"
  fileCache :: "string \<Rightarrow> point option"
  getDimensions :: "string \<Rightarrow> error + point"
  probed :: "string list"
  Handlebars :: "file_val \<Rightarrow> mustache \<Rightarrow> error + string"

section \<open>Collaborators\<close>

definition Math_random :: "world \<Rightarrow> real \<times> world" where
  "Math_random w = (random_draws w (random_pos w), w\<lparr>random_pos := Suc (random_pos w)\<rparr>)"

text \<open>
  Modelled from the spec: \<open>lib.random_float_between\<close> is not among the sources. The
  spec's \<open>uniform(lo, hi)\<close> draws a uniformly distributed float in \<open>[lo, hi]\<close> from the
  shared random source: one draw, mapped affinely onto the interval.
\<close>

definition random_float_between :: "jsnum \<Rightarrow> jsnum \<Rightarrow> world \<Rightarrow> jsnum \<times> world" where
  "random_float_between lo hi w =
     (let (r, w') = Math_random w
      in (js_add (js_mul (Num r) (js_sub hi lo)) lo, w'))"

text \<open>
  Modelled from the spec: \<open>lib.random_array_element\<close> is not among the sources. The
  spec picks one element uniformly at random: one draw, scaled to an index. An empty
  array has no element at any index.
\<close>

definition random_array_element :: "string list \<Rightarrow> world \<Rightarrow> file_val \<times> world" where
  "random_array_element xs w =
     (let (r, w') = Math_random w
      in (case elem_at xs (nat \<lfloor>r * real (length xs)\<rfloor>) of
            Some f \<Rightarrow> FStr f
          | None \<Rightarrow> FUndefined,
          w'))"

text \<open>
  Modelled from the spec: the named position cache of the owning sequence
  (\<open>_getCachedPosition\<close>, \<open>_insertCachedPosition\<close>) is not among the sources. The spec's
  \<open>lookup\<close> fails with \<open>UnresolvedNameError\<close> if the name was not recorded for that
  repetition index; \<open>record\<close> stores the position and overwrites silently.
\<close>

definition getCachedPosition :: "world \<Rightarrow> string \<Rightarrow> nat \<Rightarrow> error + point" where
  "getCachedPosition w n rep =
     (case cachedPositions w (n, rep) of
        None \<Rightarrow> Inl UnresolvedNameError
      | Some p \<Rightarrow> Inr p)"

definition insertCachedPosition :: "world \<Rightarrow> string \<Rightarrow> nat \<Rightarrow> point \<Rightarrow> world" where
  "insertCachedPosition w n rep p = w\<lparr>cachedPositions := (cachedPositions w)((n, rep) \<mapsto> p)\<rparr>"

text \<open>
  Modelled from the spec: \<open>Ray\<close> is the platform's class. The spec's VectorMath gives
  the Euclidean distance and the angle in radians from the first point to the second
  (\<open>Math.hypot\<close> and \<open>Math.atan2\<close> of the coordinate differences).
\<close>

fun js_hypot :: "jsnum \<Rightarrow> jsnum \<Rightarrow> jsnum" where
  "js_hypot (Num a) (Num b) = Num (sqrt (a * a + b * b))"
| "js_hypot PosInf _ = PosInf"
| "js_hypot NegInf _ = PosInf"
| "js_hypot _ PosInf = PosInf"
| "js_hypot _ NegInf = PosInf"
| "js_hypot _ _ = NaN"

definition atan2 :: "real \<Rightarrow> real \<Rightarrow> real" where
  "atan2 b a =
     (if 0 < a then arctan (b / a)
      else if a < 0 then (if 0 \<le> b then arctan (b / a) + pi else arctan (b / a) - pi)
      else if 0 < b then pi / 2
      else if b < 0 then - (pi / 2)
      else 0)"

fun js_atan2 :: "jsnum \<Rightarrow> jsnum \<Rightarrow> jsnum" where
  "js_atan2 (Num b) (Num a) = Num (atan2 b a)"
| "js_atan2 NaN _ = NaN"
| "js_atan2 _ NaN = NaN"
| "js_atan2 PosInf PosInf = Num (pi / 4)"
| "js_atan2 PosInf NegInf = Num (3 * pi / 4)"
| "js_atan2 PosInf (Num a) = Num (pi / 2)"
| "js_atan2 NegInf PosInf = Num (- (pi / 4))"
| "js_atan2 NegInf NegInf = Num (- (3 * pi / 4))"
| "js_atan2 NegInf (Num a) = Num (- (pi / 2))"
| "js_atan2 (Num b) PosInf = Num 0"
| "js_atan2 (Num b) NegInf = Num (if b < 0 then - pi else pi)"

record ray =
  ray_distance :: jsnum
  ray_angle :: jsnum

text \<open>\<open>new Ray(A, B)\<close>; \<open>B\<close> is \<open>false\<close> when no target was resolved, and its coordinates
  are then \<open>undefined\<close>, which arithmetic turns into NaN.\<close>

definition Ray :: "point \<Rightarrow> point option \<Rightarrow> ray" where
  "Ray A B =
     (let dx = (case B of Some b \<Rightarrow> js_sub (px b) (px A) | None \<Rightarrow> NaN);
          dy = (case B of Some b \<Rightarrow> js_sub (py b) (py A) | None \<Rightarrow> NaN)
      in \<lparr>ray_distance = js_hypot dx dy, ray_angle = js_atan2 dy dx\<rparr>)"

section \<open>The builder methods\<close>

text \<open>An argument of a builder method, as far as the type checks tell values apart.\<close>

datatype jsval = JUndefined | JBool bool | JNumber jsnum | JString string | JObject

text \<open>
  The constructor (lines 6 to 31) with \<open>inFile\<close> a string or an array;
  \<open>_currentRepetition\<close> is initialised by the base class.
\<close>

definition new_EffectSection :: "world \<Rightarrow> file_val \<Rightarrow> EffectSection" where
  "new_EffectSection w inFile =
     \<lparr>this_file = inFile,
      this_baseFolder = [],
      this_from = None,
      this_to = None,
      this_scaleMin = SFalse,
      this_scaleMax = None,
      this_anchor = None,
      this_randomRotation = False,
      this_rotationOnly = True,
      this_missed = False,
      this_startPoint = Num 0,
      this_endPoint = Num 0,
      this_mustache = None,
      this_JB2A = False,
      this_randomX = False,
      this_randomY = False,
      this_playbackRate = Num 1,
      this_gridSize = canvas_grid_size w,
      this_name = None,
      this_fadeIn = Num 0,
      this_fadeOut = Num 0,
      this_currentRepetition = 0,
      this_overrides = [],
      this_postOverrides = []\<rparr>"

definition gridSize :: "jsval \<Rightarrow> EffectSection \<Rightarrow> error + EffectSection" where
  "gridSize inSize s =
     (case inSize of
        JNumber n \<Rightarrow> Inr (s\<lparr>this_gridSize := n\<rparr>)
      | _ \<Rightarrow> Inl (Error ''inSize must be of type number''))"

definition startPoint :: "jsval \<Rightarrow> EffectSection \<Rightarrow> error + EffectSection" where
  "startPoint inStartPoint s =
     (case inStartPoint of
        JNumber n \<Rightarrow> Inr (s\<lparr>this_startPoint := n\<rparr>)
      | _ \<Rightarrow> Inl (Error ''inStartPoint must be of type number''))"

definition endPoint :: "jsval \<Rightarrow> EffectSection \<Rightarrow> error + EffectSection" where
  "endPoint inEndPoint s =
     (case inEndPoint of
        JNumber n \<Rightarrow> Inr (s\<lparr>this_endPoint := n\<rparr>)
      | _ \<Rightarrow> Inl (Error ''inEndPoint must be of type number''))"

text \<open>Sequencing of calls that may throw.\<close>

definition and_then :: "error + 'a \<Rightarrow> ('a \<Rightarrow> error + 'b) \<Rightarrow> error + 'b" where
  "and_then m f = (case m of Inl e \<Rightarrow> Inl e | Inr v \<Rightarrow> f v)"

text \<open>A parameter with the default \<open>true\<close>: \<open>undefined\<close> takes the default.\<close>

definition default_true :: "jsval \<Rightarrow> jsval" where
  "default_true v = (case v of JUndefined \<Rightarrow> JBool True | _ \<Rightarrow> v)"

definition JB2A :: "world \<Rightarrow> jsval \<Rightarrow> EffectSection \<Rightarrow> error + EffectSection" where
  "JB2A w inBool s =
     (case default_true inBool of
        JBool b \<Rightarrow>
          and_then
            (if b then
               and_then (gridSize (JNumber (Num 100)) s) (\<lambda>s1.
               and_then (startPoint (JNumber (Num 200)) s1) (\<lambda>s2.
               endPoint (JNumber (Num 200)) s2))
             else
               and_then (gridSize (JNumber (canvas_grid_size w)) s) (\<lambda>s1.
               and_then (startPoint (JNumber (Num 0)) s1) (\<lambda>s2.
               endPoint (JNumber (Num 0)) s2)))
            (\<lambda>s3. Inr (s3\<lparr>this_JB2A := True\<rparr>))
      | _ \<Rightarrow> Inl (Error ''inBool must be of type boolean''))"

definition randomizeMirrorX :: "jsval \<Rightarrow> EffectSection \<Rightarrow> error + EffectSection" where
  "randomizeMirrorX inBool s =
     (case default_true inBool of
        JBool b \<Rightarrow> Inr (s\<lparr>this_randomX := True\<rparr>)
      | _ \<Rightarrow> Inl (Error ''inBool must be of type boolean''))"

definition randomizeMirrorY :: "jsval \<Rightarrow> EffectSection \<Rightarrow> error + EffectSection" where
  "randomizeMirrorY inBool s =
     (case default_true inBool of
        JBool b \<Rightarrow> Inr (s\<lparr>this_randomY := True\<rparr>)
      | _ \<Rightarrow> Inl (Error ''inBool must be of type boolean''))"

section \<open>Asset dimensions and the hit vector\<close>

text \<open>String concatenation \<open>prefix + file\<close>: \<open>undefined\<close> and arrays are converted.\<close>

fun join_comma :: "string list \<Rightarrow> string" where
  "join_comma [] = []"
| "join_comma [x] = x"
| "join_comma (x # y # ys) = x @ '','' @ join_comma (y # ys)"

fun to_string :: "file_val \<Rightarrow> string" where
  "to_string (FStr f) = f"
| "to_string (FArr xs) = join_comma xs"
| "to_string FUndefined = ''undefined''"

text \<open>
  Lines 477 to 486: the dimensions written in the file name, when \<open>this._JB2A\<close> is
  set and both halves of the last \<open>_\<close>-separated part convert to a number.
\<close>

definition dimensions_from_name :: "string \<Rightarrow> point option" where
  "dimensions_from_name filePath =
     (let parts = split_on (CHR ''_'') (replace_first ''.webm'' [] filePath)
      in case last_elem parts of
           None \<Rightarrow> None
         | Some l \<Rightarrow>
             (let dimensionString = split_on (CHR ''x'') (toLowerCase l)
              in if \<not> js_isNaN (elem_at dimensionString 0) \<and> \<not> js_isNaN (elem_at dimensionString 1)
                 then (case (elem_at dimensionString 0, elem_at dimensionString 1) of
                         (Some a, Some b) \<Rightarrow> Some \<lparr>px = js_Number a, py = js_Number b\<rparr>
                       | _ \<Rightarrow> None)
                 else None))"

definition getFileDimensions :: "EffectSection \<Rightarrow> world \<Rightarrow> file_val \<Rightarrow> error + point \<times> world" where
  "getFileDimensions s w inFile =
     (let filePath = this_baseFolder s @ to_string inFile
      in case (if this_JB2A s then dimensions_from_name filePath else None) of
           Some d \<Rightarrow> Inr (d, w)
         | None \<Rightarrow>
             (case fileCache w filePath of
                Some cachedFile \<Rightarrow> Inr (cachedFile, w)
              | None \<Rightarrow>
                  (case getDimensions w filePath of
                     Inl e \<Rightarrow> Inl e
                   | Inr cachedFile \<Rightarrow>
                       Inr (cachedFile,
                            w\<lparr>fileCache := (fileCache w)(filePath \<mapsto> cachedFile),
                              probed := probed w @ [filePath]\<rparr>))))"

definition getTrueLength :: "EffectSection \<Rightarrow> point \<Rightarrow> jsnum" where
  "getTrueLength s inDimensions =
     js_sub (js_sub (px inDimensions) (this_startPoint s)) (this_endPoint s)"

text \<open>
  \<open>_calculateHitVector\<close> writes \<open>data.scale.x\<close>, \<open>data.scale.y\<close> and \<open>data.anchor.x\<close> in
  place; when \<open>data.anchor\<close> is the section's own anchor object, the section's anchor
  changes with it.
\<close>

definition calculateHitVector ::
  "EffectSection \<Rightarrow> world \<Rightarrow> data \<Rightarrow> error + data \<times> EffectSection \<times> world" where
  "calculateHitVector s w d =
     (if data_distance d = Num 0 then Inr (d, s, w)
      else
        (case getFileDimensions s w (data_file d) of
           Inl e \<Rightarrow> Inl e
         | Inr (dimensions, w') \<Rightarrow>
             (let trueLength = getTrueLength s dimensions;
                  scale_x = js_div (data_distance d) trueLength;
                  scale_y = js_max (Num (4 / 10)) scale_x;
                  anchor' = (data_anchor d)\<lparr>px := js_div (this_startPoint s) (px dimensions)\<rparr>
              in Inr (d\<lparr>data_scale := \<lparr>px = scale_x, py = scale_y\<rparr>, data_anchor := anchor'\<rparr>,
                      if anchor_shared d then s\<lparr>this_anchor := Some anchor'\<rparr> else s,
                      w'))))"

section \<open>Resolving locations\<close>

text \<open>JavaScript truthiness of \<open>this._from\<close> and \<open>this._to\<close>: the empty string is falsy.\<close>

fun loc_truthy :: "location \<Rightarrow> bool" where
  "loc_truthy (NameRef n) = (n \<noteq> [])"
| "loc_truthy _ = True"

definition opt_truthy :: "location option \<Rightarrow> bool" where
  "opt_truthy l = (case l of None \<Rightarrow> False | Some v \<Rightarrow> loc_truthy v)"

text \<open>\<open>{x: l?.center?.x ?? l.x ?? 0, y: l?.center?.y ?? l.y ?? 0}\<close>\<close>

fun position_of :: "location \<Rightarrow> point" where
  "position_of (Token c _ _) = c"
| "position_of (MeasuredTemplate c _ _ _ _) = c"
| "position_of (Point p) = p"
| "position_of (NameRef _) = \<lparr>px = Num 0, py = Num 0\<rparr>"

text \<open>\<open>l?.data?.width\<close> and \<open>l?.data?.height\<close>\<close>

fun data_width :: "location \<Rightarrow> jsnum option" where
  "data_width (Token _ wd _) = wd"
| "data_width (MeasuredTemplate _ _ _ wd _) = wd"
| "data_width _ = None"

fun data_height :: "location \<Rightarrow> jsnum option" where
  "data_height (Token _ _ ht) = ht"
| "data_height (MeasuredTemplate _ _ _ _ ht) = ht"
| "data_height _ = None"

definition flip_of :: "real \<Rightarrow> jsnum" where
  "flip_of r = (if r < 1 / 2 then Num (- 1) else Num 1)"

definition calculateMissedPosition ::
  "world \<Rightarrow> location \<Rightarrow> point \<Rightarrow> bool \<Rightarrow> point \<times> world" where
  "calculateMissedPosition w target position missed =
     (if \<not> missed then (position, w)
      else
        (let g = canvas_grid_size w;
             width = js_mul (nullish (data_width target) (Num 1)) g;
             height = js_mul (nullish (data_height target) (Num 1)) g;
             (r0, w0) = Math_random w;
             XorY = (r0 < 1 / 2);
             (r1, w1) = Math_random w0;
             flipX = flip_of r1;
             (r2, w2) = Math_random w1;
             flipY = flip_of r2;
             tokenOffset = js_div g (Num 5)
         in if XorY then
              (let (u, w3) = random_float_between tokenOffset (js_div g (Num 2)) w2;
                   x' = js_add (px position) (js_mul (js_add (js_div width (Num 2)) u) flipX);
                   (v, w4) = random_float_between tokenOffset
                               (js_add (js_div height (Num 2)) (js_div g (Num 2))) w3;
                   y' = js_add (py position) (js_mul v flipY)
               in (\<lparr>px = x', py = y'\<rparr>, w4))
            else
              (let (u, w3) = random_float_between tokenOffset
                               (js_add (js_div width (Num 2)) (js_div g (Num 2))) w2;
                   x' = js_add (px position) (js_mul u flipX);
                   (v, w4) = random_float_between tokenOffset (js_div g (Num 2)) w3;
                   y' = js_add (py position) (js_mul (js_add (js_div height (Num 2)) v) flipY)
               in (\<lparr>px = x', py = y'\<rparr>, w4))))"

text \<open>Lines 516 to 522: a string is replaced by the position cached under it.\<close>

definition resolve_name :: "EffectSection \<Rightarrow> world \<Rightarrow> location \<Rightarrow> error + location" where
  "resolve_name s w l =
     (case l of
        NameRef n \<Rightarrow>
          (case getCachedPosition w n (this_currentRepetition s) of
             Inl e \<Rightarrow> Inl e
           | Inr p \<Rightarrow> Inr (Point p))
      | _ \<Rightarrow> Inr l)"

definition calculatePositions ::
  "EffectSection \<Rightarrow> world \<Rightarrow> location \<Rightarrow> location option \<Rightarrow> bool
     \<Rightarrow> error + (point \<times> point option) \<times> world" where
  "calculatePositions s w from_loc to_loc missed =
     and_then (resolve_name s w from_loc) (\<lambda>from'.
     and_then (case to_loc of
                 None \<Rightarrow> Inr None
               | Some t \<Rightarrow> and_then (resolve_name s w t) (\<lambda>t'. Inr (Some t'))) (\<lambda>to'.
       (let from_position = position_of from';
            to_position = (case to' of None \<Rightarrow> \<lparr>px = Num 0, py = Num 0\<rparr> | Some t \<Rightarrow> position_of t);
            to_position = (case to' of
                             Some (MeasuredTemplate c t B wd ht) \<Rightarrow>
                               if t = ''cone'' \<or> t = ''ray'' then B else to_position
                           | _ \<Rightarrow> to_position);
            (from_position, w1) =
              calculateMissedPosition w from' from_position (\<not> opt_truthy to' \<and> missed)
        in (case to' of
              Some t \<Rightarrow>
                if loc_truthy t then
                  (let (to_position, w2) = calculateMissedPosition w1 t to_position missed
                   in Inr ((from_position, Some to_position), w2))
                else Inr ((from_position, None), w1)
            | None \<Rightarrow> Inr ((from_position, None), w1)))))"

section \<open>The transform pipeline\<close>

text \<open>
  \<open>_sanitizeData\<close> is one straight-line method; it is modelled block by block, each
  block a definition named after what it does, and \<open>sanitizeData\<close> runs them in the
  order of the source.
\<close>

text \<open>Lines 358 to 383: the initial descriptor, with the configured anchor if there is one.\<close>

definition initial_data :: "EffectSection \<Rightarrow> data" where
  "initial_data s =
     \<lparr>data_file = this_file s,
      data_position = \<lparr>px = Num 0, py = Num 0\<rparr>,
      data_anchor = (case this_anchor s of
                       Some a \<Rightarrow> a
                     | None \<Rightarrow> \<lparr>px = Num 0, py = Num 0\<rparr>),
      anchor_shared = (this_anchor s \<noteq> None),
      data_scale = \<lparr>px = Num 1, py = Num 1\<rparr>,
      data_angle = Num 0,
      data_rotation = Num 0,
      data_speed = Num 0,
      data_playbackRate = this_playbackRate s,
      data_distance = Num 0,
      data_fadeIn = this_fadeIn s,
      data_fadeOut = this_fadeOut s\<rparr>"

text \<open>Lines 385 to 415: origin and target, default anchors, distance and rotation.\<close>

definition resolve_origin_target :: "EffectSection \<Rightarrow> world \<Rightarrow> data \<Rightarrow> error + data \<times> world" where
  "resolve_origin_target s w d =
     (case this_from s of
        None \<Rightarrow> Inr (d, w)
      | Some from_loc \<Rightarrow>
          if \<not> loc_truthy from_loc then Inr (d, w)
          else
            and_then (calculatePositions s w from_loc (this_to s) (this_missed s))
              (\<lambda>((origin, target), w').
                 (let d1 = (if this_anchor s = None
                            then d\<lparr>data_anchor := \<lparr>px = Num (1 / 2), py = Num (1 / 2)\<rparr>,
                                   anchor_shared := False\<rparr>
                            else d);
                      d2 = d1\<lparr>data_position := origin\<rparr>
                  in if opt_truthy (this_to s) then
                       (let d3 = (if this_anchor s = None
                                  then d2\<lparr>data_anchor := \<lparr>px = Num 0, py = Num (1 / 2)\<rparr>,
                                          anchor_shared := False\<rparr>
                                  else d2);
                            r = Ray origin target
                        in Inr (d3\<lparr>data_distance := ray_distance r,
                                    data_rotation := ray_angle r\<rparr>, w'))
                     else Inr (d2, w'))))"

text \<open>Line 417.\<close>

definition add_random_rotation :: "EffectSection \<Rightarrow> world \<Rightarrow> data \<Rightarrow> data \<times> world" where
  "add_random_rotation s w d =
     (if this_randomRotation s then
        (let (r, w') = Math_random w
         in (d\<lparr>data_rotation := js_add (data_rotation d) (js_mul (Num r) (Num pi))\<rparr>, w'))
      else (d\<lparr>data_rotation := js_add (data_rotation d) (Num 0)\<rparr>, w))"

text \<open>
  Lines 419 to 421 and 465 to 467: \<open>data = await override(this, data)\<close> for each override
  in turn. Each override gets the section as the one before left it and the descriptor
  the one before returned.
\<close>

fun run_overrides :: "hook list \<Rightarrow> EffectSection \<Rightarrow> data \<Rightarrow> error + data \<times> EffectSection" where
  "run_overrides [] s d = Inr (d, s)"
| "run_overrides (override # rest) s d =
     (case override (fields_of s) d of
        Inl e \<Rightarrow> Inl e
      | Inr (d', c') \<Rightarrow> run_overrides rest (with_fields c' s) d')"

text \<open>Lines 423 to 425.\<close>

definition pick_file :: "world \<Rightarrow> data \<Rightarrow> data \<times> world" where
  "pick_file w d =
     (case data_file d of
        FArr xs \<Rightarrow> (let (f, w') = random_array_element xs w in (d\<lparr>data_file := f\<rparr>, w'))
      | _ \<Rightarrow> (d, w))"

text \<open>Lines 427 to 430.\<close>

definition apply_mustache :: "EffectSection \<Rightarrow> world \<Rightarrow> data \<Rightarrow> error + data" where
  "apply_mustache s w d =
     (case this_mustache s of
        None \<Rightarrow> Inr d
      | Some m \<Rightarrow>
          (case Handlebars w (data_file d) m of
             Inl e \<Rightarrow> Inl e
           | Inr f \<Rightarrow> Inr (d\<lparr>data_file := FStr f\<rparr>)))"

text \<open>Lines 432 to 435.\<close>

definition grid_normalize :: "EffectSection \<Rightarrow> world \<Rightarrow> data \<Rightarrow> data" where
  "grid_normalize s w d =
     d\<lparr>data_scale :=
         \<lparr>px = js_mul (px (data_scale d)) (js_div (canvas_grid_size w) (this_gridSize s)),
          py = js_mul (py (data_scale d)) (js_div (canvas_grid_size w) (this_gridSize s))\<rparr>\<rparr>"

text \<open>Lines 437 to 439.\<close>

definition hit_vector_step ::
  "EffectSection \<Rightarrow> world \<Rightarrow> data \<Rightarrow> error + data \<times> EffectSection \<times> world" where
  "hit_vector_step s w d =
     (if \<not> this_rotationOnly s then calculateHitVector s w d else Inr (d, s, w))"

text \<open>
  Lines 441 to 455: the configured scale as an object with optional \<open>x\<close> and \<open>y\<close>; a
  number with a truthy numeric maximum is replaced by a random number between the two.
\<close>

definition configured_scale ::
  "EffectSection \<Rightarrow> world \<Rightarrow> (jsnum option \<times> jsnum option) \<times> world" where
  "configured_scale s w =
     (case this_scaleMin s of
        SNum lo \<Rightarrow>
          (case this_scaleMax s of
             Some hi \<Rightarrow>
               if num_truthy hi then
                 (let (v, w') = random_float_between lo hi w in ((Some v, Some v), w'))
               else ((Some lo, Some lo), w)
           | None \<Rightarrow> ((Some lo, Some lo), w))
      | SObj sx sy \<Rightarrow> ((sx, sy), w)
      | SFalse \<Rightarrow> ((None, None), w))"

definition apply_scale :: "EffectSection \<Rightarrow> world \<Rightarrow> data \<Rightarrow> data \<times> world" where
  "apply_scale s w d =
     (let ((sx, sy), w') = configured_scale s w
      in (d\<lparr>data_scale :=
               \<lparr>px = js_mul (px (data_scale d)) (nullish sx (Num 1)),
                py = js_mul (py (data_scale d)) (nullish sy (Num 1))\<rparr>\<rparr>, w'))"

text \<open>Lines 457 to 461: \<open>Math.random()\<close> is only called when the flag is set.\<close>

definition random_flip :: "bool \<Rightarrow> world \<Rightarrow> jsnum \<times> world" where
  "random_flip enabled w =
     (if enabled then (let (r, w') = Math_random w in (flip_of r, w')) else (Num 1, w))"

definition apply_flips :: "EffectSection \<Rightarrow> world \<Rightarrow> data \<Rightarrow> data \<times> world" where
  "apply_flips s w d =
     (let (flipX, w1) = random_flip (this_randomX s) w;
          d1 = d\<lparr>data_scale := (data_scale d)\<lparr>px := js_mul (px (data_scale d)) flipX\<rparr>\<rparr>;
          (flipY, w2) = random_flip (this_randomY s) w1;
          d2 = d1\<lparr>data_scale := (data_scale d1)\<lparr>py := js_mul (py (data_scale d1)) flipY\<rparr>\<rparr>
      in (d2, w2))"

text \<open>Line 463.\<close>

definition prepend_baseFolder :: "EffectSection \<Rightarrow> data \<Rightarrow> data" where
  "prepend_baseFolder s d = d\<lparr>data_file := FStr (this_baseFolder s @ to_string (data_file d))\<rparr>"

text \<open>
  \<open>_getName\<close>: the configured name if it is a non-empty string, else the stem of the
  file name, else \<open>"-1"\<close>. An array has no \<open>split\<close> method.
\<close>

definition file_stem :: "string \<Rightarrow> string" where
  "file_stem f =
     (case last_elem (split_on (CHR ''/'') f) of
        None \<Rightarrow> []
      | Some l \<Rightarrow> (case split_on (CHR ''.'') l of [] \<Rightarrow> [] | st # _ \<Rightarrow> st))"

definition getName :: "EffectSection \<Rightarrow> data \<Rightarrow> error + string" where
  "getName s d =
     (case this_name s of
        Some n \<Rightarrow>
          if n \<noteq> [] then Inr n
          else (case data_file d of
                  FStr f \<Rightarrow> if f \<noteq> [] then Inr (file_stem f) else Inr ''-1''
                | FArr xs \<Rightarrow> Inl TypeError
                | FUndefined \<Rightarrow> Inr ''-1'')
      | None \<Rightarrow>
          (case data_file d of
             FStr f \<Rightarrow> if f \<noteq> [] then Inr (file_stem f) else Inr ''-1''
           | FArr xs \<Rightarrow> Inl TypeError
           | FUndefined \<Rightarrow> Inr ''-1''))"

text \<open>Line 469.\<close>

definition record_position :: "EffectSection \<Rightarrow> world \<Rightarrow> data \<Rightarrow> error + world" where
  "record_position s w d =
     and_then (getName s d) (\<lambda>n.
       Inr (insertCachedPosition w n (this_currentRepetition s) (data_position d)))"

text \<open>
  \<open>_sanitizeData\<close> (the spec's \<open>finalize\<close>): the descriptor, with the section and the
  world as the run leaves them, or the error that ended the run.
\<close>

definition sanitizeData ::
  "EffectSection \<Rightarrow> world \<Rightarrow> error + data \<times> EffectSection \<times> world" where
  "sanitizeData s w =
     and_then (resolve_origin_target s w (initial_data s)) (\<lambda>(d1, w1).
       (let (d2, w2) = add_random_rotation s w1 d1
        in and_then (run_overrides (this_overrides s) s d2) (\<lambda>(d3, s3).
             (let (d4, w4) = pick_file w2 d3
              in and_then (apply_mustache s3 w4 d4) (\<lambda>d5.
                   and_then (hit_vector_step s3 w4 (grid_normalize s3 w4 d5)) (\<lambda>(d6, s6, w6).
                     (let (d7, w7) = apply_scale s6 w6 d6;
                          (d8, w8) = apply_flips s6 w7 d7;
                          d9 = prepend_baseFolder s6 d8
                      in and_then (run_overrides (this_postOverrides s6) s6 d9) (\<lambda>(d10, s10).
                           and_then (record_position s10 w8 d10) (\<lambda>w10.
                             Inr (d10, s10, w10))))))))))"


section \<open>Example configurations\<close>

text \<open>
  A scene with a grid of 100 pixels, a random source that always draws \<open>1/4\<close>, one
  cached asset of 200 by 100 pixels, and a probe that measures every asset as 64 by 64.
\<close>

definition example_world :: world where
  "example_world =
     \<lparr>canvas_grid_size = Num 100,
      random_draws = (\<lambda>n. 1 / 4),
      random_pos = 0,
      cachedPositions = Map.empty,
      fileCache = [''beam.webm'' \<mapsto> \<lparr>px = Num 200, py = Num 100\<rparr>],
      getDimensions = (\<lambda>p. Inr \<lparr>px = Num 64, py = Num 64\<rparr>),
      probed = [],
      Handlebars = (\<lambda>f m. Inl TemplateError)\<rparr>"

text \<open>\<open>new EffectSection(seq, "beam.webm").atLocation({x: 0, y: 0}).reachTowards({x: 100, y: 0})\<close>\<close>

definition reach_section :: EffectSection where
  "reach_section =
     (new_EffectSection example_world (FStr ''beam.webm''))
       \<lparr>this_from := Some (Point \<lparr>px = Num 0, py = Num 0\<rparr>),
        this_to := Some (Point \<lparr>px = Num 100, py = Num 0\<rparr>),
        this_rotationOnly := False\<rparr>"

text \<open>The descriptor of \<open>reach_section\<close> after its origin and target are resolved.\<close>

definition reach_resolved :: data where
  "reach_resolved =
     (initial_data reach_section)
       \<lparr>data_anchor := \<lparr>px = Num 0, py = Num (1 / 2)\<rparr>,
        anchor_shared := False,
        data_position := \<lparr>px = Num 0, py = Num 0\<rparr>,
        data_distance := Num 100,
        data_rotation := Num 0\<rparr>"


text \<open>A token one grid unit wide and high, centred on the origin.\<close>

definition example_token :: location where
  "example_token = Token \<lparr>px = Num 0, py = Num 0\<rparr> (Some (Num 1)) (Some (Num 1))"

text \<open>The descriptor of a run that returned one.\<close>

definition descriptor_of :: "error + data \<times> EffectSection \<times> world \<Rightarrow> data option" where
  "descriptor_of r = (case r of Inl e \<Rightarrow> None | Inr (d, s, w) \<Rightarrow> Some d)"

text \<open>An override that sets the rotation: \<open>(effect, data) => { data.rotation = 1; return data; }\<close>\<close>

definition rotating_hook :: hook where
  "rotating_hook c d = Inr (d\<lparr>data_rotation := Num 1\<rparr>, c)"

text \<open>\<open>new EffectSection(seq, "beam.webm").atLocation({x: 0, y: 0}).addOverride(...)\<close>\<close>

definition hooked_section :: EffectSection where
  "hooked_section =
     (new_EffectSection example_world (FStr ''beam.webm''))
       \<lparr>this_from := Some (Point \<lparr>px = Num 0, py = Num 0\<rparr>),
        this_overrides := [rotating_hook]\<rparr>"

text \<open>
  An override that reads the section:
  \<open>(effect, data) => { data.fadeIn = effect._gridSize * 5; return data; }\<close>
\<close>

definition fading_hook :: hook where
  "fading_hook c d = Inr (d\<lparr>data_fadeIn := js_mul (this_gridSize c) (Num 5)\<rparr>, c)"

text \<open>\<open>new EffectSection(seq, "beam.webm").atLocation({x: 0, y: 0}).randomRotation().addOverride(...)\<close>\<close>

definition spin_section :: EffectSection where
  "spin_section =
     (new_EffectSection example_world (FStr ''beam.webm''))
       \<lparr>this_from := Some (Point \<lparr>px = Num 0, py = Num 0\<rparr>),
        this_randomRotation := True,
        this_overrides := [fading_hook]\<rparr>"

text \<open>Both coordinates divided by 2.\<close>

definition halved :: "point \<Rightarrow> point" where
  "halved p = \<lparr>px = js_div (px p) (Num 2), py = js_div (py p) (Num 2)\<rparr>"


text \<open>\<open>new EffectSection(seq, "beam.webm").atLocation("n")\<close>\<close>

definition follower_section :: EffectSection where
  "follower_section =
     (new_EffectSection example_world (FStr ''beam.webm''))
       \<lparr>this_from := Some (NameRef ''n'')\<rparr>"

text \<open>The example world with the position (30, 40) recorded under \<open>n\<close> for repetition 0.\<close>

definition named_world :: world where
  "named_world = insertCachedPosition example_world ''n'' 0 \<lparr>px = Num 30, py = Num 40\<rparr>"

text \<open>A world with other caches and another list of probed paths.\<close>

definition with_caches ::
  "(string \<times> nat \<Rightarrow> point option) \<Rightarrow> (string \<Rightarrow> point option) \<Rightarrow> string list \<Rightarrow> world \<Rightarrow> world" where
  "with_caches cp fc pl w = w\<lparr>cachedPositions := cp, fileCache := fc, probed := pl\<rparr>"

text \<open>The world of a result, changed by \<open>u\<close>.\<close>

definition in_world :: "(world \<Rightarrow> world) \<Rightarrow> error + 'a \<times> world \<Rightarrow> error + 'a \<times> world" where
  "in_world u r = (case r of Inl e \<Rightarrow> Inl e | Inr (v, w) \<Rightarrow> Inr (v, u w))"

text \<open>
  Two worlds with the same scene: the same grid size, random source, probe and template
  engine; the position of the random source and the caches may differ.
\<close>

definition same_scene :: "world \<Rightarrow> world \<Rightarrow> bool" where
  "same_scene w w' \<longleftrightarrow>
     canvas_grid_size w' = canvas_grid_size w \<and> random_draws w' = random_draws w
     \<and> getDimensions w' = getDimensions w \<and> Handlebars w' = Handlebars w"

text \<open>
  The second of two consecutive runs of the same effect on the same sequence: it starts
  from the section and the caches as the first run left them, with the random source
  seeded as for the first run.
\<close>

definition rerun :: "EffectSection \<Rightarrow> world \<Rightarrow> error + data \<times> EffectSection \<times> world" where
  "rerun s w =
     (case sanitizeData s w of
        Inl e \<Rightarrow> Inl e
      | Inr (d, s', w') \<Rightarrow> sanitizeData s' (w'\<lparr>random_pos := random_pos w\<rparr>))"

text \<open>The example world with the position (30, 40) recorded under \<open>beam\<close> for repetition 0.\<close>

definition beam_world :: world where
  "beam_world = insertCachedPosition example_world ''beam'' 0 \<lparr>px = Num 30, py = Num 40\<rparr>"

text \<open>
  \<open>new EffectSection(seq, "beam.webm").atLocation("beam").missed()\<close>: an effect without a
  name of its own is recorded under the stem of its file, which is the name it
  resolves.
\<close>

definition self_section :: EffectSection where
  "self_section =
     (new_EffectSection example_world (FStr ''beam.webm''))
       \<lparr>this_from := Some (NameRef ''beam''),
        this_missed := True\<rparr>"

text \<open>\<open>new EffectSection(seq, "beam.webm").atLocation({x: 0, y: 0})\<close>\<close>

definition plain_section :: EffectSection where
  "plain_section =
     (new_EffectSection example_world (FStr ''beam.webm''))
       \<lparr>this_from := Some (Point \<lparr>px = Num 0, py = Num 0\<rparr>)\<rparr>"

text \<open>The example world with a random source that always draws \<open>3/4\<close>.\<close>

definition late_world :: world where
  "late_world = example_world\<lparr>random_draws := (\<lambda>n. 3 / 4)\<rparr>"

text \<open>The section with both random mirrors switched off.\<close>

definition unmirrored :: "EffectSection \<Rightarrow> EffectSection" where
  "unmirrored s = s\<lparr>this_randomX := False, this_randomY := False\<rparr>"

text \<open>\<open>reach_section\<close> with \<open>.anchor({x: 0.3, y: 0.7}).startPoint(50)\<close>\<close>

definition anchored_section :: EffectSection where
  "anchored_section =
     reach_section\<lparr>this_anchor := Some \<lparr>px = Num (3 / 10), py = Num (7 / 10)\<rparr>,
                   this_startPoint := Num 50\<rparr>"

text \<open>The descriptor of \<open>anchored_section\<close>.\<close>

definition anchored_result :: data where
  "anchored_result =
     (initial_data anchored_section)
       \<lparr>data_position := \<lparr>px = Num 0, py = Num 0\<rparr>,
        data_anchor := \<lparr>px = Num (1 / 4), py = Num (7 / 10)\<rparr>,
        data_scale := \<lparr>px = Num (2 / 3), py = Num (2 / 3)\<rparr>,
        data_rotation := Num 0,
        data_distance := Num 100\<rparr>"

section \<open>Properties\<close>

subsection \<open>Running the pipeline step by step\<close>

lemma fields_of_with_fields [simp]:
  "fields_of (with_fields c s) = c"
  "with_fields (fields_of s) s = s"
  "this_overrides (with_fields c s) = this_overrides s"
  "this_postOverrides (with_fields c s) = this_postOverrides s"
  by (cases s; simp add: fields_of_def with_fields_def EffectFields.defs)+

lemma fields_of_sel [simp]:
  "this_file (fields_of s) = this_file s"
  "this_baseFolder (fields_of s) = this_baseFolder s"
  "this_from (fields_of s) = this_from s"
  "this_to (fields_of s) = this_to s"
  "this_scaleMin (fields_of s) = this_scaleMin s"
  "this_scaleMax (fields_of s) = this_scaleMax s"
  "this_anchor (fields_of s) = this_anchor s"
  "this_randomRotation (fields_of s) = this_randomRotation s"
  "this_rotationOnly (fields_of s) = this_rotationOnly s"
  "this_missed (fields_of s) = this_missed s"
  "this_startPoint (fields_of s) = this_startPoint s"
  "this_endPoint (fields_of s) = this_endPoint s"
  "this_mustache (fields_of s) = this_mustache s"
  "this_JB2A (fields_of s) = this_JB2A s"
  "this_randomX (fields_of s) = this_randomX s"
  "this_randomY (fields_of s) = this_randomY s"
  "this_playbackRate (fields_of s) = this_playbackRate s"
  "this_gridSize (fields_of s) = this_gridSize s"
  "this_name (fields_of s) = this_name s"
  "this_fadeIn (fields_of s) = this_fadeIn s"
  "this_fadeOut (fields_of s) = this_fadeOut s"
  "this_currentRepetition (fields_of s) = this_currentRepetition s"
  by (simp_all add: fields_of_def EffectFields.defs)

lemma with_fields_sel [simp]:
  "this_file (with_fields c s) = this_file c"
  "this_baseFolder (with_fields c s) = this_baseFolder c"
  "this_from (with_fields c s) = this_from c"
  "this_to (with_fields c s) = this_to c"
  "this_scaleMin (with_fields c s) = this_scaleMin c"
  "this_scaleMax (with_fields c s) = this_scaleMax c"
  "this_anchor (with_fields c s) = this_anchor c"
  "this_randomRotation (with_fields c s) = this_randomRotation c"
  "this_rotationOnly (with_fields c s) = this_rotationOnly c"
  "this_missed (with_fields c s) = this_missed c"
  "this_startPoint (with_fields c s) = this_startPoint c"
  "this_endPoint (with_fields c s) = this_endPoint c"
  "this_mustache (with_fields c s) = this_mustache c"
  "this_JB2A (with_fields c s) = this_JB2A c"
  "this_randomX (with_fields c s) = this_randomX c"
  "this_randomY (with_fields c s) = this_randomY c"
  "this_playbackRate (with_fields c s) = this_playbackRate c"
  "this_gridSize (with_fields c s) = this_gridSize c"
  "this_name (with_fields c s) = this_name c"
  "this_fadeIn (with_fields c s) = this_fadeIn c"
  "this_fadeOut (with_fields c s) = this_fadeOut c"
  "this_currentRepetition (with_fields c s) = this_currentRepetition c"
  by (simp_all add: with_fields_def EffectFields.defs)

lemma run_overrides_lists:
  "run_overrides hs s d = Inr (d', s') \<Longrightarrow>
     this_overrides s' = this_overrides s \<and> this_postOverrides s' = this_postOverrides s"
proof (induction hs arbitrary: s d)
  case Nil
  then show ?case by simp
next
  case (Cons h hs)
  then show ?case by (auto split: sum.splits)
qed

lemma sanitizeData_steps:
  assumes "resolve_origin_target s w (initial_data s) = Inr (d1, w1)"
    and "add_random_rotation s w1 d1 = (d2, w2)"
    and "run_overrides (this_overrides s) s d2 = Inr (d3, s3)"
    and "pick_file w2 d3 = (d4, w4)"
    and "apply_mustache s3 w4 d4 = Inr d5"
    and "hit_vector_step s3 w4 (grid_normalize s3 w4 d5) = Inr (d6, s6, w6)"
    and "apply_scale s6 w6 d6 = (d7, w7)"
    and "apply_flips s6 w7 d7 = (d8, w8)"
    and "run_overrides (this_postOverrides s6) s6 (prepend_baseFolder s6 d8) = Inr (d10, s10)"
    and "record_position s10 w8 d10 = Inr w10"
  shows "sanitizeData s w = Inr (d10, s10, w10)"
  using assms by (simp add: sanitizeData_def and_then_def)

lemma sanitizeData_InrE:
  assumes "sanitizeData s w = Inr (d10, s10, w10)"
  obtains d1 w1 d2 w2 d3 s3 d4 w4 d5 d6 s6 w6 d7 w7 d8 w8 where
    "resolve_origin_target s w (initial_data s) = Inr (d1, w1)"
    "add_random_rotation s w1 d1 = (d2, w2)"
    "run_overrides (this_overrides s) s d2 = Inr (d3, s3)"
    "pick_file w2 d3 = (d4, w4)"
    "apply_mustache s3 w4 d4 = Inr d5"
    "hit_vector_step s3 w4 (grid_normalize s3 w4 d5) = Inr (d6, s6, w6)"
    "apply_scale s6 w6 d6 = (d7, w7)"
    "apply_flips s6 w7 d7 = (d8, w8)"
    "run_overrides (this_postOverrides s6) s6 (prepend_baseFolder s6 d8) = Inr (d10, s10)"
    "record_position s10 w8 d10 = Inr w10"
  using assms
  by (auto simp add: sanitizeData_def and_then_def split: sum.splits prod.splits)

text \<open>A section without overrides: the two runs of overrides leave everything as it is.\<close>

lemma sanitizeData_plain_steps:
  assumes "this_overrides s = []" and "this_postOverrides s = []"
    and "resolve_origin_target s w (initial_data s) = Inr (d1, w1)"
    and "add_random_rotation s w1 d1 = (d2, w2)"
    and "pick_file w2 d2 = (d4, w4)"
    and "apply_mustache s w4 d4 = Inr d5"
    and "hit_vector_step s w4 (grid_normalize s w4 d5) = Inr (d6, s6, w6)"
    and "this_postOverrides s6 = []"
    and "apply_scale s6 w6 d6 = (d7, w7)"
    and "apply_flips s6 w7 d7 = (d8, w8)"
    and "record_position s6 w8 (prepend_baseFolder s6 d8) = Inr w10"
  shows "sanitizeData s w = Inr (prepend_baseFolder s6 d8, s6, w10)"
  using assms by (simp add: sanitizeData_def and_then_def)

lemma hit_vector_step_lists:
  "hit_vector_step s w d = Inr (d', s', w') \<Longrightarrow>
     this_overrides s' = this_overrides s \<and> this_postOverrides s' = this_postOverrides s"
  by (auto simp add: hit_vector_step_def calculateHitVector_def and_then_def Let_def
      split: if_splits sum.splits prod.splits)

lemma sanitizeData_plain_InrE:
  assumes "sanitizeData s w = Inr (d10, s10, w10)"
    and "this_overrides s = []" and "this_postOverrides s = []"
  obtains d1 w1 d2 w2 d4 w4 d5 d6 w6 d7 w7 d8 w8 where
    "resolve_origin_target s w (initial_data s) = Inr (d1, w1)"
    "add_random_rotation s w1 d1 = (d2, w2)"
    "pick_file w2 d2 = (d4, w4)"
    "apply_mustache s w4 d4 = Inr d5"
    "hit_vector_step s w4 (grid_normalize s w4 d5) = Inr (d6, s10, w6)"
    "this_postOverrides s10 = []"
    "apply_scale s10 w6 d6 = (d7, w7)"
    "apply_flips s10 w7 d7 = (d8, w8)"
    "d10 = prepend_baseFolder s10 d8"
    "record_position s10 w8 d10 = Inr w10"
proof -
  from assms(1) obtain d1 w1 d2 w2 d3 s3 d4 w4 d5 d6 s6 w6 d7 w7 d8 w8 where st:
    "resolve_origin_target s w (initial_data s) = Inr (d1, w1)"
    "add_random_rotation s w1 d1 = (d2, w2)"
    "run_overrides (this_overrides s) s d2 = Inr (d3, s3)"
    "pick_file w2 d3 = (d4, w4)"
    "apply_mustache s3 w4 d4 = Inr d5"
    "hit_vector_step s3 w4 (grid_normalize s3 w4 d5) = Inr (d6, s6, w6)"
    "apply_scale s6 w6 d6 = (d7, w7)"
    "apply_flips s6 w7 d7 = (d8, w8)"
    "run_overrides (this_postOverrides s6) s6 (prepend_baseFolder s6 d8) = Inr (d10, s10)"
    "record_position s10 w8 d10 = Inr w10"
    by (rule sanitizeData_InrE)
  from st(3) assms(2) have e3: "d3 = d2" "s3 = s" by simp_all
  from hit_vector_step_lists [OF st(6)] assms(3) e3 have p6: "this_postOverrides s6 = []"
    by simp
  with st(9) have e10: "d10 = prepend_baseFolder s6 d8" "s10 = s6" by auto
  show thesis
    using that [of d1 w1 d2 w2 d4 w4 d5 d6 w6 d7 w7 d8 w8] st p6 e3 e10 by simp
qed

lemma calculatePositions_points:
  "calculatePositions s w (Point p) (Some (Point q)) False = Inr ((p, Some q), w)"
  by (simp add: calculatePositions_def and_then_def resolve_name_def
      calculateMissedPosition_def opt_truthy_def)

lemma resolve_name_gridSize:
  "resolve_name (s\<lparr>this_gridSize := x\<rparr>) = resolve_name s"
  by (intro ext) (simp add: resolve_name_def split: location.splits)

lemma calculatePositions_gridSize:
  "calculatePositions (s\<lparr>this_gridSize := x\<rparr>) = calculatePositions s"
  by (intro ext) (simp add: calculatePositions_def resolve_name_gridSize cong: option.case_cong)

lemma gridSize_irrelevant:
  "initial_data (s\<lparr>this_gridSize := x\<rparr>) = initial_data s"
  "resolve_origin_target (s\<lparr>this_gridSize := x\<rparr>) w d = resolve_origin_target s w d"
  "add_random_rotation (s\<lparr>this_gridSize := x\<rparr>) w d = add_random_rotation s w d"
  "apply_mustache (s\<lparr>this_gridSize := x\<rparr>) w d = apply_mustache s w d"
  "configured_scale (s\<lparr>this_gridSize := x\<rparr>) w = configured_scale s w"
  "prepend_baseFolder (s\<lparr>this_gridSize := x\<rparr>) d = prepend_baseFolder s d"
  "getName (s\<lparr>this_gridSize := x\<rparr>) d = getName s d"
  by (simp_all add: initial_data_def resolve_origin_target_def calculatePositions_gridSize
      add_random_rotation_def apply_mustache_def configured_scale_def
      prepend_baseFolder_def getName_def
      cong: option.case_cong if_cong scale_val.case_cong)

subsection \<open>File names that carry their dimensions\<close>

lemmas number_defs =
  js_Number_def trim_def is_space_def signed_literal_def decimal_literal_def
  is_digit_def digit_of_def exponent_of_def scale10_def js_isNaN_def elem_at_def

lemma dimensions_webm:
  "dimensions_from_name ''fire_200x150.webm'' = Some \<lparr>px = Num 200, py = Num 150\<rparr>"
  by (simp add: dimensions_from_name_def toLowerCase_def lower_char_def number_defs)























subsection \<open>The hit vector\<close>

lemma reach_section_fields:
  "this_file reach_section = FStr ''beam.webm''"
  "this_baseFolder reach_section = []"
  "this_from reach_section = Some (Point \<lparr>px = Num 0, py = Num 0\<rparr>)"
  "this_to reach_section = Some (Point \<lparr>px = Num 100, py = Num 0\<rparr>)"
  "this_anchor reach_section = None"
  "this_scaleMin reach_section = SFalse"
  "\<not> this_missed reach_section"
  "\<not> this_rotationOnly reach_section"
  "\<not> this_randomRotation reach_section"
  "\<not> this_JB2A reach_section"
  "\<not> this_randomX reach_section"
  "\<not> this_randomY reach_section"
  "this_startPoint reach_section = Num 0"
  "this_endPoint reach_section = Num 0"
  "this_gridSize reach_section = Num 100"
  "this_mustache reach_section = None"
  "this_overrides reach_section = []"
  "this_postOverrides reach_section = []"
  "this_name reach_section = None"
  "this_currentRepetition reach_section = 0"
  by (simp_all add: reach_section_def new_EffectSection_def example_world_def)

lemma reach_resolved_fields:
  "data_file reach_resolved = FStr ''beam.webm''"
  "data_distance reach_resolved = Num 100"
  "data_rotation reach_resolved = Num 0"
  "data_scale reach_resolved = \<lparr>px = Num 1, py = Num 1\<rparr>"
  "data_anchor reach_resolved = \<lparr>px = Num 0, py = Num (1 / 2)\<rparr>"
  "data_position reach_resolved = \<lparr>px = Num 0, py = Num 0\<rparr>"
  "\<not> anchor_shared reach_resolved"
  by (simp_all add: reach_resolved_def initial_data_def reach_section_fields)

lemma reach_resolve:
  "resolve_origin_target reach_section example_world (initial_data reach_section) =
     Inr (reach_resolved, example_world)"
  by (simp add: resolve_origin_target_def reach_section_fields calculatePositions_points
      and_then_def opt_truthy_def Ray_def js_sub_def atan2_def reach_resolved_def)

lemma reach_dimensions:
  "getFileDimensions reach_section example_world (FStr ''beam.webm'') =
     Inr (\<lparr>px = Num 200, py = Num 100\<rparr>, example_world)"
  by (simp add: getFileDimensions_def reach_section_fields) (simp add: example_world_def)

lemma hit_vector_step_reach:
  assumes "\<not> this_rotationOnly s" and "data_distance d \<noteq> Num 0"
    and "getFileDimensions s w (data_file d) = Inr (dims, w')"
  shows "hit_vector_step s w d =
           Inr (d\<lparr>data_scale :=
                     \<lparr>px = js_div (data_distance d)
                             (js_sub (js_sub (px dims) (this_startPoint s)) (this_endPoint s)),
                      py = js_max (Num (4 / 10))
                             (js_div (data_distance d)
                                (js_sub (js_sub (px dims) (this_startPoint s)) (this_endPoint s)))\<rparr>,
                   data_anchor := (data_anchor d)\<lparr>px := js_div (this_startPoint s) (px dims)\<rparr>\<rparr>,
                if anchor_shared d
                then s\<lparr>this_anchor :=
                         Some ((data_anchor d)\<lparr>px := js_div (this_startPoint s) (px dims)\<rparr>)\<rparr>
                else s,
                w')"
  using assms
  by (simp add: hit_vector_step_def calculateHitVector_def getTrueLength_def Let_def)

lemma reach_final_grid:
  "sanitizeData (reach_section\<lparr>this_gridSize := gs\<rparr>) example_world =
     Inr (reach_resolved\<lparr>data_scale := \<lparr>px = Num (1 / 2), py = Num (1 / 2)\<rparr>\<rparr>,
          reach_section\<lparr>this_gridSize := gs\<rparr>,
          insertCachedPosition example_world ''beam'' 0 \<lparr>px = Num 0, py = Num 0\<rparr>)"
proof (rule sanitizeData_steps)
  let ?s = "reach_section\<lparr>this_gridSize := gs\<rparr>"
  let ?d = "reach_resolved\<lparr>data_scale := \<lparr>px = Num (1 / 2), py = Num (1 / 2)\<rparr>\<rparr>"
  show "resolve_origin_target ?s example_world (initial_data ?s) =
      Inr (reach_resolved, example_world)"
    by (simp add: gridSize_irrelevant reach_resolve)
  show "add_random_rotation ?s example_world reach_resolved = (reach_resolved, example_world)"
    by (simp add: add_random_rotation_def reach_section_fields reach_resolved_fields)
  show "run_overrides (this_overrides ?s) ?s reach_resolved = Inr (reach_resolved, ?s)"
    by (simp add: reach_section_fields)
  show "pick_file example_world reach_resolved = (reach_resolved, example_world)"
    by (simp add: pick_file_def reach_resolved_fields)
  show "apply_mustache ?s example_world reach_resolved = Inr reach_resolved"
    by (simp add: apply_mustache_def reach_section_fields)
  have dims: "getFileDimensions ?s example_world (FStr ''beam.webm'') =
      Inr (\<lparr>px = Num 200, py = Num 100\<rparr>, example_world)"
    using reach_dimensions by (simp add: getFileDimensions_def)
  have "hit_vector_step ?s example_world (grid_normalize ?s example_world reach_resolved) =
        Inr ((grid_normalize ?s example_world reach_resolved)
               \<lparr>data_scale := \<lparr>px = Num (1 / 2), py = Num (1 / 2)\<rparr>,
                data_anchor := \<lparr>px = Num 0, py = Num (1 / 2)\<rparr>\<rparr>,
             ?s, example_world)"
    using dims
    by (simp add: hit_vector_step_def calculateHitVector_def getTrueLength_def Let_def
        grid_normalize_def reach_section_fields reach_resolved_fields js_sub_def)
  also have "(grid_normalize ?s example_world reach_resolved)
               \<lparr>data_scale := \<lparr>px = Num (1 / 2), py = Num (1 / 2)\<rparr>,
                data_anchor := \<lparr>px = Num 0, py = Num (1 / 2)\<rparr>\<rparr> = ?d"
    by (simp add: grid_normalize_def reach_resolved_def)
  finally show "hit_vector_step ?s example_world
          (grid_normalize ?s example_world reach_resolved) = Inr (?d, ?s, example_world)" .
  show "apply_scale ?s example_world ?d = (?d, example_world)"
    by (simp add: apply_scale_def configured_scale_def nullish_def reach_section_fields)
  show "apply_flips ?s example_world ?d = (?d, example_world)"
    by (simp add: apply_flips_def random_flip_def reach_section_fields)
  show "run_overrides (this_postOverrides ?s) ?s (prepend_baseFolder ?s ?d) = Inr (?d, ?s)"
    by (simp add: prepend_baseFolder_def reach_section_fields reach_resolved_fields)
  show "record_position ?s example_world ?d =
        Inr (insertCachedPosition example_world ''beam'' 0 \<lparr>px = Num 0, py = Num 0\<rparr>)"
    by (simp add: record_position_def getName_def and_then_def file_stem_def
        reach_section_fields reach_resolved_fields)
qed

lemma reach_final:
  "sanitizeData reach_section example_world =
     Inr (reach_resolved\<lparr>data_scale := \<lparr>px = Num (1 / 2), py = Num (1 / 2)\<rparr>\<rparr>,
          reach_section,
          insertCachedPosition example_world ''beam'' 0 \<lparr>px = Num 0, py = Num 0\<rparr>)"
  using reach_final_grid [of "Num 100"]
  by (simp add: reach_section_def new_EffectSection_def example_world_def)

text \<open>
  C1: in reach mode (\<open>_rotationOnly\<close> false) with a travel distance other than 0, once
  the asset's dimensions are known, the hit vector sets \<open>scale.x\<close> to the distance
  divided by \<open>dimensions.x - startPoint - endPoint\<close>, \<open>scale.y\<close> to the larger of 0.4
  and that, and \<open>anchor.x\<close> to \<open>startPoint / dimensions.x\<close>, and leaves the rest of the
  descriptor alone. For the origin (0,0), the target (100,0), an asset 200 wide and
  both trim points 0, the descriptor that \<open>_sanitizeData\<close> returns has scale
  (0.5, 0.5) and \<open>anchor.x = 0\<close>.
\<close>

theorem hit_vector_reach:
  "(\<not> this_rotationOnly s \<and> data_distance d \<noteq> Num 0
      \<and> getFileDimensions s w (data_file d) = Inr (dims, w')
    \<longrightarrow> (\<exists>d' s'.
           hit_vector_step s w d = Inr (d', s', w')
           \<and> px (data_scale d') =
               js_div (data_distance d)
                 (js_sub (js_sub (px dims) (this_startPoint s)) (this_endPoint s))
           \<and> py (data_scale d') = js_max (Num (4 / 10)) (px (data_scale d'))
           \<and> px (data_anchor d') = js_div (this_startPoint s) (px dims)
           \<and> py (data_anchor d') = py (data_anchor d)
           \<and> d'\<lparr>data_scale := data_scale d, data_anchor := data_anchor d\<rparr> = d))
   \<and> (\<exists>d s' w'.
         sanitizeData reach_section example_world = Inr (d, s', w')
         \<and> data_distance d = Num 100
         \<and> data_scale d = \<lparr>px = Num (1 / 2), py = Num (1 / 2)\<rparr>
         \<and> px (data_anchor d) = Num 0)"
proof (intro conjI impI)
  assume "\<not> this_rotationOnly s \<and> data_distance d \<noteq> Num 0
      \<and> getFileDimensions s w (data_file d) = Inr (dims, w')"
  then have "hit_vector_step s w d =
           Inr (d\<lparr>data_scale :=
                     \<lparr>px = js_div (data_distance d)
                             (js_sub (js_sub (px dims) (this_startPoint s)) (this_endPoint s)),
                      py = js_max (Num (4 / 10))
                             (js_div (data_distance d)
                                (js_sub (js_sub (px dims) (this_startPoint s)) (this_endPoint s)))\<rparr>,
                   data_anchor := (data_anchor d)\<lparr>px := js_div (this_startPoint s) (px dims)\<rparr>\<rparr>,
                if anchor_shared d
                then s\<lparr>this_anchor :=
                         Some ((data_anchor d)\<lparr>px := js_div (this_startPoint s) (px dims)\<rparr>)\<rparr>
                else s,
                w')"
    by (simp add: hit_vector_step_reach)
  then show "\<exists>d' s'.
           hit_vector_step s w d = Inr (d', s', w')
           \<and> px (data_scale d') =
               js_div (data_distance d)
                 (js_sub (js_sub (px dims) (this_startPoint s)) (this_endPoint s))
           \<and> py (data_scale d') = js_max (Num (4 / 10)) (px (data_scale d'))
           \<and> px (data_anchor d') = js_div (this_startPoint s) (px dims)
           \<and> py (data_anchor d') = py (data_anchor d)
           \<and> d'\<lparr>data_scale := data_scale d, data_anchor := data_anchor d\<rparr> = d"
    by simp
next
  show "\<exists>d s' w'.
         sanitizeData reach_section example_world = Inr (d, s', w')
         \<and> data_distance d = Num 100
         \<and> data_scale d = \<lparr>px = Num (1 / 2), py = Num (1 / 2)\<rparr>
         \<and> px (data_anchor d) = Num 0"
    by (simp add: reach_final reach_resolved_fields)
qed

theorem hit_vector_reach_witness:
  "\<not> this_rotationOnly reach_section \<and> data_distance reach_resolved \<noteq> Num 0
   \<and> getFileDimensions reach_section example_world (data_file reach_resolved) =
       Inr (\<lparr>px = Num 200, py = Num 100\<rparr>, example_world)
   \<and> (\<exists>d' s'.
         hit_vector_step reach_section example_world reach_resolved = Inr (d', s', example_world)
         \<and> px (data_scale d') = Num (1 / 2)
         \<and> py (data_scale d') = Num (1 / 2)
         \<and> px (data_anchor d') = Num 0)"
proof -
  have pre: "\<not> this_rotationOnly reach_section \<and> data_distance reach_resolved \<noteq> Num 0
      \<and> getFileDimensions reach_section example_world (data_file reach_resolved) =
          Inr (\<lparr>px = Num 200, py = Num 100\<rparr>, example_world)"
    by (simp add: reach_section_fields reach_resolved_fields reach_dimensions)
  with hit_vector_reach [of reach_section reach_resolved example_world
      "\<lparr>px = Num 200, py = Num 100\<rparr>" example_world]
  obtain d' s' where
    "hit_vector_step reach_section example_world reach_resolved = Inr (d', s', example_world)"
    "px (data_scale d') =
       js_div (data_distance reach_resolved)
         (js_sub (js_sub (px \<lparr>px = Num 200, py = Num 100\<rparr>) (this_startPoint reach_section))
            (this_endPoint reach_section))"
    "py (data_scale d') = js_max (Num (4 / 10)) (px (data_scale d'))"
    "px (data_anchor d') = js_div (this_startPoint reach_section) (px \<lparr>px = Num 200, py = Num 100\<rparr>)"
    by blast
  then have "hit_vector_step reach_section example_world reach_resolved = Inr (d', s', example_world)
      \<and> px (data_scale d') = Num (1 / 2) \<and> py (data_scale d') = Num (1 / 2)
      \<and> px (data_anchor d') = Num 0"
    by (simp add: reach_section_fields reach_resolved_fields js_sub_def)
  with pre show ?thesis by blast
qed

subsection \<open>Missed positions\<close>

lemma random_float_between_Num:
  "random_float_between (Num lo) (Num hi) w =
     (Num (random_draws w (random_pos w) * (hi - lo) + lo), w\<lparr>random_pos := Suc (random_pos w)\<rparr>)"
  by (simp add: random_float_between_def Math_random_def js_sub_def)

lemma missed_value:
  assumes "canvas_grid_size w = Num g"
    and "nullish (data_width target) (Num 1) = Num wd"
    and "nullish (data_height target) (Num 1) = Num ht"
  shows "calculateMissedPosition w target \<lparr>px = Num x, py = Num y\<rparr> True =
     (let r = (\<lambda>i. random_draws w (random_pos w + i));
          sx = (if r 1 < 1 / 2 then - 1 else 1);
          sy = (if r 2 < 1 / 2 then - 1 else 1)
      in if r 0 < 1 / 2
         then \<lparr>px = Num (x + (wd * g / 2 + (r 3 * (g / 2 - g / 5) + g / 5)) * sx),
               py = Num (y + (r 4 * ((ht * g / 2 + g / 2) - g / 5) + g / 5) * sy)\<rparr>
         else \<lparr>px = Num (x + (r 3 * ((wd * g / 2 + g / 2) - g / 5) + g / 5) * sx),
               py = Num (y + (ht * g / 2 + (r 4 * (g / 2 - g / 5) + g / 5)) * sy)\<rparr>,
      w\<lparr>random_pos := random_pos w + 5\<rparr>)"
  using assms
  by (simp add: calculateMissedPosition_def Math_random_def random_float_between_Num flip_of_def Let_def eval_nat_numeral)

text \<open>
  C2: a missed position is drawn from five successive draws \<open>r 0\<close>, ..., \<open>r 4\<close> of the
  random source. The primary axis is X when \<open>r 0 < 1/2\<close> and Y otherwise; the signs
  are \<open>-1\<close> when \<open>r 1 < 1/2\<close> (for X) and when \<open>r 2 < 1/2\<close> (for Y), else \<open>1\<close>. The
  primary axis moves by the half extent plus a value between \<open>g/5\<close> and \<open>g/2\<close>, the
  other axis by a value between \<open>g/5\<close> and its half extent plus \<open>g/2\<close>, each times its
  sign; a reference without \<open>data.width\<close> or \<open>data.height\<close> counts as one grid unit.
  The new coordinate on the primary axis is farther from the old one than the half
  extent, by at least \<open>g/5\<close>: it lies strictly outside the bounding box, and so does
  every point less than \<open>g/5\<close> away from it on that axis. The property is stated for
  a grid size \<open>g\<close> between 1 and \<open>10^4\<close> pixels, a reference of at most \<open>10^3\<close> grid
  units in width and height and coordinates of at most \<open>10^9\<close> in absolute value:
  there every intermediate value is below \<open>2 * 10^9\<close> in absolute value, doubles of
  that size are less than \<open>10^-6\<close> apart, and the margin \<open>g/5\<close> is at least \<open>1/5\<close>, so
  that rounding does not move the result across the edge of the box. Without a bound
  on the coordinates the property is lost to rounding: a coordinate of \<open>10^20\<close> takes
  up an offset of 77.5 without changing.
\<close>

theorem missed_offset_outside:
  assumes "canvas_grid_size w = Num g" and "1 \<le> g" and "g \<le> 10 ^ 4"
    and "nullish (data_width target) (Num 1) = Num wd" and "0 \<le> wd" and "wd \<le> 10 ^ 3"
    and "nullish (data_height target) (Num 1) = Num ht" and "0 \<le> ht" and "ht \<le> 10 ^ 3"
    and "\<bar>x\<bar> \<le> 10 ^ 9" and "\<bar>y\<bar> \<le> 10 ^ 9"
    and "\<forall>n. 0 \<le> random_draws w n \<and> random_draws w n < 1"
  shows "\<exists>x' y'.
           calculateMissedPosition w target \<lparr>px = Num x, py = Num y\<rparr> True =
             (\<lparr>px = Num x', py = Num y'\<rparr>, w\<lparr>random_pos := random_pos w + 5\<rparr>)
           \<and> (let r = (\<lambda>i. random_draws w (random_pos w + i));
                   sx = (if r 1 < 1 / 2 then - 1 else 1);
                   sy = (if r 2 < 1 / 2 then - 1 else 1);
                   t = g / 5
               in if r 0 < 1 / 2
                  then x' = x + (wd * g / 2 + (r 3 * (g / 2 - t) + t)) * sx
                     \<and> y' = y + (r 4 * ((ht * g / 2 + g / 2) - t) + t) * sy
                     \<and> wd * g / 2 + t \<le> \<bar>x' - x\<bar>
                     \<and> (\<forall>e. \<bar>e\<bar> < t \<longrightarrow> wd * g / 2 < \<bar>(x' + e) - x\<bar>)
                  else x' = x + (r 3 * ((wd * g / 2 + g / 2) - t) + t) * sx
                     \<and> y' = y + (ht * g / 2 + (r 4 * (g / 2 - t) + t)) * sy
                     \<and> ht * g / 2 + t \<le> \<bar>y' - y\<bar>
                     \<and> (\<forall>e. \<bar>e\<bar> < t \<longrightarrow> ht * g / 2 < \<bar>(y' + e) - y\<bar>))"
proof -
  define r where "r = (\<lambda>i. random_draws w (random_pos w + i))"
  have g: "0 < g" using assms(2) by simp
  have r01: "0 \<le> r i" "r i < 1" for i
    using assms(12) by (simp_all add: r_def)
  have jitter: "g / 5 \<le> r i * (g / 2 - g / 5) + g / 5" for i
  proof -
    have "0 \<le> r i * (g / 2 - g / 5)"
      using r01 [of i] g by (intro mult_nonneg_nonneg) simp_all
    then show ?thesis by simp
  qed
  have outside: "h + t \<le> \<bar>(c + (h + u) * s) - c\<bar>
      \<and> (\<forall>e. \<bar>e\<bar> < t \<longrightarrow> h < \<bar>((c + (h + u) * s) + e) - c\<bar>)"
    if "t \<le> u" "0 < t" "0 \<le> h" "s = - 1 \<or> s = 1" for h t u c s :: real
    using that by (auto simp add: abs_if)
  have half: "0 \<le> wd * g / 2" "0 \<le> ht * g / 2"
    using assms(5,8) g by simp_all
  have t: "0 < g / 5" using g by simp
  define sx :: real where "sx = (if r 1 < 1 / 2 then - 1 else 1)"
  define sy :: real where "sy = (if r 2 < 1 / 2 then - 1 else 1)"
  have signs: "sx = - 1 \<or> sx = 1" "sy = - 1 \<or> sy = 1"
    by (simp_all add: sx_def sy_def)
  show ?thesis
  proof (cases "r 0 < 1 / 2")
    case True
    define x' where "x' = x + (wd * g / 2 + (r 3 * (g / 2 - g / 5) + g / 5)) * sx"
    define y' where "y' = y + (r 4 * ((ht * g / 2 + g / 2) - g / 5) + g / 5) * sy"
    have "calculateMissedPosition w target \<lparr>px = Num x, py = Num y\<rparr> True =
        (\<lparr>px = Num x', py = Num y'\<rparr>, w\<lparr>random_pos := random_pos w + 5\<rparr>)"
      unfolding missed_value [OF assms(1,4,7)] Let_def r_def [symmetric]
        sx_def [symmetric] sy_def [symmetric] x'_def y'_def
      using True by simp
    moreover have "wd * g / 2 + g / 5 \<le> \<bar>x' - x\<bar>
        \<and> (\<forall>e. \<bar>e\<bar> < g / 5 \<longrightarrow> wd * g / 2 < \<bar>(x' + e) - x\<bar>)"
      unfolding x'_def by (rule outside [OF jitter t half(1) signs(1)])
    ultimately show ?thesis
      unfolding Let_def r_def [symmetric] sx_def [symmetric] sy_def [symmetric]
      using True x'_def y'_def by (intro exI [of _ x'] exI [of _ y']) simp
  next
    case False
    define x' where "x' = x + (r 3 * ((wd * g / 2 + g / 2) - g / 5) + g / 5) * sx"
    define y' where "y' = y + (ht * g / 2 + (r 4 * (g / 2 - g / 5) + g / 5)) * sy"
    have "calculateMissedPosition w target \<lparr>px = Num x, py = Num y\<rparr> True =
        (\<lparr>px = Num x', py = Num y'\<rparr>, w\<lparr>random_pos := random_pos w + 5\<rparr>)"
      unfolding missed_value [OF assms(1,4,7)] Let_def r_def [symmetric]
        sx_def [symmetric] sy_def [symmetric] x'_def y'_def
      using False by simp
    moreover have "ht * g / 2 + g / 5 \<le> \<bar>y' - y\<bar>
        \<and> (\<forall>e. \<bar>e\<bar> < g / 5 \<longrightarrow> ht * g / 2 < \<bar>(y' + e) - y\<bar>)"
      unfolding y'_def by (rule outside [OF jitter t half(2) signs(2)])
    ultimately show ?thesis
      unfolding Let_def r_def [symmetric] sx_def [symmetric] sy_def [symmetric]
      using False x'_def y'_def by (intro exI [of _ x'] exI [of _ y']) simp
  qed
qed

theorem missed_offset_outside_witness:
  "canvas_grid_size example_world = Num 100 \<and> (1 :: real) \<le> 100 \<and> (100 :: real) \<le> 10 ^ 4
   \<and> nullish (data_width example_token) (Num 1) = Num 1
   \<and> nullish (data_height example_token) (Num 1) = Num 1
   \<and> (0 :: real) \<le> 1 \<and> (1 :: real) \<le> 10 ^ 3 \<and> \<bar>0 :: real\<bar> \<le> 10 ^ 9
   \<and> (\<forall>n. 0 \<le> random_draws example_world n \<and> random_draws example_world n < 1)
   \<and> calculateMissedPosition example_world example_token \<lparr>px = Num 0, py = Num 0\<rparr> True =
       (\<lparr>px = Num (- (155 / 2)), py = Num (- 40)\<rparr>,
        example_world\<lparr>random_pos := random_pos example_world + 5\<rparr>)
   \<and> (1 :: real) * 100 / 2 + 100 / 5 \<le> \<bar>- (155 / 2) - 0\<bar>"
proof -
  have pre: "canvas_grid_size example_world = Num 100" "(1 :: real) \<le> 100"
    "(100 :: real) \<le> 10 ^ 4"
    "nullish (data_width example_token) (Num 1) = Num 1" "(0 :: real) \<le> 1"
    "(1 :: real) \<le> 10 ^ 3"
    "nullish (data_height example_token) (Num 1) = Num 1" "(0 :: real) \<le> 1"
    "(1 :: real) \<le> 10 ^ 3" "\<bar>0 :: real\<bar> \<le> 10 ^ 9" "\<bar>0 :: real\<bar> \<le> 10 ^ 9"
    "\<forall>n. 0 \<le> random_draws example_world n \<and> random_draws example_world n < 1"
    by (simp_all add: example_world_def example_token_def nullish_def)
  from missed_offset_outside [OF pre]
  obtain x' y' where
    run: "calculateMissedPosition example_world example_token \<lparr>px = Num 0, py = Num 0\<rparr> True =
        (\<lparr>px = Num x', py = Num y'\<rparr>, example_world\<lparr>random_pos := random_pos example_world + 5\<rparr>)"
    and val: "x' = - (155 / 2) \<and> y' = - 40
        \<and> (1 :: real) * 100 / 2 + 100 / 5 \<le> \<bar>x' - 0\<bar>"
    by (auto simp add: Let_def example_world_def)
  from run val pre show ?thesis by simp
qed

subsection \<open>Effects without a target\<close>

lemma calculatePositions_no_target:
  "calculatePositions s w (Point p) None False = Inr ((p, None), w)"
  by (simp add: calculatePositions_def and_then_def resolve_name_def
      calculateMissedPosition_def opt_truthy_def)

lemma run_overrides_preserve:
  assumes "\<forall>h\<in>set hs. \<forall>c d d' c'. h c d = Inr (d', c') \<longrightarrow> P d' = P d"
    and "run_overrides hs s d = Inr (d', s')"
  shows "P d' = P d"
  using assms
proof (induction hs arbitrary: s d)
  case Nil
  then show ?case by simp
next
  case (Cons h hs)
  from Cons.prems(2) obtain d1 c1 where h: "h (fields_of s) d = Inr (d1, c1)"
    and rest: "run_overrides hs (with_fields c1 s) d1 = Inr (d', s')"
    by (auto split: sum.splits)
  from Cons.prems(1) h have "P d1 = P d" by auto
  moreover from Cons.IH [OF _ rest] Cons.prems(1) have "P d' = P d1" by simp
  ultimately show ?case by simp
qed

lemma hit_vector_step_fields:
  assumes "hit_vector_step s w d = Inr (d', s', w')"
  shows "data_rotation d' = data_rotation d" "data_distance d' = data_distance d"
    "data_position d' = data_position d" "data_file d' = data_file d"
    "s' = s \<or> (\<exists>a. s' = s\<lparr>this_anchor := Some a\<rparr>)"
    "random_pos w' = random_pos w" "random_draws w' = random_draws w"
    "cachedPositions w' = cachedPositions w" "canvas_grid_size w' = canvas_grid_size w"
  using assms
  by (auto simp add: hit_vector_step_def calculateHitVector_def getFileDimensions_def Let_def
      split: if_splits sum.splits option.splits prod.splits)

lemma calculatePositions_not_missed:
  assumes "calculatePositions s w from_loc to_loc False = Inr (r, w')"
  shows "w' = w"
  using assms
  by (auto simp add: calculatePositions_def and_then_def calculateMissedPosition_def Let_def
      split: sum.splits option.splits if_splits prod.splits)

lemma resolve_no_target:
  assumes "this_to s = None" and "resolve_origin_target s w d0 = Inr (d1, w1)"
  shows "data_distance d1 = data_distance d0" and "data_rotation d1 = data_rotation d0"
  using assms
  by (auto simp add: resolve_origin_target_def and_then_def opt_truthy_def Let_def
      split: option.splits if_splits sum.splits prod.splits)

lemma resolve_not_missed:
  assumes "\<not> this_missed s" and "resolve_origin_target s w d0 = Inr (d1, w1)"
  shows "w1 = w"
  using assms
  by (auto simp add: resolve_origin_target_def and_then_def Let_def
      dest: calculatePositions_not_missed
      split: option.splits if_splits sum.splits prod.splits)

lemma later_steps_fields:
  "data_rotation (fst (pick_file w d)) = data_rotation d"
  "data_distance (fst (pick_file w d)) = data_distance d"
  "data_rotation (grid_normalize s w d) = data_rotation d"
  "data_distance (grid_normalize s w d) = data_distance d"
  "data_rotation (fst (apply_scale s w d)) = data_rotation d"
  "data_distance (fst (apply_scale s w d)) = data_distance d"
  "data_rotation (fst (apply_flips s w d)) = data_rotation d"
  "data_distance (fst (apply_flips s w d)) = data_distance d"
  "data_rotation (prepend_baseFolder s d) = data_rotation d"
  "data_distance (prepend_baseFolder s d) = data_distance d"
  by (simp_all add: pick_file_def grid_normalize_def apply_scale_def apply_flips_def
      prepend_baseFolder_def split_def Let_def split: file_val.splits)

lemma apply_mustache_fields:
  assumes "apply_mustache s w d = Inr d'"
  shows "data_rotation d' = data_rotation d" and "data_distance d' = data_distance d"
  using assms by (auto simp add: apply_mustache_def split: option.splits sum.splits)

text \<open>
  C4, amended: when no target is set, the missed flag is unset, and every override,
  whatever it reads from the section or assigns to it, returns the travel distance and
  the rotation it was given, a descriptor returned by
  \<open>_sanitizeData\<close> has travel distance 0, and its rotation is 0 without random rotation
  and the next draw of the random source times \<open>\<pi>\<close> with it, which lies in \<open>[0, \<pi>)\<close>
  for a draw in \<open>[0, 1)\<close>.
\<close>

theorem no_target_distance_rotation:
  assumes "this_to s = None" and "\<not> this_missed s"
    and "\<forall>h\<in>set (this_overrides s @ this_postOverrides s). \<forall>c d c' d'.
           h c d = Inr (d', c') \<longrightarrow>
           data_distance d' = data_distance d \<and> data_rotation d' = data_rotation d"
    and "sanitizeData s w = Inr (d, s', w')"
  shows "data_distance d = Num 0
     \<and> data_rotation d =
         (if this_randomRotation s then Num (random_draws w (random_pos w) * pi) else Num 0)
     \<and> (this_randomRotation s \<and> 0 \<le> random_draws w (random_pos w)
          \<and> random_draws w (random_pos w) < 1
        \<longrightarrow> (\<exists>\<theta>. data_rotation d = Num \<theta> \<and> 0 \<le> \<theta> \<and> \<theta> < pi))"
proof -
  from assms(4) obtain d1 w1 d2 w2 d3 s3 d4 w4 d5 d6 s6 w6 d7 w7 d8 w8 where
    st: "resolve_origin_target s w (initial_data s) = Inr (d1, w1)"
    "add_random_rotation s w1 d1 = (d2, w2)"
    "run_overrides (this_overrides s) s d2 = Inr (d3, s3)"
    "pick_file w2 d3 = (d4, w4)"
    "apply_mustache s3 w4 d4 = Inr d5"
    "hit_vector_step s3 w4 (grid_normalize s3 w4 d5) = Inr (d6, s6, w6)"
    "apply_scale s6 w6 d6 = (d7, w7)"
    "apply_flips s6 w7 d7 = (d8, w8)"
    "run_overrides (this_postOverrides s6) s6 (prepend_baseFolder s6 d8) = Inr (d, s')"
    by (rule sanitizeData_InrE)
  let ?r = "random_draws w (random_pos w)"
  let ?rot = "if this_randomRotation s then Num (?r * pi) else Num 0"
  have "w1 = w" using assms(2) st(1) by (rule resolve_not_missed)
  have d1: "data_distance d1 = Num 0" "data_rotation d1 = Num 0"
    using resolve_no_target [OF assms(1) st(1)] by (simp_all add: initial_data_def)
  have d2: "data_distance d2 = Num 0" "data_rotation d2 = ?rot"
    using st(2) d1 \<open>w1 = w\<close>
    by (auto simp add: add_random_rotation_def Math_random_def split: if_splits)
  have pre: "\<forall>h\<in>set (this_overrides s). \<forall>c d d' c'. h c d = Inr (d', c') \<longrightarrow>
      (data_distance d', data_rotation d') = (data_distance d, data_rotation d)"
    using assms(3) by fastforce
  have d3: "data_distance d3 = Num 0" "data_rotation d3 = ?rot"
    using run_overrides_preserve [OF pre st(3)] d2 by simp_all
  have d4: "data_distance d4 = Num 0" "data_rotation d4 = ?rot"
    using later_steps_fields(1,2) [of w2 d3] st(4) d3 by simp_all
  have d5: "data_distance d5 = Num 0" "data_rotation d5 = ?rot"
    using apply_mustache_fields [OF st(5)] d4 by simp_all
  have d6: "data_distance d6 = Num 0" "data_rotation d6 = ?rot"
    using hit_vector_step_fields(1,2) [OF st(6)] d5 by (simp_all add: later_steps_fields)
  have d7: "data_distance d7 = Num 0" "data_rotation d7 = ?rot"
    using later_steps_fields(5,6) [of s6 w6 d6] st(7) d6 by simp_all
  have d8: "data_distance d8 = Num 0" "data_rotation d8 = ?rot"
    using later_steps_fields(7,8) [of s6 w7 d7] st(8) d7 by simp_all
  have "this_postOverrides s6 = this_postOverrides s"
    using hit_vector_step_lists [OF st(6)] run_overrides_lists [OF st(3)] by simp
  with assms(3) have post: "\<forall>h\<in>set (this_postOverrides s6). \<forall>c d d' c'.
      h c d = Inr (d', c') \<longrightarrow>
      (data_distance d', data_rotation d') = (data_distance d, data_rotation d)"
    by fastforce
  have d: "data_distance d = Num 0" "data_rotation d = ?rot"
    using run_overrides_preserve [OF post st(9)] d8 by (simp_all add: later_steps_fields)
  have "0 \<le> ?r * pi \<and> ?r * pi < pi" if "0 \<le> ?r" "?r < 1"
    using that pi_gt_zero by (simp add: mult_less_cancel_right2 not_le)
  with d show ?thesis by auto
qed

lemma js_mul_one [simp]: "js_mul a (Num 1) = a"
  by (cases a) (simp_all add: signed_inf_def)

lemma getName_file: "data_file d = data_file d' \<Longrightarrow> getName s d = getName s d'"
  by (simp add: getName_def split: option.splits file_val.splits)

lemma rotation_only_run:
  assumes "resolve_origin_target s w (initial_data s) = Inr (d1, w1)"
    and "add_random_rotation s w1 d1 = (d2, w2)"
    and "run_overrides (this_overrides s) s d2 = Inr (d3, s)"
    and "data_file d3 = FStr f"
    and "this_mustache s = None" and "this_rotationOnly s" and "this_scaleMin s = SFalse"
    and "\<not> this_randomX s" and "\<not> this_randomY s" and "this_postOverrides s = []"
    and "getName s (d3\<lparr>data_file := FStr (this_baseFolder s @ f)\<rparr>) = Inr n"
  shows "sanitizeData s w =
     Inr (d3\<lparr>data_scale :=
               \<lparr>px = js_mul (px (data_scale d3)) (js_div (canvas_grid_size w2) (this_gridSize s)),
                py = js_mul (py (data_scale d3)) (js_div (canvas_grid_size w2) (this_gridSize s))\<rparr>,
             data_file := FStr (this_baseFolder s @ f)\<rparr>,
          s,
          insertCachedPosition w2 n (this_currentRepetition s) (data_position d3))"
proof (rule sanitizeData_steps [OF assms(1-3)])
  let ?d6 = "grid_normalize s w2 d3"
  let ?d9 = "d3\<lparr>data_scale :=
               \<lparr>px = js_mul (px (data_scale d3)) (js_div (canvas_grid_size w2) (this_gridSize s)),
                py = js_mul (py (data_scale d3)) (js_div (canvas_grid_size w2) (this_gridSize s))\<rparr>,
             data_file := FStr (this_baseFolder s @ f)\<rparr>"
  show "pick_file w2 d3 = (d3, w2)"
    using assms(4) by (simp add: pick_file_def)
  show "apply_mustache s w2 d3 = Inr d3"
    using assms(5) by (simp add: apply_mustache_def)
  show "hit_vector_step s w2 (grid_normalize s w2 d3) = Inr (?d6, s, w2)"
    using assms(6) by (simp add: hit_vector_step_def)
  show "apply_scale s w2 ?d6 = (?d6, w2)"
    using assms(7) by (simp add: apply_scale_def configured_scale_def nullish_def grid_normalize_def)
  show "apply_flips s w2 ?d6 = (?d6, w2)"
    using assms(8,9) by (simp add: apply_flips_def random_flip_def grid_normalize_def)
  show "run_overrides (this_postOverrides s) s (prepend_baseFolder s ?d6) = Inr (?d9, s)"
    using assms(4,10) by (simp add: prepend_baseFolder_def grid_normalize_def)
  show "record_position s w2 ?d9 =
      Inr (insertCachedPosition w2 n (this_currentRepetition s) (data_position d3))"
    using assms(11) getName_file [of ?d9 "d3\<lparr>data_file := FStr (this_baseFolder s @ f)\<rparr>" s]
    by (simp add: record_position_def and_then_def)
qed

lemma hooked_fields:
  "this_file hooked_section = FStr ''beam.webm''"
  "this_baseFolder hooked_section = []"
  "this_from hooked_section = Some (Point \<lparr>px = Num 0, py = Num 0\<rparr>)"
  "this_to hooked_section = None"
  "this_anchor hooked_section = None"
  "this_scaleMin hooked_section = SFalse"
  "\<not> this_missed hooked_section"
  "this_rotationOnly hooked_section"
  "\<not> this_randomRotation hooked_section"
  "\<not> this_JB2A hooked_section"
  "\<not> this_randomX hooked_section"
  "\<not> this_randomY hooked_section"
  "this_startPoint hooked_section = Num 0"
  "this_endPoint hooked_section = Num 0"
  "this_gridSize hooked_section = Num 100"
  "this_mustache hooked_section = None"
  "this_overrides hooked_section = [rotating_hook]"
  "this_postOverrides hooked_section = []"
  "this_name hooked_section = None"
  "this_currentRepetition hooked_section = 0"
  "this_playbackRate hooked_section = Num 1"
  "this_fadeIn hooked_section = Num 0"
  "this_fadeOut hooked_section = Num 0"
  by (simp_all add: hooked_section_def new_EffectSection_def example_world_def)

lemma example_world_grid: "canvas_grid_size example_world = Num 100"
  by (simp add: example_world_def)

lemma hooked_run:
  "sanitizeData hooked_section example_world =
     Inr ((initial_data hooked_section)
            \<lparr>data_anchor := \<lparr>px = Num (1 / 2), py = Num (1 / 2)\<rparr>,
             anchor_shared := False,
             data_rotation := Num 1\<rparr>,
          hooked_section,
          insertCachedPosition example_world ''beam'' 0 \<lparr>px = Num 0, py = Num 0\<rparr>)"
proof -
  let ?d1 = "(initial_data hooked_section)
            \<lparr>data_anchor := \<lparr>px = Num (1 / 2), py = Num (1 / 2)\<rparr>,
             anchor_shared := False\<rparr>"
  have 1: "resolve_origin_target hooked_section example_world (initial_data hooked_section) =
      Inr (?d1, example_world)"
    by (simp add: resolve_origin_target_def hooked_fields calculatePositions_no_target
        and_then_def opt_truthy_def initial_data_def)
  have 2: "add_random_rotation hooked_section example_world ?d1 = (?d1, example_world)"
    by (simp add: add_random_rotation_def hooked_fields initial_data_def)
  have 3: "run_overrides (this_overrides hooked_section) hooked_section ?d1 =
      Inr (?d1\<lparr>data_rotation := Num 1\<rparr>, hooked_section)"
    by (simp add: hooked_fields rotating_hook_def)
  have 4: "data_file (?d1\<lparr>data_rotation := Num 1\<rparr>) = FStr ''beam.webm''"
    by (simp add: initial_data_def hooked_fields)
  have 5: "getName hooked_section
      (?d1\<lparr>data_rotation := Num 1,
         data_file := FStr (this_baseFolder hooked_section @ ''beam.webm'')\<rparr>) = Inr ''beam''"
    by (simp add: getName_def hooked_fields file_stem_def)
  show ?thesis
    using rotation_only_run [OF 1 2 3 4 _ _ _ _ _ _ 5]
    by (simp add: hooked_fields example_world_grid initial_data_def)
qed

text \<open>
  C4, as the claim states it for every configuration, fails: an override may rewrite the
  descriptor. With no target, the missed flag unset and random rotation off, the
  override of \<open>hooked_section\<close> leaves a rotation of 1.
\<close>

theorem no_target_rotation_counterexample:
  "this_to hooked_section = None \<and> \<not> this_missed hooked_section
   \<and> \<not> this_randomRotation hooked_section
   \<and> map_option data_distance (descriptor_of (sanitizeData hooked_section example_world)) =
       Some (Num 0)
   \<and> map_option data_rotation (descriptor_of (sanitizeData hooked_section example_world)) =
       Some (Num 1)"
  by (simp add: hooked_run descriptor_of_def hooked_fields initial_data_def)

lemma spin_fields:
  "this_file spin_section = FStr ''beam.webm''"
  "this_baseFolder spin_section = []"
  "this_from spin_section = Some (Point \<lparr>px = Num 0, py = Num 0\<rparr>)"
  "this_to spin_section = None"
  "this_anchor spin_section = None"
  "this_scaleMin spin_section = SFalse"
  "\<not> this_missed spin_section"
  "this_rotationOnly spin_section"
  "this_randomRotation spin_section"
  "\<not> this_randomX spin_section"
  "\<not> this_randomY spin_section"
  "this_gridSize spin_section = Num 100"
  "this_mustache spin_section = None"
  "this_overrides spin_section = [fading_hook]"
  "this_postOverrides spin_section = []"
  "this_name spin_section = None"
  "this_currentRepetition spin_section = 0"
  by (simp_all add: spin_section_def new_EffectSection_def example_world_def)

lemma spin_run:
  "sanitizeData spin_section example_world =
     Inr ((initial_data spin_section)
            \<lparr>data_anchor := \<lparr>px = Num (1 / 2), py = Num (1 / 2)\<rparr>,
             anchor_shared := False,
             data_rotation := Num (1 / 4 * pi),
             data_fadeIn := Num 500\<rparr>,
          spin_section,
          insertCachedPosition (example_world\<lparr>random_pos := 1\<rparr>) ''beam'' 0
            \<lparr>px = Num 0, py = Num 0\<rparr>)"
proof -
  let ?d1 = "(initial_data spin_section)
            \<lparr>data_anchor := \<lparr>px = Num (1 / 2), py = Num (1 / 2)\<rparr>,
             anchor_shared := False\<rparr>"
  let ?d2 = "?d1\<lparr>data_rotation := Num (1 / 4 * pi)\<rparr>"
  have 1: "resolve_origin_target spin_section example_world (initial_data spin_section) =
      Inr (?d1, example_world)"
    by (simp add: resolve_origin_target_def spin_fields calculatePositions_no_target
        and_then_def opt_truthy_def initial_data_def)
  have 2: "add_random_rotation spin_section example_world ?d1 =
      (?d2, example_world\<lparr>random_pos := 1\<rparr>)"
    by (simp add: add_random_rotation_def spin_fields initial_data_def Math_random_def)
       (simp add: example_world_def)
  have 3: "run_overrides (this_overrides spin_section) spin_section ?d2 =
      Inr (?d2\<lparr>data_fadeIn := Num 500\<rparr>, spin_section)"
    by (simp add: spin_fields fading_hook_def)
  have 4: "data_file (?d2\<lparr>data_fadeIn := Num 500\<rparr>) = FStr ''beam.webm''"
    by (simp add: initial_data_def spin_fields)
  have 5: "getName spin_section
      (?d2\<lparr>data_fadeIn := Num 500,
         data_file := FStr (this_baseFolder spin_section @ ''beam.webm'')\<rparr>) = Inr ''beam''"
    by (simp add: getName_def spin_fields file_stem_def)
  show ?thesis
    using rotation_only_run [OF 1 2 3 4 _ _ _ _ _ _ 5]
    by (simp add: spin_fields example_world_grid initial_data_def)
qed

theorem no_target_distance_rotation_witness:
  "this_to spin_section = None \<and> \<not> this_missed spin_section \<and> this_randomRotation spin_section
   \<and> random_draws example_world (random_pos example_world) = 1 / 4
   \<and> map_option data_distance (descriptor_of (sanitizeData spin_section example_world)) =
       Some (Num 0)
   \<and> map_option data_rotation (descriptor_of (sanitizeData spin_section example_world)) =
       Some (Num (1 / 4 * pi))"
proof -
  have hooks: "\<forall>h\<in>set (this_overrides spin_section @ this_postOverrides spin_section).
      \<forall>c d c' d'. h c d = Inr (d', c') \<longrightarrow>
      data_distance d' = data_distance d \<and> data_rotation d' = data_rotation d"
    by (auto simp add: spin_fields fading_hook_def)
  have draw: "random_draws example_world (random_pos example_world) = 1 / 4"
    by (simp add: example_world_def)
  from no_target_distance_rotation [OF spin_fields(4) spin_fields(7) hooks spin_run]
  have "data_distance ((initial_data spin_section)
            \<lparr>data_anchor := \<lparr>px = Num (1 / 2), py = Num (1 / 2)\<rparr>,
             anchor_shared := False,
             data_rotation := Num (1 / 4 * pi),
             data_fadeIn := Num 500\<rparr>) = Num 0"
    by blast
  then show ?thesis
    by (simp add: spin_run descriptor_of_def spin_fields draw)
qed

subsection \<open>Builder methods that ignore their argument\<close>

lemma unmirrored_irrelevant:
  "initial_data (unmirrored s) = initial_data s"
  "resolve_origin_target (unmirrored s) w d = resolve_origin_target s w d"
  "add_random_rotation (unmirrored s) w d = add_random_rotation s w d"
  "apply_mustache (unmirrored s) w d = apply_mustache s w d"
  "grid_normalize (unmirrored s) w d = grid_normalize s w d"
  "apply_scale (unmirrored s) w d = apply_scale s w d"
  "prepend_baseFolder (unmirrored s) d = prepend_baseFolder s d"
  "record_position (unmirrored s) w d = record_position s w d"
  "this_overrides (unmirrored s) = this_overrides s"
  "this_postOverrides (unmirrored s) = this_postOverrides s"
  by (simp_all add: unmirrored_def initial_data_def resolve_origin_target_def
      calculatePositions_def resolve_name_def add_random_rotation_def apply_mustache_def
      grid_normalize_def apply_scale_def configured_scale_def prepend_baseFolder_def
      record_position_def getName_def
      cong: option.case_cong if_cong scale_val.case_cong location.case_cong)

lemma hit_vector_step_unmirrored:
  "hit_vector_step (unmirrored s) w d =
     (case hit_vector_step s w d of
        Inl e \<Rightarrow> Inl e
      | Inr (d', s', w') \<Rightarrow> Inr (d', unmirrored s', w'))"
  by (simp add: hit_vector_step_def calculateHitVector_def getFileDimensions_def
      getTrueLength_def and_then_def unmirrored_def Let_def
      split: sum.splits option.splits prod.splits)

lemma hit_vector_step_mirrors:
  "hit_vector_step s w d = Inr (d', s', w') \<Longrightarrow>
     this_randomX s' = this_randomX s \<and> this_randomY s' = this_randomY s"
  by (auto simp add: hit_vector_step_def calculateHitVector_def and_then_def Let_def
      split: if_splits sum.splits prod.splits)

lemma apply_flips_unmirrored: "apply_flips (unmirrored s) w d = (d, w)"
  by (simp add: apply_flips_def random_flip_def unmirrored_def)

lemma apply_flips_value:
  "apply_flips s w d =
     (d\<lparr>data_scale :=
          \<lparr>px = js_mul (px (data_scale d))
                  (if this_randomX s
                   then (if random_draws w (random_pos w) < 1 / 2 then Num (- 1) else Num 1)
                   else Num 1),
           py = js_mul (py (data_scale d))
                  (if this_randomY s
                   then (if random_draws w (random_pos w + (if this_randomX s then 1 else 0)) < 1 / 2
                         then Num (- 1) else Num 1)
                   else Num 1)\<rparr>\<rparr>,
      w\<lparr>random_pos := random_pos w + (if this_randomX s then 1 else 0)
                          + (if this_randomY s then 1 else 0)\<rparr>)"
  by (simp add: apply_flips_def random_flip_def Math_random_def flip_of_def)

text \<open>
  A run of a section without overrides is the run of the section with both random
  mirrors off, followed by the two random flips.
\<close>

lemma sanitizeData_mirrored:
  assumes "this_overrides s = []" and "this_postOverrides s = []"
    and "sanitizeData (unmirrored s) w = Inr (d0, s0, w0)"
  shows "sanitizeData s w =
     Inr (d0\<lparr>data_scale :=
              \<lparr>px = js_mul (px (data_scale d0))
                      (if this_randomX s
                       then (if random_draws w0 (random_pos w0) < 1 / 2 then Num (- 1) else Num 1)
                       else Num 1),
               py = js_mul (py (data_scale d0))
                      (if this_randomY s
                       then (if random_draws w0 (random_pos w0 + (if this_randomX s then 1 else 0)) < 1 / 2
                             then Num (- 1) else Num 1)
                       else Num 1)\<rparr>\<rparr>,
          s0\<lparr>this_randomX := this_randomX s, this_randomY := this_randomY s\<rparr>,
          w0\<lparr>random_pos := random_pos w0 + (if this_randomX s then 1 else 0)
                               + (if this_randomY s then 1 else 0)\<rparr>)"
proof -
  from assms obtain d1 w1 d2 w2 d4 w4 d5 d6 w6 d7 w7 d8 w8 where st:
    "resolve_origin_target s w (initial_data s) = Inr (d1, w1)"
    "add_random_rotation s w1 d1 = (d2, w2)"
    "pick_file w2 d2 = (d4, w4)"
    "apply_mustache s w4 d4 = Inr d5"
    "hit_vector_step (unmirrored s) w4 (grid_normalize s w4 d5) = Inr (d6, s0, w6)"
    "this_postOverrides s0 = []"
    "apply_scale s0 w6 d6 = (d7, w7)"
    "apply_flips s0 w7 d7 = (d8, w8)"
    "d0 = prepend_baseFolder s0 d8"
    "record_position s0 w8 d0 = Inr w0"
    by (elim sanitizeData_plain_InrE [where s = "unmirrored s"])
       (simp_all add: unmirrored_irrelevant)
  from st(5) obtain s6 where hv: "hit_vector_step s w4 (grid_normalize s w4 d5) = Inr (d6, s6, w6)"
    and s0: "s0 = unmirrored s6"
    by (auto simp add: hit_vector_step_unmirrored split: sum.splits)
  from hit_vector_step_mirrors [OF hv] have flags:
    "this_randomX s6 = this_randomX s" "this_randomY s6 = this_randomY s" by simp_all
  from st(8) have d8: "d8 = d7" "w8 = w7"
    by (simp_all add: s0 apply_flips_unmirrored)
  define d8' where "d8' =
      d7\<lparr>data_scale :=
           \<lparr>px = js_mul (px (data_scale d7))
                   (if this_randomX s
                    then (if random_draws w7 (random_pos w7) < 1 / 2 then Num (- 1) else Num 1)
                    else Num 1),
            py = js_mul (py (data_scale d7))
                   (if this_randomY s
                    then (if random_draws w7 (random_pos w7 + (if this_randomX s then 1 else 0)) < 1 / 2
                          then Num (- 1) else Num 1)
                    else Num 1)\<rparr>\<rparr>"
  define w8' where "w8' =
      w7\<lparr>random_pos := random_pos w7 + (if this_randomX s then 1 else 0)
                           + (if this_randomY s then 1 else 0)\<rparr>"
  have fl: "apply_flips s6 w7 d7 = (d8', w8')"
    unfolding apply_flips_value flags d8'_def w8'_def ..
  from st(10) have "record_position s6 w7 d0 = Inr w0"
    by (simp add: s0 d8 unmirrored_irrelevant)
  then obtain n where n: "getName s6 d0 = Inr n"
    and w0: "w0 = insertCachedPosition w7 n (this_currentRepetition s6) (data_position d0)"
    by (auto simp add: record_position_def and_then_def split: sum.splits)
  have fl_eq: "data_file (prepend_baseFolder s6 d8') = data_file d0"
    and pos: "data_position (prepend_baseFolder s6 d8') = data_position d0"
    using st(9) by (simp_all add: d8'_def prepend_baseFolder_def s0 d8 unmirrored_def)
  have rec: "record_position s6 w8' (prepend_baseFolder s6 d8') =
      Inr (insertCachedPosition w8' n (this_currentRepetition s6) (data_position d0))"
    using n getName_file [OF fl_eq, of s6] by (simp add: record_position_def and_then_def pos)
  have p6: "this_postOverrides s6 = []"
    using hit_vector_step_lists [OF hv] assms(2) by simp
  have run: "sanitizeData s w =
      Inr (prepend_baseFolder s6 d8', s6,
           insertCachedPosition w8' n (this_currentRepetition s6) (data_position d0))"
    using assms(1,2) st(1-4) hv p6 _ fl rec
    by (rule sanitizeData_plain_steps) (simp add: st(7) [unfolded s0 unmirrored_irrelevant])
  have e1: "prepend_baseFolder s6 d8' =
      d0\<lparr>data_scale :=
              \<lparr>px = js_mul (px (data_scale d0))
                      (if this_randomX s
                       then (if random_draws w0 (random_pos w0) < 1 / 2 then Num (- 1) else Num 1)
                       else Num 1),
               py = js_mul (py (data_scale d0))
                      (if this_randomY s
                       then (if random_draws w0 (random_pos w0 + (if this_randomX s then 1 else 0)) < 1 / 2
                             then Num (- 1) else Num 1)
                       else Num 1)\<rparr>\<rparr>"
    using st(9)
    by (simp add: d8'_def prepend_baseFolder_def s0 d8 unmirrored_def w0
        insertCachedPosition_def)
  have e2: "s6 = s0\<lparr>this_randomX := this_randomX s, this_randomY := this_randomY s\<rparr>"
    using flags by (simp add: s0 unmirrored_def)
  have e3: "insertCachedPosition w8' n (this_currentRepetition s6) (data_position d0) =
      w0\<lparr>random_pos := random_pos w0 + (if this_randomX s then 1 else 0)
                               + (if this_randomY s then 1 else 0)\<rparr>"
    by (simp add: w8'_def w0 insertCachedPosition_def)
  show ?thesis using run unfolding e1 e3 using e2 by simp
qed

lemma plain_fields:
  "this_file plain_section = FStr ''beam.webm''"
  "this_baseFolder plain_section = []"
  "this_from plain_section = Some (Point \<lparr>px = Num 0, py = Num 0\<rparr>)"
  "this_to plain_section = None"
  "this_anchor plain_section = None"
  "this_scaleMin plain_section = SFalse"
  "\<not> this_missed plain_section"
  "this_rotationOnly plain_section"
  "\<not> this_randomRotation plain_section"
  "\<not> this_randomX plain_section"
  "\<not> this_randomY plain_section"
  "this_gridSize plain_section = Num 100"
  "this_mustache plain_section = None"
  "this_overrides plain_section = []"
  "this_postOverrides plain_section = []"
  "this_name plain_section = None"
  "this_currentRepetition plain_section = 0"
  by (simp_all add: plain_section_def new_EffectSection_def example_world_def)

lemma plain_run:
  assumes "canvas_grid_size w = Num 100"
  shows "sanitizeData plain_section w =
     Inr ((initial_data plain_section)
            \<lparr>data_anchor := \<lparr>px = Num (1 / 2), py = Num (1 / 2)\<rparr>,
             anchor_shared := False\<rparr>,
          plain_section,
          insertCachedPosition w ''beam'' 0 \<lparr>px = Num 0, py = Num 0\<rparr>)"
proof -
  let ?d1 = "(initial_data plain_section)
            \<lparr>data_anchor := \<lparr>px = Num (1 / 2), py = Num (1 / 2)\<rparr>,
             anchor_shared := False\<rparr>"
  have 1: "resolve_origin_target plain_section w (initial_data plain_section) = Inr (?d1, w)"
    by (simp add: resolve_origin_target_def plain_fields calculatePositions_no_target
        and_then_def opt_truthy_def initial_data_def)
  have 2: "add_random_rotation plain_section w ?d1 = (?d1, w)"
    by (simp add: add_random_rotation_def plain_fields initial_data_def)
  have 3: "run_overrides (this_overrides plain_section) plain_section ?d1 =
      Inr (?d1, plain_section)"
    by (simp add: plain_fields)
  have 4: "data_file ?d1 = FStr ''beam.webm''"
    by (simp add: initial_data_def plain_fields)
  have 5: "getName plain_section
      (?d1\<lparr>data_file := FStr (this_baseFolder plain_section @ ''beam.webm'')\<rparr>) = Inr ''beam''"
    by (simp add: getName_def plain_fields file_stem_def)
  show ?thesis
    using rotation_only_run [OF 1 2 3 4 _ _ _ _ _ _ 5]
    by (simp add: plain_fields assms initial_data_def)
qed

lemma unmirrored_plain:
  "unmirrored (plain_section\<lparr>this_randomX := True\<rparr>) = plain_section"
  by (simp add: unmirrored_def plain_section_def new_EffectSection_def)

lemma world_draws:
  "canvas_grid_size example_world = Num 100" "canvas_grid_size late_world = Num 100"
  "random_draws example_world n = 1 / 4" "random_draws late_world n = 3 / 4"
  "random_pos example_world = 0" "random_pos late_world = 0"
  by (simp_all add: example_world_def late_world_def)

lemma mirrored_plain_run:
  assumes "canvas_grid_size w = Num 100"
  shows "sanitizeData (plain_section\<lparr>this_randomX := True\<rparr>) w =
     Inr ((initial_data plain_section)
            \<lparr>data_anchor := \<lparr>px = Num (1 / 2), py = Num (1 / 2)\<rparr>,
             anchor_shared := False,
             data_scale :=
               \<lparr>px = (if random_draws w (random_pos w) < 1 / 2 then Num (- 1) else Num 1),
                py = Num 1\<rparr>\<rparr>,
          plain_section\<lparr>this_randomX := True\<rparr>,
          (insertCachedPosition w ''beam'' 0 \<lparr>px = Num 0, py = Num 0\<rparr>)
            \<lparr>random_pos := random_pos w + 1\<rparr>)"
  using sanitizeData_mirrored [of "plain_section\<lparr>this_randomX := True\<rparr>" w,
      unfolded unmirrored_plain, OF _ _ plain_run [OF assms]]
  by (simp add: plain_fields initial_data_def insertCachedPosition_def)

text \<open>
  C9: \<open>randomizeMirrorX\<close> and \<open>randomizeMirrorY\<close> set their flag to true whatever boolean
  they are given, \<open>false\<close> included. A run of \<open>_sanitizeData\<close> on the section they return
  then draws from the random source for that axis and multiplies the scale of that
  axis by \<open>-1\<close> when the draw is below one half: for a section without overrides (an
  override could reset the flag or rewrite the scale), the run returns the scale of
  the run with both mirrors off, times \<open>-1\<close> on a draw below one half and unchanged
  otherwise, the draw being the next one of the random source as the run with both
  mirrors off left it (the one after it for the Y axis when the X mirror is on too).
  For \<open>atLocation({x: 0, y: 0}).randomizeMirrorX(false)\<close> the scale \<open>(1, 1)\<close> becomes
  \<open>(-1, 1)\<close> on a draw of \<open>1/4\<close> and stays \<open>(1, 1)\<close> on a draw of \<open>3/4\<close>.
\<close>

theorem randomizeMirror_ignores_argument:
  "randomizeMirrorX (JBool b) s = Inr (s\<lparr>this_randomX := True\<rparr>)
   \<and> randomizeMirrorY (JBool b) s = Inr (s\<lparr>this_randomY := True\<rparr>)
   \<and> randomizeMirrorX (JBool False) s = randomizeMirrorX (JBool True) s
   \<and> randomizeMirrorY (JBool False) s = randomizeMirrorY (JBool True) s
   \<and> (\<forall>s1 w d0 s0 w0.
         randomizeMirrorX (JBool b) s = Inr s1
         \<and> this_overrides s = [] \<and> this_postOverrides s = []
         \<and> sanitizeData (unmirrored s) w = Inr (d0, s0, w0)
         \<longrightarrow> (\<exists>d1 s1' w1.
               sanitizeData s1 w = Inr (d1, s1', w1)
               \<and> this_randomX s1'
               \<and> px (data_scale d1) =
                   (if random_draws w0 (random_pos w0) < 1 / 2
                    then js_mul (px (data_scale d0)) (Num (- 1))
                    else px (data_scale d0))
               \<and> random_pos w0 < random_pos w1))
   \<and> (\<forall>s1 w d0 s0 w0.
         randomizeMirrorY (JBool b) s = Inr s1
         \<and> this_overrides s = [] \<and> this_postOverrides s = []
         \<and> sanitizeData (unmirrored s) w = Inr (d0, s0, w0)
         \<longrightarrow> (\<exists>d1 s1' w1.
               sanitizeData s1 w = Inr (d1, s1', w1)
               \<and> this_randomY s1'
               \<and> py (data_scale d1) =
                   (if random_draws w0 (random_pos w0 + (if this_randomX s then 1 else 0)) < 1 / 2
                    then js_mul (py (data_scale d0)) (Num (- 1))
                    else py (data_scale d0))
               \<and> random_pos w0 < random_pos w1))
   \<and> map_option data_scale
        (descriptor_of (and_then (randomizeMirrorX (JBool False) plain_section)
                          (\<lambda>s1. sanitizeData s1 example_world))) =
       Some \<lparr>px = Num (- 1), py = Num 1\<rparr>
   \<and> map_option data_scale
        (descriptor_of (and_then (randomizeMirrorX (JBool False) plain_section)
                          (\<lambda>s1. sanitizeData s1 late_world))) =
       Some \<lparr>px = Num 1, py = Num 1\<rparr>"
proof (intro conjI allI impI)
  have mx: "randomizeMirrorX (JBool c) t = Inr (t\<lparr>this_randomX := True\<rparr>)" for c t
    by (simp add: randomizeMirrorX_def default_true_def)
  have my: "randomizeMirrorY (JBool c) t = Inr (t\<lparr>this_randomY := True\<rparr>)" for c t
    by (simp add: randomizeMirrorY_def default_true_def)
  show "randomizeMirrorX (JBool b) s = Inr (s\<lparr>this_randomX := True\<rparr>)"
    by (rule mx)
  show "randomizeMirrorY (JBool b) s = Inr (s\<lparr>this_randomY := True\<rparr>)"
    by (rule my)
  show "randomizeMirrorX (JBool False) s = randomizeMirrorX (JBool True) s"
    by (simp add: mx)
  show "randomizeMirrorY (JBool False) s = randomizeMirrorY (JBool True) s"
    by (simp add: my)
  show "map_option data_scale
        (descriptor_of (and_then (randomizeMirrorX (JBool False) plain_section)
                          (\<lambda>s1. sanitizeData s1 example_world))) =
       Some \<lparr>px = Num (- 1), py = Num 1\<rparr>"
    by (simp add: mx and_then_def mirrored_plain_run world_draws descriptor_of_def)
  show "map_option data_scale
        (descriptor_of (and_then (randomizeMirrorX (JBool False) plain_section)
                          (\<lambda>s1. sanitizeData s1 late_world))) =
       Some \<lparr>px = Num 1, py = Num 1\<rparr>"
    by (simp add: mx and_then_def mirrored_plain_run world_draws descriptor_of_def)
next
  fix s1 w d0 s0 w0
  assume a: "randomizeMirrorX (JBool b) s = Inr s1
         \<and> this_overrides s = [] \<and> this_postOverrides s = []
         \<and> sanitizeData (unmirrored s) w = Inr (d0, s0, w0)"
  then have s1: "s1 = s\<lparr>this_randomX := True\<rparr>"
    by (simp add: randomizeMirrorX_def default_true_def)
  have u: "unmirrored s1 = unmirrored s" by (simp add: s1 unmirrored_def)
  from a have "sanitizeData (unmirrored s1) w = Inr (d0, s0, w0)"
    "this_overrides s1 = []" "this_postOverrides s1 = []"
    by (simp_all add: u) (simp_all add: s1)
  from sanitizeData_mirrored [OF this(2,3,1)]
  show "\<exists>d1 s1' w1.
               sanitizeData s1 w = Inr (d1, s1', w1)
               \<and> this_randomX s1'
               \<and> px (data_scale d1) =
                   (if random_draws w0 (random_pos w0) < 1 / 2
                    then js_mul (px (data_scale d0)) (Num (- 1))
                    else px (data_scale d0))
               \<and> random_pos w0 < random_pos w1"
    by (simp add: s1)
next
  fix s1 w d0 s0 w0
  assume a: "randomizeMirrorY (JBool b) s = Inr s1
         \<and> this_overrides s = [] \<and> this_postOverrides s = []
         \<and> sanitizeData (unmirrored s) w = Inr (d0, s0, w0)"
  then have s1: "s1 = s\<lparr>this_randomY := True\<rparr>"
    by (simp add: randomizeMirrorY_def default_true_def)
  have u: "unmirrored s1 = unmirrored s" by (simp add: s1 unmirrored_def)
  from a have "sanitizeData (unmirrored s1) w = Inr (d0, s0, w0)"
    "this_overrides s1 = []" "this_postOverrides s1 = []"
    by (simp_all add: u) (simp_all add: s1)
  from sanitizeData_mirrored [OF this(2,3,1)]
  show "\<exists>d1 s1' w1.
               sanitizeData s1 w = Inr (d1, s1', w1)
               \<and> this_randomY s1'
               \<and> py (data_scale d1) =
                   (if random_draws w0 (random_pos w0 + (if this_randomX s then 1 else 0)) < 1 / 2
                    then js_mul (py (data_scale d0)) (Num (- 1))
                    else py (data_scale d0))
               \<and> random_pos w0 < random_pos w1"
    by (simp add: s1)
qed

theorem randomizeMirror_ignores_argument_witness:
  "randomizeMirrorX (JBool False) plain_section = Inr (plain_section\<lparr>this_randomX := True\<rparr>)
   \<and> this_overrides plain_section = [] \<and> this_postOverrides plain_section = []
   \<and> sanitizeData (unmirrored plain_section) example_world =
       Inr ((initial_data plain_section)
              \<lparr>data_anchor := \<lparr>px = Num (1 / 2), py = Num (1 / 2)\<rparr>,
               anchor_shared := False\<rparr>,
            plain_section,
            insertCachedPosition example_world ''beam'' 0 \<lparr>px = Num 0, py = Num 0\<rparr>)
   \<and> (\<exists>d1 s1' w1.
         sanitizeData (plain_section\<lparr>this_randomX := True\<rparr>) example_world = Inr (d1, s1', w1)
         \<and> this_randomX s1'
         \<and> px (data_scale d1) = Num (- 1)
         \<and> random_pos w1 = 1)"
proof -
  have u: "unmirrored plain_section = plain_section"
    by (simp add: unmirrored_def plain_section_def new_EffectSection_def)
  have pre: "randomizeMirrorX (JBool False) plain_section =
        Inr (plain_section\<lparr>this_randomX := True\<rparr>)
      \<and> this_overrides plain_section = [] \<and> this_postOverrides plain_section = []
      \<and> sanitizeData (unmirrored plain_section) example_world =
          Inr ((initial_data plain_section)
                 \<lparr>data_anchor := \<lparr>px = Num (1 / 2), py = Num (1 / 2)\<rparr>,
                  anchor_shared := False\<rparr>,
               plain_section,
               insertCachedPosition example_world ''beam'' 0 \<lparr>px = Num 0, py = Num 0\<rparr>)"
    by (simp add: u plain_run world_draws plain_fields randomizeMirrorX_def default_true_def)
  from randomizeMirror_ignores_argument [of False plain_section,
      THEN conjunct2, THEN conjunct2, THEN conjunct2, THEN conjunct2, THEN conjunct1,
      rule_format, OF pre]
  obtain d1 s1' w1 where
    run: "sanitizeData (plain_section\<lparr>this_randomX := True\<rparr>) example_world = Inr (d1, s1', w1)"
    and val: "this_randomX s1'"
      "px (data_scale d1) = Num (- 1)"
    by (auto simp add: insertCachedPosition_def world_draws initial_data_def)
  from run have "random_pos w1 = 1"
    by (auto simp add: mirrored_plain_run world_draws insertCachedPosition_def)
  with run val pre show ?thesis by blast
qed

text \<open>
  C10: \<open>JB2A(false)\<close> sets the grid size to the scene's, both trim points to 0, and
  \<open>_JB2A\<close> to true all the same; so \<open>_getFileDimensions\<close> on the section it returns still
  takes the dimensions from the file name whenever the name yields them.
\<close>

theorem JB2A_false_keeps_fast_path:
  "JB2A w (JBool False) s =
     Inr (s\<lparr>this_gridSize := canvas_grid_size w, this_startPoint := Num 0,
           this_endPoint := Num 0, this_JB2A := True\<rparr>)
   \<and> (\<forall>s' w' f dims.
         JB2A w (JBool False) s = Inr s'
         \<and> dimensions_from_name (this_baseFolder s' @ to_string f) = Some dims
         \<longrightarrow> this_JB2A s' \<and> getFileDimensions s' w' f = Inr (dims, w'))"
  by (auto simp add: JB2A_def default_true_def and_then_def gridSize_def startPoint_def
      endPoint_def getFileDimensions_def Let_def)

theorem JB2A_false_keeps_fast_path_witness:
  "JB2A example_world (JBool False) (new_EffectSection example_world (FStr ''fire_200x150.webm'')) =
     Inr ((new_EffectSection example_world (FStr ''fire_200x150.webm''))\<lparr>this_JB2A := True\<rparr>)
   \<and> dimensions_from_name ''fire_200x150.webm'' = Some \<lparr>px = Num 200, py = Num 150\<rparr>
   \<and> getFileDimensions
        ((new_EffectSection example_world (FStr ''fire_200x150.webm''))\<lparr>this_JB2A := True\<rparr>)
        example_world (FStr ''fire_200x150.webm'') =
       Inr (\<lparr>px = Num 200, py = Num 150\<rparr>, example_world)"
proof -
  let ?s = "new_EffectSection example_world (FStr ''fire_200x150.webm'')"
  have run: "JB2A example_world (JBool False) ?s = Inr (?s\<lparr>this_JB2A := True\<rparr>)"
    using JB2A_false_keeps_fast_path [of example_world ?s]
    by (simp add: new_EffectSection_def)
  have name: "dimensions_from_name (this_baseFolder (?s\<lparr>this_JB2A := True\<rparr>)
      @ to_string (FStr ''fire_200x150.webm'')) = Some \<lparr>px = Num 200, py = Num 150\<rparr>"
    by (simp add: new_EffectSection_def dimensions_webm)
  from JB2A_false_keeps_fast_path [of example_world ?s] run name
  have "getFileDimensions (?s\<lparr>this_JB2A := True\<rparr>) example_world (FStr ''fire_200x150.webm'') =
       Inr (\<lparr>px = Num 200, py = Num 150\<rparr>, example_world)"
    by blast
  with run show ?thesis by (simp add: dimensions_webm)
qed

subsection \<open>Grid normalization\<close>

lemma halve_div: "js_div g (js_mul (Num 2) gs) = js_div (js_div g gs) (Num 2)"
  by (cases g; cases gs) (simp_all add: signed_inf_def)

lemma halve_mul_right: "js_mul a (js_div q (Num 2)) = js_div (js_mul a q) (Num 2)"
  by (cases a; cases q) (simp_all add: signed_inf_def)

lemma halve_mul_left: "js_mul (js_div p (Num 2)) b = js_div (js_mul p b) (Num 2)"
  by (cases p; cases b) (simp_all add: signed_inf_def)

lemma grid_normalize_doubled:
  "grid_normalize (s\<lparr>this_gridSize := js_mul (Num 2) (this_gridSize s)\<rparr>) w d =
     (grid_normalize s w d)\<lparr>data_scale := halved (data_scale (grid_normalize s w d))\<rparr>"
  by (simp add: grid_normalize_def halved_def halve_div halve_mul_right)

lemma hit_vector_step_skipped:
  assumes "this_rotationOnly s \<or> data_distance d = Num 0"
  shows "hit_vector_step s w d = Inr (d, s, w)"
  using assms by (auto simp add: hit_vector_step_def calculateHitVector_def)

lemma apply_scale_halved:
  assumes "apply_scale s w d = (d', w')"
  shows "apply_scale (s\<lparr>this_gridSize := x\<rparr>) w (d\<lparr>data_scale := halved (data_scale d)\<rparr>) =
     (d'\<lparr>data_scale := halved (data_scale d')\<rparr>, w')"
  using assms
  by (auto simp add: apply_scale_def gridSize_irrelevant split_def Let_def halved_def halve_mul_left)

lemma apply_flips_halved:
  assumes "apply_flips s w d = (d', w')"
  shows "apply_flips (s\<lparr>this_gridSize := x\<rparr>) w (d\<lparr>data_scale := halved (data_scale d)\<rparr>) =
     (d'\<lparr>data_scale := halved (data_scale d')\<rparr>, w')"
  using assms
  by (auto simp add: apply_flips_def split_def Let_def halved_def halve_mul_left)

lemma gridSize_fields:
  "fields_of (s\<lparr>this_gridSize := x\<rparr>) = (fields_of s)\<lparr>this_gridSize := x\<rparr>"
  "with_fields (c\<lparr>this_gridSize := x\<rparr>) (s\<lparr>this_gridSize := y\<rparr>) =
     (with_fields c s)\<lparr>this_gridSize := x\<rparr>"
  by (simp_all add: fields_of_def with_fields_def EffectFields.defs)

lemma gridSize_self: "(c :: EffectFields)\<lparr>this_gridSize := this_gridSize c\<rparr> = c"
  by simp

text \<open>Overrides that neither read nor assign the configured grid size.\<close>

lemma run_overrides_gridSize:
  assumes "\<forall>h\<in>set hs. \<forall>c d0 x.
             h (c\<lparr>this_gridSize := x\<rparr>) d0 =
               (case h c d0 of
                  Inl e \<Rightarrow> Inl e
                | Inr (d1, c1) \<Rightarrow> Inr (d1, c1\<lparr>this_gridSize := x\<rparr>))"
    and "run_overrides hs s d = Inr (d', s')"
  shows "run_overrides hs (s\<lparr>this_gridSize := x\<rparr>) d = Inr (d', s'\<lparr>this_gridSize := x\<rparr>)
     \<and> this_gridSize s' = this_gridSize s"
  using assms
proof (induction hs arbitrary: s d)
  case Nil
  from Nil(2) show ?case by auto
next
  case (Cons h hs)
  from Cons.prems(2) obtain d1 c1 where h: "h (fields_of s) d = Inr (d1, c1)"
    and rest: "run_overrides hs (with_fields c1 s) d1 = Inr (d', s')"
    by (auto split: sum.splits)
  have "h \<in> set (h # hs)" by simp
  from bspec [OF Cons.prems(1) this]
  have ind: "h (c\<lparr>this_gridSize := y\<rparr>) d0 =
      (case h c d0 of Inl e \<Rightarrow> Inl e | Inr (d1, c1) \<Rightarrow> Inr (d1, c1\<lparr>this_gridSize := y\<rparr>))"
    for c d0 y by blast
  have hx: "h (fields_of (s\<lparr>this_gridSize := x\<rparr>)) d = Inr (d1, c1\<lparr>this_gridSize := x\<rparr>)"
    unfolding gridSize_fields ind [where c = "fields_of s" and y = x and ?d0.0 = d] h by simp
  from ind [where c = "fields_of s" and y = "this_gridSize (fields_of s)" and ?d0.0 = d]
  have "Inr (d1, c1) = (Inr (d1, c1\<lparr>this_gridSize := this_gridSize (fields_of s)\<rparr>) :: error + data \<times> EffectFields)"
    unfolding gridSize_self h by simp
  then have "c1 = c1\<lparr>this_gridSize := this_gridSize (fields_of s)\<rparr>" by (rule_tac Pair_inject) auto
  then have "this_gridSize c1 = this_gridSize (c1\<lparr>this_gridSize := this_gridSize (fields_of s)\<rparr>)"
    by (rule arg_cong)
  then have keep: "this_gridSize c1 = this_gridSize s" by simp
  have sub: "\<forall>h\<in>set hs. \<forall>c d0 x.
             h (c\<lparr>this_gridSize := x\<rparr>) d0 =
               (case h c d0 of
                  Inl e \<Rightarrow> Inl e
                | Inr (d1, c1) \<Rightarrow> Inr (d1, c1\<lparr>this_gridSize := x\<rparr>))"
  proof
    fix h' assume "h' \<in> set hs"
    then have "h' \<in> set (h # hs)" by simp
    from bspec [OF Cons.prems(1) this]
    show "\<forall>c d0 x.
             h' (c\<lparr>this_gridSize := x\<rparr>) d0 =
               (case h' c d0 of
                  Inl e \<Rightarrow> Inl e
                | Inr (d1, c1) \<Rightarrow> Inr (d1, c1\<lparr>this_gridSize := x\<rparr>))" .
  qed
  from Cons.IH [OF sub rest]
  have "run_overrides hs ((with_fields c1 s)\<lparr>this_gridSize := x\<rparr>) d1 =
        Inr (d', s'\<lparr>this_gridSize := x\<rparr>)"
    and "this_gridSize s' = this_gridSize (with_fields c1 s)"
    by simp_all
  with hx keep show ?case by (simp add: gridSize_fields)
qed

lemma hit_vector_step_reach_grid:
  assumes "\<not> this_rotationOnly s" and "data_distance d \<noteq> Num 0"
    and "hit_vector_step s w (grid_normalize s w d) = Inr (d6, s6, w6)"
  shows "hit_vector_step (s\<lparr>this_gridSize := x\<rparr>) w (grid_normalize (s\<lparr>this_gridSize := x\<rparr>) w d) =
     Inr (d6, s6\<lparr>this_gridSize := x\<rparr>, w6)"
  using assms
  by (auto simp add: hit_vector_step_def calculateHitVector_def getFileDimensions_def
      getTrueLength_def grid_normalize_def Let_def
      split: sum.splits option.splits prod.splits if_splits)

lemma apply_flips_gridSize:
  "apply_flips (s\<lparr>this_gridSize := x\<rparr>) w d = apply_flips s w d"
  by (simp add: apply_flips_def)

lemma apply_scale_gridSize:
  "apply_scale (s\<lparr>this_gridSize := x\<rparr>) w d = apply_scale s w d"
  by (simp add: apply_scale_def gridSize_irrelevant)

lemma record_position_gridSize:
  "record_position (s\<lparr>this_gridSize := x\<rparr>) w d = record_position s w d"
  by (simp add: record_position_def gridSize_irrelevant)

text \<open>
  C5, as the claim states it, fails in reach mode: the hit vector replaces the scale
  that grid normalization produced, so the descriptor of \<open>reach_section\<close> has the scale
  (0.5, 0.5) with a configured grid size of 100 and with one of 200.
\<close>

theorem grid_doubling_reach_counterexample:
  "this_gridSize reach_section = Num 100
   \<and> map_option data_scale (descriptor_of (sanitizeData reach_section example_world)) =
       Some \<lparr>px = Num (1 / 2), py = Num (1 / 2)\<rparr>
   \<and> map_option data_scale
        (descriptor_of (sanitizeData (reach_section\<lparr>this_gridSize := Num 200\<rparr>) example_world)) =
       Some \<lparr>px = Num (1 / 2), py = Num (1 / 2)\<rparr>"
  by (simp add: reach_final_grid reach_final descriptor_of_def reach_section_fields)

text \<open>
  C5, amended: grid normalization multiplies both scale axes by the scene's grid size
  divided by the configured one. When no post-path override is registered, the
  overrides that run before the scale is computed neither read nor assign the
  configured grid size, and the hit vector is not computed (the section is in
  rotation-only mode when the run ends, or the travel distance is 0), a run with the
  configured grid size doubled returns the same descriptor with both scale axes
  halved, and leaves the same world. In reach mode with a travel distance other than
  0 the hit vector replaces the scale, and the run returns the same descriptor
  whatever the configured grid size is.
\<close>

theorem grid_normalization_linear:
  assumes "sanitizeData s w = Inr (d, s', w')"
    and "this_postOverrides s = []"
    and "\<forall>h\<in>set (this_overrides s). \<forall>c d0 x.
           h (c\<lparr>this_gridSize := x\<rparr>) d0 =
             (case h c d0 of
                Inl e \<Rightarrow> Inl e
              | Inr (d1, c1) \<Rightarrow> Inr (d1, c1\<lparr>this_gridSize := x\<rparr>))"
  shows "data_scale (grid_normalize s w0 d0) =
           \<lparr>px = js_mul (px (data_scale d0)) (js_div (canvas_grid_size w0) (this_gridSize s)),
            py = js_mul (py (data_scale d0)) (js_div (canvas_grid_size w0) (this_gridSize s))\<rparr>
     \<and> (this_rotationOnly s' \<or> data_distance d = Num 0 \<longrightarrow>
          sanitizeData (s\<lparr>this_gridSize := js_mul (Num 2) (this_gridSize s)\<rparr>) w =
            Inr (d\<lparr>data_scale :=
                     \<lparr>px = js_div (px (data_scale d)) (Num 2),
                      py = js_div (py (data_scale d)) (Num 2)\<rparr>\<rparr>,
                 s'\<lparr>this_gridSize := js_mul (Num 2) (this_gridSize s)\<rparr>, w'))
     \<and> (\<not> this_rotationOnly s' \<and> data_distance d \<noteq> Num 0 \<longrightarrow>
          (\<forall>x. sanitizeData (s\<lparr>this_gridSize := x\<rparr>) w =
                 Inr (d, s'\<lparr>this_gridSize := x\<rparr>, w')))"
proof (intro conjI impI allI)
  show "data_scale (grid_normalize s w0 d0) =
           \<lparr>px = js_mul (px (data_scale d0)) (js_div (canvas_grid_size w0) (this_gridSize s)),
            py = js_mul (py (data_scale d0)) (js_div (canvas_grid_size w0) (this_gridSize s))\<rparr>"
    by (simp add: grid_normalize_def)
next
  from assms(1) obtain d1 w1 d2 w2 d3 s3 d4 w4 d5 d6 s6 w6 d7 w7 d8 w8 where
    st: "resolve_origin_target s w (initial_data s) = Inr (d1, w1)"
    "add_random_rotation s w1 d1 = (d2, w2)"
    "run_overrides (this_overrides s) s d2 = Inr (d3, s3)"
    "pick_file w2 d3 = (d4, w4)"
    "apply_mustache s3 w4 d4 = Inr d5"
    "hit_vector_step s3 w4 (grid_normalize s3 w4 d5) = Inr (d6, s6, w6)"
    "apply_scale s6 w6 d6 = (d7, w7)"
    "apply_flips s6 w7 d7 = (d8, w8)"
    "run_overrides (this_postOverrides s6) s6 (prepend_baseFolder s6 d8) = Inr (d, s')"
    "record_position s' w8 d = Inr w'"
    by (rule sanitizeData_InrE)
  have post: "this_postOverrides s6 = []"
    using hit_vector_step_lists [OF st(6)] run_overrides_lists [OF st(3)] assms(2) by simp
  with st(9) have d: "d = prepend_baseFolder s6 d8" and s': "s' = s6" by auto
  have only: "this_rotationOnly s6 = this_rotationOnly s3"
    using hit_vector_step_fields(5) [OF st(6)] by auto
  have dist: "data_distance (grid_normalize s3 w4 d5) = data_distance d"
    using hit_vector_step_fields(2) [OF st(6)] later_steps_fields(6) [of s6 w6 d6]
      later_steps_fields(8) [of s6 w7 d7] st(7,8) d
    by (simp add: later_steps_fields)
  have hooks: "run_overrides (this_overrides (s\<lparr>this_gridSize := x\<rparr>)) (s\<lparr>this_gridSize := x\<rparr>) d2 =
      Inr (d3, s3\<lparr>this_gridSize := x\<rparr>)" and grid: "this_gridSize s3 = this_gridSize s" for x
    using run_overrides_gridSize [OF assms(3) st(3)] by simp_all
  {
    assume skip': "this_rotationOnly s' \<or> data_distance d = Num 0"
    let ?x = "js_mul (Num 2) (this_gridSize s)"
    let ?s2 = "s\<lparr>this_gridSize := ?x\<rparr>"
    let ?s3 = "s3\<lparr>this_gridSize := ?x\<rparr>"
    let ?h = "\<lambda>d. d\<lparr>data_scale := halved (data_scale d)\<rparr>"
    from skip' have skip: "this_rotationOnly s3 \<or> data_distance (grid_normalize s3 w4 d5) = Num 0"
      by (simp add: s' only dist)
    from hit_vector_step_skipped [OF skip, of w4] st(6)
    have 6: "d6 = grid_normalize s3 w4 d5" "s6 = s3" "w6 = w4" by simp_all
    have skip2: "this_rotationOnly ?s3 \<or> data_distance (?h d6) = Num 0"
      using skip 6 by simp
    have norm: "grid_normalize ?s3 w4 d5 = ?h d6"
      using grid_normalize_doubled [of s3 w4 d5] by (simp add: grid 6)
    have "sanitizeData ?s2 w = Inr (?h d, ?s3, w')"
    proof (rule sanitizeData_steps)
      show "resolve_origin_target ?s2 w (initial_data ?s2) = Inr (d1, w1)"
        using st(1) by (simp add: gridSize_irrelevant)
      show "add_random_rotation ?s2 w1 d1 = (d2, w2)"
        using st(2) by (simp add: gridSize_irrelevant)
      show "run_overrides (this_overrides ?s2) ?s2 d2 = Inr (d3, ?s3)"
        by (rule hooks)
      show "pick_file w2 d3 = (d4, w4)" by (rule st(4))
      show "apply_mustache ?s3 w4 d4 = Inr d5"
        using st(5) by (simp add: gridSize_irrelevant)
      show "hit_vector_step ?s3 w4 (grid_normalize ?s3 w4 d5) = Inr (?h d6, ?s3, w4)"
        unfolding norm by (rule hit_vector_step_skipped [OF skip2])
      show "apply_scale ?s3 w4 (?h d6) = (?h d7, w7)"
        using st(7) 6 by (simp add: apply_scale_halved)
      show "apply_flips ?s3 w7 (?h d7) = (?h d8, w8)"
        using st(8) 6 by (simp add: apply_flips_halved)
      show "run_overrides (this_postOverrides ?s3) ?s3 (prepend_baseFolder ?s3 (?h d8)) =
          Inr (?h d, ?s3)"
        using post d 6 by (simp add: gridSize_irrelevant prepend_baseFolder_def)
      show "record_position ?s3 w8 (?h d) = Inr w'"
        using st(10) 6 s' getName_file [of "?h d" d s3]
        by (simp add: record_position_def gridSize_irrelevant)
    qed
    then show "sanitizeData (s\<lparr>this_gridSize := js_mul (Num 2) (this_gridSize s)\<rparr>) w =
            Inr (d\<lparr>data_scale :=
                     \<lparr>px = js_div (px (data_scale d)) (Num 2),
                      py = js_div (py (data_scale d)) (Num 2)\<rparr>\<rparr>,
                 s'\<lparr>this_gridSize := js_mul (Num 2) (this_gridSize s)\<rparr>, w')"
      using 6 s' by (simp add: halved_def)
  }
  {
    fix x
    assume reach': "\<not> this_rotationOnly s' \<and> data_distance d \<noteq> Num 0"
    let ?s2 = "s\<lparr>this_gridSize := x\<rparr>"
    let ?s3 = "s3\<lparr>this_gridSize := x\<rparr>"
    let ?s6 = "s6\<lparr>this_gridSize := x\<rparr>"
    from reach' have reach: "\<not> this_rotationOnly s3" "data_distance d5 \<noteq> Num 0"
      using dist by (simp_all add: s' only later_steps_fields)
    have "sanitizeData ?s2 w = Inr (d, ?s6, w')"
    proof (rule sanitizeData_steps)
      show "resolve_origin_target ?s2 w (initial_data ?s2) = Inr (d1, w1)"
        using st(1) by (simp add: gridSize_irrelevant)
      show "add_random_rotation ?s2 w1 d1 = (d2, w2)"
        using st(2) by (simp add: gridSize_irrelevant)
      show "run_overrides (this_overrides ?s2) ?s2 d2 = Inr (d3, ?s3)"
        by (rule hooks)
      show "pick_file w2 d3 = (d4, w4)" by (rule st(4))
      show "apply_mustache ?s3 w4 d4 = Inr d5"
        using st(5) by (simp add: gridSize_irrelevant)
      show "hit_vector_step ?s3 w4 (grid_normalize ?s3 w4 d5) = Inr (d6, ?s6, w6)"
        by (rule hit_vector_step_reach_grid [OF reach st(6)])
      show "apply_scale ?s6 w6 d6 = (d7, w7)"
        using st(7) by (simp add: apply_scale_gridSize)
      show "apply_flips ?s6 w7 d7 = (d8, w8)"
        using st(8) by (simp add: apply_flips_gridSize)
      show "run_overrides (this_postOverrides ?s6) ?s6 (prepend_baseFolder ?s6 d8) = Inr (d, ?s6)"
        using post d by (simp add: gridSize_irrelevant)
      show "record_position ?s6 w8 d = Inr w'"
        using st(10) s' by (simp add: record_position_gridSize)
    qed
    then show "sanitizeData (s\<lparr>this_gridSize := x\<rparr>) w = Inr (d, s'\<lparr>this_gridSize := x\<rparr>, w')"
      by (simp add: s')
  }
qed

theorem grid_normalization_linear_witness:
  "this_postOverrides hooked_section = [] \<and> this_overrides hooked_section = [rotating_hook]
   \<and> (\<forall>c d0 x. rotating_hook (c\<lparr>this_gridSize := x\<rparr>) d0 =
          (case rotating_hook c d0 of
             Inl e \<Rightarrow> Inl e
           | Inr (d1, c1) \<Rightarrow> Inr (d1, c1\<lparr>this_gridSize := x\<rparr>)))
   \<and> this_gridSize hooked_section = Num 100
   \<and> map_option data_scale (descriptor_of (sanitizeData hooked_section example_world)) =
       Some \<lparr>px = Num 1, py = Num 1\<rparr>
   \<and> map_option data_scale
        (descriptor_of (sanitizeData (hooked_section\<lparr>this_gridSize := Num 200\<rparr>) example_world)) =
       Some \<lparr>px = Num (1 / 2), py = Num (1 / 2)\<rparr>
   \<and> this_postOverrides reach_section = [] \<and> this_overrides reach_section = []
   \<and> map_option data_scale (descriptor_of (sanitizeData reach_section example_world)) =
       Some \<lparr>px = Num (1 / 2), py = Num (1 / 2)\<rparr>
   \<and> map_option data_scale
        (descriptor_of (sanitizeData (reach_section\<lparr>this_gridSize := Num 50\<rparr>) example_world)) =
       Some \<lparr>px = Num (1 / 2), py = Num (1 / 2)\<rparr>"
proof -
  have hook: "\<forall>c d0 x. rotating_hook (c\<lparr>this_gridSize := x\<rparr>) d0 =
          (case rotating_hook c d0 of
             Inl e \<Rightarrow> Inl e
           | Inr (d1, c1) \<Rightarrow> Inr (d1, c1\<lparr>this_gridSize := x\<rparr>))"
    by (simp add: rotating_hook_def)
  have hooks: "\<forall>h\<in>set (this_overrides hooked_section). \<forall>c d0 x.
      h (c\<lparr>this_gridSize := x\<rparr>) d0 =
        (case h c d0 of
           Inl e \<Rightarrow> Inl e
         | Inr (d1, c1) \<Rightarrow> Inr (d1, c1\<lparr>this_gridSize := x\<rparr>))"
    by (simp add: hooked_fields rotating_hook_def)
  have none: "\<forall>h\<in>set (this_overrides reach_section). \<forall>c d0 x.
      h (c\<lparr>this_gridSize := x\<rparr>) d0 =
        (case h c d0 of
           Inl e \<Rightarrow> Inl e
         | Inr (d1, c1) \<Rightarrow> Inr (d1, c1\<lparr>this_gridSize := x\<rparr>))"
    by (simp add: reach_section_fields)
  from grid_normalization_linear [OF hooked_run hooked_fields(18) hooks,
      THEN conjunct2, THEN conjunct1]
  have a: "map_option data_scale
        (descriptor_of (sanitizeData (hooked_section\<lparr>this_gridSize := Num 200\<rparr>) example_world)) =
       Some \<lparr>px = Num (1 / 2), py = Num (1 / 2)\<rparr>"
    by (simp add: hooked_fields descriptor_of_def initial_data_def)
  from grid_normalization_linear [OF reach_final reach_section_fields(18) none,
      THEN conjunct2, THEN conjunct2]
  have b: "map_option data_scale
        (descriptor_of (sanitizeData (reach_section\<lparr>this_gridSize := Num 50\<rparr>) example_world)) =
       Some \<lparr>px = Num (1 / 2), py = Num (1 / 2)\<rparr>"
    by (simp add: reach_section_fields reach_resolved_fields descriptor_of_def)
  have c: "this_postOverrides hooked_section = [] \<and> this_overrides hooked_section = [rotating_hook]
      \<and> this_gridSize hooked_section = Num 100
      \<and> map_option data_scale (descriptor_of (sanitizeData hooked_section example_world)) =
          Some \<lparr>px = Num 1, py = Num 1\<rparr>
      \<and> this_postOverrides reach_section = [] \<and> this_overrides reach_section = []
      \<and> map_option data_scale (descriptor_of (sanitizeData reach_section example_world)) =
          Some \<lparr>px = Num (1 / 2), py = Num (1 / 2)\<rparr>"
    by (simp add: hooked_fields hooked_run reach_section_fields reach_final descriptor_of_def
        initial_data_def)
  from a b c hook show ?thesis by blast
qed

subsection \<open>Default anchors\<close>

lemma resolve_origin_target_anchor:
  assumes "resolve_origin_target s w (initial_data s) = Inr (d, w')"
  shows "data_anchor d =
     (case this_anchor s of
        Some a \<Rightarrow> a
      | None \<Rightarrow>
          if opt_truthy (this_from s)
          then if opt_truthy (this_to s)
               then \<lparr>px = Num 0, py = Num (1 / 2)\<rparr>
               else \<lparr>px = Num (1 / 2), py = Num (1 / 2)\<rparr>
          else \<lparr>px = Num 0, py = Num 0\<rparr>)"
  using assms
  by (auto simp add: resolve_origin_target_def initial_data_def and_then_def opt_truthy_def Let_def
      split: option.splits if_splits sum.splits prod.splits)

lemma anchor_steps_fields:
  "data_anchor (fst (add_random_rotation s w d)) = data_anchor d"
  "data_distance (fst (add_random_rotation s w d)) = data_distance d"
  "data_anchor (fst (pick_file w d)) = data_anchor d"
  "data_anchor (grid_normalize s w d) = data_anchor d"
  "data_anchor (fst (apply_scale s w d)) = data_anchor d"
  "data_anchor (fst (apply_flips s w d)) = data_anchor d"
  "data_anchor (prepend_baseFolder s d) = data_anchor d"
  by (simp_all add: add_random_rotation_def pick_file_def grid_normalize_def apply_scale_def
      apply_flips_def prepend_baseFolder_def split_def Let_def split: file_val.splits)

lemma apply_mustache_anchor:
  assumes "apply_mustache s w d = Inr d'"
  shows "data_anchor d' = data_anchor d"
  using assms by (auto simp add: apply_mustache_def split: option.splits sum.splits)

lemma run_overrides_section:
  assumes "\<forall>h\<in>set hs. \<forall>c d d' c'. h c d = Inr (d', c') \<longrightarrow> Q c' = Q c"
    and "run_overrides hs s d = Inr (d', s')"
  shows "Q (fields_of s') = Q (fields_of s)"
  using assms
proof (induction hs arbitrary: s d)
  case Nil
  then show ?case by simp
next
  case (Cons h hs)
  from Cons.prems(2) obtain d1 c1 where h: "h (fields_of s) d = Inr (d1, c1)"
    and rest: "run_overrides hs (with_fields c1 s) d1 = Inr (d', s')"
    by (auto split: sum.splits)
  from Cons.prems(1) h have "Q c1 = Q (fields_of s)" by auto
  moreover from Cons.IH [OF _ rest] Cons.prems(1) have "Q (fields_of s') = Q c1" by simp
  ultimately show ?case by simp
qed

text \<open>
  C6: after the origin and the target are resolved (lines 358 to 415) the descriptor's
  anchor is the configured anchor if there is one; otherwise (0.5, 0.5) when an origin
  is set and no target is, (0, 0.5) when both are set, and the initial (0, 0) when no
  origin is set. A reference is set when \<open>this._from\<close> or \<open>this._to\<close> is truthy. The
  same anchor is the one of the descriptor that \<open>_sanitizeData\<close> returns whenever the
  hit vector is not computed (rotation-only mode, or a travel distance of 0) and every
  override, whatever it reads from the section, returns the anchor and the travel
  distance it was given and leaves the rotation-only mode as it is.
\<close>

theorem anchor_defaulting:
  "(let expected =
          (case this_anchor s of
             Some a \<Rightarrow> a
           | None \<Rightarrow>
               if opt_truthy (this_from s)
               then if opt_truthy (this_to s)
                    then \<lparr>px = Num 0, py = Num (1 / 2)\<rparr>
                    else \<lparr>px = Num (1 / 2), py = Num (1 / 2)\<rparr>
               else \<lparr>px = Num 0, py = Num 0\<rparr>)
    in (\<forall>d1 w1. resolve_origin_target s w (initial_data s) = Inr (d1, w1)
          \<longrightarrow> data_anchor d1 = expected)
     \<and> (\<forall>d s' w'.
          sanitizeData s w = Inr (d, s', w')
          \<and> (\<forall>h\<in>set (this_overrides s @ this_postOverrides s). \<forall>c d0 c' d0'.
                h c d0 = Inr (d0', c') \<longrightarrow>
                data_anchor d0' = data_anchor d0 \<and> data_distance d0' = data_distance d0
                \<and> this_rotationOnly c' = this_rotationOnly c)
          \<and> (this_rotationOnly s \<or> data_distance d = Num 0)
          \<longrightarrow> data_anchor d = expected))"
proof -
  let ?e = "case this_anchor s of
             Some a \<Rightarrow> a
           | None \<Rightarrow>
               if opt_truthy (this_from s)
               then if opt_truthy (this_to s)
                    then \<lparr>px = Num 0, py = Num (1 / 2)\<rparr>
                    else \<lparr>px = Num (1 / 2), py = Num (1 / 2)\<rparr>
               else \<lparr>px = Num 0, py = Num 0\<rparr>"
  have final: "data_anchor d = ?e"
    if run: "sanitizeData s w = Inr (d, s', w')"
      and hooks: "\<forall>h\<in>set (this_overrides s @ this_postOverrides s). \<forall>c d0 c' d0'.
                h c d0 = Inr (d0', c') \<longrightarrow>
                data_anchor d0' = data_anchor d0 \<and> data_distance d0' = data_distance d0
                \<and> this_rotationOnly c' = this_rotationOnly c"
      and skip: "this_rotationOnly s \<or> data_distance d = Num 0"
    for d s' w'
  proof -
    from run obtain d1 w1 d2 w2 d3 s3 d4 w4 d5 d6 s6 w6 d7 w7 d8 w8 where
      st: "resolve_origin_target s w (initial_data s) = Inr (d1, w1)"
      "add_random_rotation s w1 d1 = (d2, w2)"
      "run_overrides (this_overrides s) s d2 = Inr (d3, s3)"
      "pick_file w2 d3 = (d4, w4)"
      "apply_mustache s3 w4 d4 = Inr d5"
      "hit_vector_step s3 w4 (grid_normalize s3 w4 d5) = Inr (d6, s6, w6)"
      "apply_scale s6 w6 d6 = (d7, w7)"
      "apply_flips s6 w7 d7 = (d8, w8)"
      "run_overrides (this_postOverrides s6) s6 (prepend_baseFolder s6 d8) = Inr (d, s')"
      by (rule sanitizeData_InrE)
    have same: "this_postOverrides s6 = this_postOverrides s"
      using hit_vector_step_lists [OF st(6)] run_overrides_lists [OF st(3)] by simp
    have pre: "\<forall>h\<in>set (this_overrides s). \<forall>c d0 d0' c'. h c d0 = Inr (d0', c') \<longrightarrow>
        (data_anchor d0', data_distance d0') = (data_anchor d0, data_distance d0)"
      using hooks by fastforce
    have pre_only: "\<forall>h\<in>set (this_overrides s). \<forall>c d0 d0' c'. h c d0 = Inr (d0', c') \<longrightarrow>
        this_rotationOnly c' = this_rotationOnly c"
      using hooks by fastforce
    have post: "\<forall>h\<in>set (this_postOverrides s6). \<forall>c d0 d0' c'. h c d0 = Inr (d0', c') \<longrightarrow>
        (data_anchor d0', data_distance d0') = (data_anchor d0, data_distance d0)"
      using hooks same by fastforce
    have only: "this_rotationOnly s3 = this_rotationOnly s"
      using run_overrides_section [OF pre_only st(3)] by simp
    have d_last: "data_anchor d = data_anchor d8" "data_distance d = data_distance d8"
      using run_overrides_preserve [OF post st(9)]
      by (simp_all add: anchor_steps_fields later_steps_fields)
    have d8: "data_anchor d8 = data_anchor d6" "data_distance d8 = data_distance d6"
      using anchor_steps_fields(5) [of s6 w6 d6] anchor_steps_fields(6) [of s6 w7 d7]
        later_steps_fields(6) [of s6 w6 d6] later_steps_fields(8) [of s6 w7 d7] st(7,8)
      by simp_all
    have "data_distance d6 = data_distance (grid_normalize s3 w4 d5)"
      using hit_vector_step_fields(2) [OF st(6)] .
    with skip d_last d8 only
    have "this_rotationOnly s3 \<or> data_distance (grid_normalize s3 w4 d5) = Num 0" by simp
    from hit_vector_step_skipped [OF this, of w4] st(6)
    have "d6 = grid_normalize s3 w4 d5" by simp
    then have d6: "data_anchor d6 = data_anchor d5" by (simp add: anchor_steps_fields)
    have d5: "data_anchor d5 = data_anchor d4" using st(5) by (rule apply_mustache_anchor)
    have d4: "data_anchor d4 = data_anchor d3"
      using anchor_steps_fields(3) [of w2 d3] st(4) by simp
    have d3: "data_anchor d3 = data_anchor d2"
      using run_overrides_preserve [OF pre st(3)] by simp
    have d2: "data_anchor d2 = data_anchor d1"
      using anchor_steps_fields(1) [of s w1 d1] st(2) by simp
    from d_last d8 d6 d5 d4 d3 d2 resolve_origin_target_anchor [OF st(1)]
    show ?thesis by simp
  qed
  show ?thesis
    unfolding Let_def
  proof (intro conjI allI impI)
    fix d1 w1
    assume "resolve_origin_target s w (initial_data s) = Inr (d1, w1)"
    then show "data_anchor d1 = ?e" by (rule resolve_origin_target_anchor)
  next
    fix d s' w'
    assume "sanitizeData s w = Inr (d, s', w')
          \<and> (\<forall>h\<in>set (this_overrides s @ this_postOverrides s). \<forall>c d0 c' d0'.
                h c d0 = Inr (d0', c') \<longrightarrow>
                data_anchor d0' = data_anchor d0 \<and> data_distance d0' = data_distance d0
                \<and> this_rotationOnly c' = this_rotationOnly c)
          \<and> (this_rotationOnly s \<or> data_distance d = Num 0)"
    then show "data_anchor d = ?e"
      using final [of d s' w'] by (elim conjE) (rule final)
  qed
qed

theorem anchor_defaulting_witness:
  "this_anchor reach_section = None \<and> opt_truthy (this_from reach_section)
   \<and> opt_truthy (this_to reach_section)
   \<and> resolve_origin_target reach_section example_world (initial_data reach_section) =
       Inr (reach_resolved, example_world)
   \<and> data_anchor reach_resolved = \<lparr>px = Num 0, py = Num (1 / 2)\<rparr>"
proof -
  have pre: "this_anchor reach_section = None" "opt_truthy (this_from reach_section)"
    "opt_truthy (this_to reach_section)"
    by (simp_all add: reach_section_fields opt_truthy_def)
  from anchor_defaulting [of reach_section example_world, unfolded Let_def, THEN conjunct1,
      rule_format, OF reach_resolve]
  have "data_anchor reach_resolved =
      (case this_anchor reach_section of
             Some a \<Rightarrow> a
           | None \<Rightarrow>
               if opt_truthy (this_from reach_section)
               then if opt_truthy (this_to reach_section)
                    then \<lparr>px = Num 0, py = Num (1 / 2)\<rparr>
                    else \<lparr>px = Num (1 / 2), py = Num (1 / 2)\<rparr>
               else \<lparr>px = Num 0, py = Num 0\<rparr>)"
    .
  with pre reach_resolve show ?thesis by simp
qed

subsection \<open>Named positions\<close>



lemma getName_configured:
  assumes "this_name s = Some n" and "n \<noteq> []"
  shows "getName s d = Inr n"
  using assms by (simp add: getName_def)









lemma follower_fields:
  "this_from follower_section = Some (NameRef ''n'')"
  "this_to follower_section = None"
  "this_anchor follower_section = None"
  "\<not> this_missed follower_section"
  "\<not> this_randomRotation follower_section"
  "this_overrides follower_section = []"
  "this_mustache follower_section = None"
  "this_rotationOnly follower_section"
  "this_scaleMin follower_section = SFalse"
  "\<not> this_randomX follower_section"
  "\<not> this_randomY follower_section"
  "this_postOverrides follower_section = []"
  "this_name follower_section = None"
  "this_file follower_section = FStr ''beam.webm''"
  "this_baseFolder follower_section = []"
  "this_gridSize follower_section = Num 100"
  "this_currentRepetition follower_section = 0"
  by (simp_all add: follower_section_def new_EffectSection_def example_world_def)


lemma follower_run:
  "sanitizeData follower_section named_world =
     Inr ((initial_data follower_section)
            \<lparr>data_anchor := \<lparr>px = Num (1 / 2), py = Num (1 / 2)\<rparr>,
             anchor_shared := False,
             data_position := \<lparr>px = Num 30, py = Num 40\<rparr>\<rparr>,
          follower_section,
          insertCachedPosition named_world ''beam'' 0 \<lparr>px = Num 30, py = Num 40\<rparr>)"
proof -
  let ?s = "follower_section"
  let ?d1 = "(initial_data ?s)
            \<lparr>data_anchor := \<lparr>px = Num (1 / 2), py = Num (1 / 2)\<rparr>,
             anchor_shared := False,
             data_position := \<lparr>px = Num 30, py = Num 40\<rparr>\<rparr>"
  have cp: "calculatePositions ?s named_world (NameRef ''n'') None False =
      Inr ((\<lparr>px = Num 30, py = Num 40\<rparr>, None), named_world)"
    by (simp add: calculatePositions_def and_then_def resolve_name_def getCachedPosition_def
        calculateMissedPosition_def opt_truthy_def named_world_def insertCachedPosition_def
        follower_fields)
  have 1: "resolve_origin_target ?s named_world (initial_data ?s) = Inr (?d1, named_world)"
    by (simp add: resolve_origin_target_def follower_fields cp and_then_def opt_truthy_def)
  have 2: "add_random_rotation ?s named_world ?d1 = (?d1, named_world)"
    by (simp add: add_random_rotation_def follower_fields initial_data_def)
  have 3: "run_overrides (this_overrides ?s) ?s ?d1 = Inr (?d1, ?s)"
    by (simp add: follower_fields)
  have 4: "data_file ?d1 = FStr ''beam.webm''"
    by (simp add: initial_data_def follower_fields)
  have 5: "getName ?s (?d1\<lparr>data_file := FStr (this_baseFolder ?s @ ''beam.webm'')\<rparr>) = Inr ''beam''"
    by (simp add: getName_def follower_fields file_stem_def)
  have grid: "canvas_grid_size named_world = Num 100"
    by (simp add: named_world_def insertCachedPosition_def example_world_def)
  show ?thesis
    using rotation_only_run [OF 1 2 3 4 _ _ _ _ _ _ 5]
    by (simp add: follower_fields grid initial_data_def)
qed


subsection \<open>Two consecutive runs\<close>

lemma with_caches_fields [simp]:
  "canvas_grid_size (with_caches cp fc pl w) = canvas_grid_size w"
  "random_draws (with_caches cp fc pl w) = random_draws w"
  "random_pos (with_caches cp fc pl w) = random_pos w"
  "cachedPositions (with_caches cp fc pl w) = cp"
  "fileCache (with_caches cp fc pl w) = fc"
  "probed (with_caches cp fc pl w) = pl"
  "getDimensions (with_caches cp fc pl w) = getDimensions w"
  "Handlebars (with_caches cp fc pl w) = Handlebars w"
  by (simp_all add: with_caches_def)

lemma Math_random_caches:
  "Math_random (with_caches cp fc pl w) =
     (fst (Math_random w), with_caches cp fc pl (snd (Math_random w)))"
  by (simp add: Math_random_def with_caches_def)

lemma random_float_between_caches:
  "random_float_between lo hi (with_caches cp fc pl w) =
     (fst (random_float_between lo hi w), with_caches cp fc pl (snd (random_float_between lo hi w)))"
  by (simp add: random_float_between_def Math_random_caches split_def Let_def)

lemma calculateMissedPosition_caches:
  "calculateMissedPosition (with_caches cp fc pl w) t p m =
     (fst (calculateMissedPosition w t p m),
      with_caches cp fc pl (snd (calculateMissedPosition w t p m)))"
  by (simp add: calculateMissedPosition_def Math_random_caches random_float_between_caches
      split_def Let_def)

lemma resolve_name_caches:
  assumes "\<forall>n. l = NameRef n \<longrightarrow>
      cp (n, this_currentRepetition s) = cachedPositions w (n, this_currentRepetition s)"
  shows "resolve_name s (with_caches cp fc pl w) l = resolve_name s w l"
  using assms by (simp add: resolve_name_def getCachedPosition_def split: location.splits)

lemma calculatePositions_caches:
  assumes "\<forall>n. f = NameRef n \<or> t = Some (NameRef n) \<longrightarrow>
      cp (n, this_currentRepetition s) = cachedPositions w (n, this_currentRepetition s)"
  shows "calculatePositions s (with_caches cp fc pl w) f t m =
     in_world (with_caches cp fc pl) (calculatePositions s w f t m)"
proof -
  from assms have f: "resolve_name s (with_caches cp fc pl w) f = resolve_name s w f"
    by (intro resolve_name_caches) simp
  have t: "resolve_name s (with_caches cp fc pl w) l = resolve_name s w l" if "t = Some l" for l
    using assms that by (intro resolve_name_caches) simp
  show ?thesis
  proof (cases t)
    case None
    then show ?thesis
      by (simp add: calculatePositions_def f calculateMissedPosition_caches
          and_then_def in_world_def split_def Let_def split: sum.splits)
  next
    case (Some l)
    then show ?thesis
      by (simp add: calculatePositions_def f t [OF Some] calculateMissedPosition_caches
          and_then_def in_world_def split_def Let_def split: sum.splits)
  qed
qed

lemma resolve_origin_target_caches:
  assumes "\<forall>n. this_from s = Some (NameRef n) \<or> this_to s = Some (NameRef n) \<longrightarrow>
      cp (n, this_currentRepetition s) = cachedPositions w (n, this_currentRepetition s)"
  shows "resolve_origin_target s (with_caches cp fc pl w) d =
     in_world (with_caches cp fc pl) (resolve_origin_target s w d)"
proof (cases "this_from s")
  case None
  then show ?thesis by (simp add: resolve_origin_target_def in_world_def)
next
  case (Some f)
  with assms have "\<forall>n. f = NameRef n \<or> this_to s = Some (NameRef n) \<longrightarrow>
      cp (n, this_currentRepetition s) = cachedPositions w (n, this_currentRepetition s)"
    by simp
  from calculatePositions_caches [OF this] Some show ?thesis
    by (auto simp add: resolve_origin_target_def and_then_def in_world_def split_def Let_def
        split: sum.splits)
qed

lemma early_steps_caches:
  "add_random_rotation s (with_caches cp fc pl w) d =
     (fst (add_random_rotation s w d), with_caches cp fc pl (snd (add_random_rotation s w d)))"
  "pick_file (with_caches cp fc pl w) d =
     (fst (pick_file w d), with_caches cp fc pl (snd (pick_file w d)))"
  "apply_mustache s (with_caches cp fc pl w) d = apply_mustache s w d"
  "grid_normalize s (with_caches cp fc pl w) d = grid_normalize s w d"
  by (simp_all add: add_random_rotation_def pick_file_def random_array_element_def
      apply_mustache_def grid_normalize_def Math_random_caches split_def Let_def
      split: file_val.splits cong: option.case_cong)

lemma configured_scale_caches:
  "configured_scale s (with_caches cp fc pl w) =
     (fst (configured_scale s w), with_caches cp fc pl (snd (configured_scale s w)))"
  by (simp add: configured_scale_def random_float_between_caches split_def Let_def
      split: scale_val.splits option.splits)

lemma random_flip_caches:
  "random_flip b (with_caches cp fc pl w) =
     (fst (random_flip b w), with_caches cp fc pl (snd (random_flip b w)))"
  by (simp add: random_flip_def Math_random_caches split_def Let_def)

lemma late_steps_caches:
  "apply_scale s (with_caches cp fc pl w) d =
     (fst (apply_scale s w d), with_caches cp fc pl (snd (apply_scale s w d)))"
  "apply_flips s (with_caches cp fc pl w) d =
     (fst (apply_flips s w d), with_caches cp fc pl (snd (apply_flips s w d)))"
  by (simp_all add: apply_scale_def apply_flips_def configured_scale_caches random_flip_caches
      split_def Let_def)

text \<open>
  With the asset cache as a call of \<open>_getFileDimensions\<close> left it, the same call gives
  the same dimensions without asking the probe.
\<close>

lemma getFileDimensions_caches:
  assumes "getFileDimensions s w f = Inr (c, w')"
  shows "getFileDimensions s (with_caches cp (fileCache w') pl w) f =
     Inr (c, with_caches cp (fileCache w') pl w)"
  using assms
  by (auto simp add: getFileDimensions_def Let_def split: option.splits sum.splits if_splits)

lemma getFileDimensions_world:
  assumes "getFileDimensions s w f = Inr (c, w')"
  shows "w' = w\<lparr>fileCache := fileCache w', probed := probed w'\<rparr>"
  using assms
  by (auto simp add: getFileDimensions_def Let_def split: option.splits sum.splits if_splits)

lemma hit_vector_step_world:
  assumes "hit_vector_step s w d = Inr (d', s', w')"
  shows "w' = w\<lparr>fileCache := fileCache w', probed := probed w'\<rparr>"
  using assms getFileDimensions_world [of s w "data_file d"]
  by (auto simp add: hit_vector_step_def calculateHitVector_def Let_def
      split: if_splits sum.splits prod.splits)

lemma hit_vector_step_caches:
  assumes "hit_vector_step s w d = Inr (d', s', w')"
  shows "hit_vector_step s (with_caches cp (fileCache w') pl w) d =
     Inr (d', s', with_caches cp (fileCache w') pl w)"
  using assms getFileDimensions_caches [of s w "data_file d" _ _ cp pl]
  by (auto simp add: hit_vector_step_def calculateHitVector_def Let_def
      split: if_splits sum.splits prod.splits)

text \<open>What a step leaves of the world: only the random source moves on.\<close>

lemma draws_world:
  "snd (Math_random w) = w\<lparr>random_pos := random_pos (snd (Math_random w))\<rparr>"
  "snd (random_float_between lo hi w) = w\<lparr>random_pos := random_pos (snd (random_float_between lo hi w))\<rparr>"
  by (simp_all add: Math_random_def random_float_between_def split_def Let_def)

lemma moved_on:
  assumes "w1 = w\<lparr>random_pos := p\<rparr>" and "w2 = w1\<lparr>random_pos := q\<rparr>"
  shows "w2 = w\<lparr>random_pos := random_pos w2\<rparr>"
  using assms by simp

lemma calculateMissedPosition_world:
  "snd (calculateMissedPosition w t p m) =
     w\<lparr>random_pos := random_pos (snd (calculateMissedPosition w t p m))\<rparr>"
  by (simp add: calculateMissedPosition_def Math_random_def random_float_between_def
      split_def Let_def)

lemma calculatePositions_world:
  assumes "calculatePositions s w f t m = Inr (r, w')"
  shows "w' = w\<lparr>random_pos := random_pos w'\<rparr>"
proof -
  from assms obtain f' to' where
    w': "w' = snd (calculateMissedPosition w f' (position_of f') (\<not> opt_truthy to' \<and> m))
      \<or> (\<exists>t' q. w' = snd (calculateMissedPosition
                (snd (calculateMissedPosition w f' (position_of f') (\<not> opt_truthy to' \<and> m)))
                t' q m))"
    by (auto simp add: calculatePositions_def and_then_def split_def Let_def
        split: sum.splits option.splits if_splits)
  then show ?thesis
  proof
    assume "w' = snd (calculateMissedPosition w f' (position_of f') (\<not> opt_truthy to' \<and> m))"
    then show ?thesis using calculateMissedPosition_world by simp
  next
    assume "\<exists>t' q. w' = snd (calculateMissedPosition
                (snd (calculateMissedPosition w f' (position_of f') (\<not> opt_truthy to' \<and> m)))
                t' q m)"
    then obtain t' q where "w' = snd (calculateMissedPosition
                (snd (calculateMissedPosition w f' (position_of f') (\<not> opt_truthy to' \<and> m)))
                t' q m)" by blast
    then show ?thesis
      using moved_on [OF calculateMissedPosition_world calculateMissedPosition_world] by simp
  qed
qed

lemma resolve_origin_target_world:
  assumes "resolve_origin_target s w d = Inr (d', w')"
  shows "w' = w\<lparr>random_pos := random_pos w'\<rparr>"
  using assms
  by (auto simp add: resolve_origin_target_def and_then_def split_def Let_def
      dest: calculatePositions_world split: sum.splits option.splits if_splits)

lemma steps_world:
  "snd (add_random_rotation s w d) = w\<lparr>random_pos := random_pos (snd (add_random_rotation s w d))\<rparr>"
  "snd (pick_file w d) = w\<lparr>random_pos := random_pos (snd (pick_file w d))\<rparr>"
  "snd (apply_scale s w d) = w\<lparr>random_pos := random_pos (snd (apply_scale s w d))\<rparr>"
  "snd (apply_flips s w d) = w\<lparr>random_pos := random_pos (snd (apply_flips s w d))\<rparr>"
  by (simp_all add: add_random_rotation_def pick_file_def random_array_element_def
      apply_scale_def configured_scale_def apply_flips_def random_flip_def Math_random_def
      random_float_between_def split_def Let_def
      split: file_val.splits scale_val.splits option.splits)

lemma anchor_update_steps:
  "add_random_rotation (s\<lparr>this_anchor := x\<rparr>) w (d\<lparr>data_anchor := b\<rparr>) =
     ((fst (add_random_rotation s w d))\<lparr>data_anchor := b\<rparr>, snd (add_random_rotation s w d))"
  "pick_file w (d\<lparr>data_anchor := b\<rparr>) =
     ((fst (pick_file w d))\<lparr>data_anchor := b\<rparr>, snd (pick_file w d))"
  "apply_mustache (s\<lparr>this_anchor := x\<rparr>) w (d\<lparr>data_anchor := b\<rparr>) =
     (case apply_mustache s w d of Inl e \<Rightarrow> Inl e | Inr d' \<Rightarrow> Inr (d'\<lparr>data_anchor := b\<rparr>))"
  "grid_normalize (s\<lparr>this_anchor := x\<rparr>) w (d\<lparr>data_anchor := b\<rparr>) =
     (grid_normalize s w d)\<lparr>data_anchor := b\<rparr>"
  by (simp_all add: add_random_rotation_def pick_file_def apply_mustache_def grid_normalize_def
      split_def Let_def split: file_val.splits option.splits sum.splits)

lemma calculatePositions_anchor:
  "calculatePositions (s\<lparr>this_anchor := x\<rparr>) = calculatePositions s"
  by (intro ext) (simp add: calculatePositions_def resolve_name_def cong: option.case_cong
      location.case_cong)

lemma resolve_origin_target_anchor_update:
  assumes "this_anchor s \<noteq> None"
  shows "resolve_origin_target (s\<lparr>this_anchor := Some b\<rparr>) w (d\<lparr>data_anchor := b\<rparr>) =
     (case resolve_origin_target s w d of
        Inl e \<Rightarrow> Inl e
      | Inr (d', w') \<Rightarrow> Inr (d'\<lparr>data_anchor := b\<rparr>, w'))"
  using assms
  by (auto simp add: resolve_origin_target_def calculatePositions_anchor and_then_def
      split_def Let_def split: option.splits sum.splits)

lemma initial_data_anchor_update:
  assumes "this_anchor s \<noteq> None"
  shows "initial_data (s\<lparr>this_anchor := Some b\<rparr>) = (initial_data s)\<lparr>data_anchor := b\<rparr>"
  using assms by (simp add: initial_data_def)

lemma getFileDimensions_anchor:
  "getFileDimensions (s\<lparr>this_anchor := x\<rparr>) = getFileDimensions s"
  by (intro ext) (simp add: getFileDimensions_def)

lemma hit_vector_step_rerun:
  assumes "hit_vector_step s w d = Inr (d', s', w')" and "s' \<noteq> s"
  shows "hit_vector_step s' w (d\<lparr>data_anchor := data_anchor d'\<rparr>) = Inr (d', s', w')"
    and "s' = s\<lparr>this_anchor := Some (data_anchor d')\<rparr>"
    and "anchor_shared d"
  using assms
  by (auto simp add: hit_vector_step_def calculateHitVector_def getFileDimensions_anchor
      getTrueLength_def Let_def split: if_splits sum.splits prod.splits)

lemma shared_steps_fields:
  "anchor_shared (fst (add_random_rotation s w d)) = anchor_shared d"
  "anchor_shared (fst (pick_file w d)) = anchor_shared d"
  "anchor_shared (grid_normalize s w d) = anchor_shared d"
  by (simp_all add: add_random_rotation_def pick_file_def grid_normalize_def split_def Let_def
      split: file_val.splits)

lemma apply_mustache_shared:
  assumes "apply_mustache s w d = Inr d'"
  shows "anchor_shared d' = anchor_shared d"
  using assms by (auto simp add: apply_mustache_def split: option.splits sum.splits)

lemma resolve_origin_target_shared:
  assumes "resolve_origin_target s w (initial_data s) = Inr (d, w')" and "anchor_shared d"
  shows "this_anchor s \<noteq> None"
  using assms
  by (auto simp add: resolve_origin_target_def initial_data_def and_then_def Let_def
      split: option.splits if_splits sum.splits prod.splits)

lemma sanitizeData_rerun:
  assumes "this_overrides s = []" and "this_postOverrides s = []"
    and "sanitizeData s w = Inr (d, s', w')"
  shows "sanitizeData s' w = Inr (d, s', w')"
proof (cases "s' = s")
  case True
  with assms(3) show ?thesis by simp
next
  case False
  from assms(3,1,2) obtain d1 w1 d2 w2 d4 w4 d5 d6 w6 d7 w7 d8 w8 where
    st: "resolve_origin_target s w (initial_data s) = Inr (d1, w1)"
    "add_random_rotation s w1 d1 = (d2, w2)"
    "pick_file w2 d2 = (d4, w4)"
    "apply_mustache s w4 d4 = Inr d5"
    "hit_vector_step s w4 (grid_normalize s w4 d5) = Inr (d6, s', w6)"
    "this_postOverrides s' = []"
    "apply_scale s' w6 d6 = (d7, w7)"
    "apply_flips s' w7 d7 = (d8, w8)"
    "d = prepend_baseFolder s' d8"
    "record_position s' w8 d = Inr w'"
    by (rule sanitizeData_plain_InrE)
  let ?b = "data_anchor d6"
  let ?u = "\<lambda>d. d\<lparr>data_anchor := ?b\<rparr>"
  note again = hit_vector_step_rerun [OF st(5) False]
  have s': "s' = s\<lparr>this_anchor := Some ?b\<rparr>" by (rule again(2))
  have "anchor_shared d5"
    using again(3) by (simp add: shared_steps_fields)
  then have "anchor_shared d4"
    using apply_mustache_shared [OF st(4)] by simp
  moreover have "anchor_shared d4 = anchor_shared d2"
    using shared_steps_fields(2) [of w2 d2] by (simp add: st(3))
  moreover have "anchor_shared d2 = anchor_shared d1"
    using shared_steps_fields(1) [of s w1 d1] by (simp add: st(2))
  ultimately have "anchor_shared d1" by simp
  with st(1) have configured: "this_anchor s \<noteq> None" by (rule resolve_origin_target_shared)
  have lists: "this_overrides s' = []"
    using hit_vector_step_lists [OF st(5)] assms(1) by simp
  have "sanitizeData s' w = Inr (prepend_baseFolder s' d8, s', w')"
  proof (rule sanitizeData_plain_steps [OF lists st(6)])
    show "resolve_origin_target s' w (initial_data s') = Inr (?u d1, w1)"
      unfolding s' initial_data_anchor_update [OF configured]
        resolve_origin_target_anchor_update [OF configured]
      using st(1) by simp
    show "add_random_rotation s' w1 (?u d1) = (?u d2, w2)"
      unfolding s' anchor_update_steps using st(2) by simp
    show "pick_file w2 (?u d2) = (?u d4, w4)"
      unfolding anchor_update_steps using st(3) by simp
    show "apply_mustache s' w4 (?u d4) = Inr (?u d5)"
      unfolding s' anchor_update_steps using st(4) by simp
    have "grid_normalize s' w4 (?u d5) = ?u (grid_normalize s w4 d5)"
      unfolding s' by (simp add: anchor_update_steps)
    with again(1) show "hit_vector_step s' w4 (grid_normalize s' w4 (?u d5)) = Inr (d6, s', w6)"
      by simp
    show "this_postOverrides s' = []" by (rule st(6))
    show "apply_scale s' w6 d6 = (d7, w7)" by (rule st(7))
    show "apply_flips s' w7 d7 = (d8, w8)" by (rule st(8))
    show "record_position s' w8 (prepend_baseFolder s' d8) = Inr w'"
      using st(10) by (simp add: st(9))
  qed
  then show ?thesis by (simp add: st(9))
qed

lemma frame_moved:
  assumes "w' = w\<lparr>random_pos := p\<rparr>"
  shows "same_scene w w'" "cachedPositions w' = cachedPositions w"
    "fileCache w' = fileCache w" "probed w' = probed w"
    "with_caches cp fc pl w' = (with_caches cp fc pl w)\<lparr>random_pos := p\<rparr>"
  using assms by (simp_all add: same_scene_def with_caches_def)

lemma frame_hit:
  assumes "w' = w\<lparr>fileCache := a, probed := b\<rparr>"
  shows "same_scene w w'" "cachedPositions w' = cachedPositions w"
    "random_pos w' = random_pos w"
    "with_caches cp fc pl w' = with_caches cp fc pl w"
  using assms by (simp_all add: same_scene_def with_caches_def)

lemma frame_record:
  assumes "record_position s w d = Inr w'"
  shows "same_scene w w'" "fileCache w' = fileCache w" "probed w' = probed w"
    "random_pos w' = random_pos w"
    "record_position s (with_caches (cachedPositions w') (fileCache w) (probed w) w) d = Inr w'"
  using assms
  by (auto simp add: record_position_def and_then_def insertCachedPosition_def same_scene_def
      with_caches_def split: sum.splits)

lemma same_scene_trans:
  "same_scene a b \<Longrightarrow> same_scene b c \<Longrightarrow> same_scene a c"
  by (simp add: same_scene_def)

lemma reseeded:
  assumes "same_scene w w'"
  shows "w'\<lparr>random_pos := random_pos w\<rparr> =
     with_caches (cachedPositions w') (fileCache w') (probed w') w"
  using assms by (simp add: same_scene_def with_caches_def)

text \<open>
  A run from the caches as an earlier run of the same section left them, with the
  random source where that run found it.
\<close>

lemma sanitizeData_recached:
  assumes "this_overrides s = []" and "this_postOverrides s = []"
    and "sanitizeData s w = Inr (d, s', w')"
    and "\<forall>n. this_from s = Some (NameRef n) \<or> this_to s = Some (NameRef n) \<longrightarrow>
          cachedPositions w' (n, this_currentRepetition s) =
            cachedPositions w (n, this_currentRepetition s)"
  shows "sanitizeData s (w'\<lparr>random_pos := random_pos w\<rparr>) = Inr (d, s', w')"
proof -
  from assms(3,1,2) obtain d1 w1 d2 w2 d4 w4 d5 d6 w6 d7 w7 d8 w8 where
    st: "resolve_origin_target s w (initial_data s) = Inr (d1, w1)"
    "add_random_rotation s w1 d1 = (d2, w2)"
    "pick_file w2 d2 = (d4, w4)"
    "apply_mustache s w4 d4 = Inr d5"
    "hit_vector_step s w4 (grid_normalize s w4 d5) = Inr (d6, s', w6)"
    "this_postOverrides s' = []"
    "apply_scale s' w6 d6 = (d7, w7)"
    "apply_flips s' w7 d7 = (d8, w8)"
    "d = prepend_baseFolder s' d8"
    "record_position s' w8 d = Inr w'"
    by (rule sanitizeData_plain_InrE)
  have m1: "w1 = w\<lparr>random_pos := random_pos w1\<rparr>"
    using st(1) by (rule resolve_origin_target_world)
  have m2: "w2 = w1\<lparr>random_pos := random_pos w2\<rparr>"
    using steps_world(1) [of s w1 d1] by (simp add: st(2))
  have m4: "w4 = w2\<lparr>random_pos := random_pos w4\<rparr>"
    using steps_world(2) [of w2 d2] by (simp add: st(3))
  have m6: "w6 = w4\<lparr>fileCache := fileCache w6, probed := probed w6\<rparr>"
    using st(5) by (rule hit_vector_step_world)
  have m7: "w7 = w6\<lparr>random_pos := random_pos w7\<rparr>"
    using steps_world(3) [of s' w6 d6] by (simp add: st(7))
  have m8: "w8 = w7\<lparr>random_pos := random_pos w8\<rparr>"
    using steps_world(4) [of s' w7 d7] by (simp add: st(8))
  note f1 = frame_moved [OF m1] and f2 = frame_moved [OF m2] and f4 = frame_moved [OF m4]
    and f6 = frame_hit [OF m6] and f7 = frame_moved [OF m7] and f8 = frame_moved [OF m8]
    and f10 = frame_record [OF st(10)]
  have scene: "same_scene w w'"
    using f1(1) f2(1) f4(1) f6(1) f7(1) f8(1) f10(1) by (simp add: same_scene_def)
  have fc: "fileCache w' = fileCache w6" "probed w' = probed w6"
    "fileCache w8 = fileCache w'" "probed w8 = probed w'"
    using f7(3,4) f8(3,4) f10(2,3) by simp_all
  define cp where "cp = cachedPositions w'"
  define pl where "pl = probed w'"
  let ?U = "with_caches cp (fileCache w6) pl"
  have start: "w'\<lparr>random_pos := random_pos w\<rparr> = ?U w"
    using reseeded [OF scene] by (simp add: cp_def pl_def fc)
  have names: "\<forall>n. this_from s = Some (NameRef n) \<or> this_to s = Some (NameRef n) \<longrightarrow>
      cp (n, this_currentRepetition s) = cachedPositions w (n, this_currentRepetition s)"
    using assms(4) by (simp add: cp_def)
  have "sanitizeData s (?U w) = Inr (prepend_baseFolder s' d8, s', w')"
  proof (rule sanitizeData_plain_steps [OF assms(1,2)])
    show "resolve_origin_target s (?U w) (initial_data s) = Inr (d1, ?U w1)"
      unfolding resolve_origin_target_caches [OF names] by (simp add: st(1) in_world_def)
    show "add_random_rotation s (?U w1) d1 = (d2, ?U w2)"
      unfolding early_steps_caches by (simp add: st(2))
    show "pick_file (?U w2) d2 = (d4, ?U w4)"
      unfolding early_steps_caches by (simp add: st(3))
    show "apply_mustache s (?U w4) d4 = Inr d5"
      unfolding early_steps_caches by (rule st(4))
    show "hit_vector_step s (?U w4) (grid_normalize s (?U w4) d5) = Inr (d6, s', ?U w6)"
      unfolding early_steps_caches f6(4) by (rule hit_vector_step_caches [OF st(5)])
    show "this_postOverrides s' = []" by (rule st(6))
    show "apply_scale s' (?U w6) d6 = (d7, ?U w7)"
      unfolding late_steps_caches by (simp add: st(7))
    show "apply_flips s' (?U w7) d7 = (d8, ?U w8)"
      unfolding late_steps_caches by (simp add: st(8))
    show "record_position s' (?U w8) (prepend_baseFolder s' d8) = Inr w'"
      using f10(5) by (simp add: cp_def pl_def fc st(9))
  qed
  then show ?thesis by (simp add: start st(9))
qed

lemma self_fields:
  "this_file self_section = FStr ''beam.webm''"
  "this_baseFolder self_section = []"
  "this_from self_section = Some (NameRef ''beam'')"
  "this_to self_section = None"
  "this_anchor self_section = None"
  "this_scaleMin self_section = SFalse"
  "this_missed self_section"
  "this_rotationOnly self_section"
  "\<not> this_randomRotation self_section"
  "\<not> this_randomX self_section"
  "\<not> this_randomY self_section"
  "this_gridSize self_section = Num 100"
  "this_mustache self_section = None"
  "this_overrides self_section = []"
  "this_postOverrides self_section = []"
  "this_name self_section = None"
  "this_currentRepetition self_section = 0"
  by (simp_all add: self_section_def new_EffectSection_def example_world_def)

lemma self_run:
  assumes "canvas_grid_size v = Num 100" and "random_draws v = (\<lambda>n. 1 / 4)"
    and "cachedPositions v (''beam'', 0) = Some \<lparr>px = Num x, py = Num y\<rparr>"
  shows "sanitizeData self_section v =
     Inr ((initial_data self_section)
            \<lparr>data_anchor := \<lparr>px = Num (1 / 2), py = Num (1 / 2)\<rparr>,
             anchor_shared := False,
             data_position := \<lparr>px = Num (x - 155 / 2), py = Num (y - 40)\<rparr>\<rparr>,
          self_section,
          insertCachedPosition (v\<lparr>random_pos := random_pos v + 5\<rparr>) ''beam'' 0
            \<lparr>px = Num (x - 155 / 2), py = Num (y - 40)\<rparr>)"
proof -
  let ?s = self_section
  let ?p = "\<lparr>px = Num (x - 155 / 2), py = Num (y - 40)\<rparr>"
  let ?v = "v\<lparr>random_pos := random_pos v + 5\<rparr>"
  let ?d1 = "(initial_data ?s)
            \<lparr>data_anchor := \<lparr>px = Num (1 / 2), py = Num (1 / 2)\<rparr>,
             anchor_shared := False,
             data_position := ?p\<rparr>"
  have missed: "calculateMissedPosition v (Point \<lparr>px = Num x, py = Num y\<rparr>)
      \<lparr>px = Num x, py = Num y\<rparr> True = (?p, ?v)"
    using missed_value [OF assms(1), of "Point \<lparr>px = Num x, py = Num y\<rparr>" 1 1 x y]
    by (simp add: nullish_def assms(2) Let_def)
  have cp: "calculatePositions ?s v (NameRef ''beam'') None True = Inr ((?p, None), ?v)"
    by (simp add: calculatePositions_def and_then_def resolve_name_def getCachedPosition_def
        opt_truthy_def self_fields assms(3) missed)
  have 1: "resolve_origin_target ?s v (initial_data ?s) = Inr (?d1, ?v)"
    by (simp add: resolve_origin_target_def self_fields cp and_then_def opt_truthy_def)
  have 2: "add_random_rotation ?s ?v ?d1 = (?d1, ?v)"
    by (simp add: add_random_rotation_def self_fields initial_data_def)
  have 3: "run_overrides (this_overrides ?s) ?s ?d1 = Inr (?d1, ?s)"
    by (simp add: self_fields)
  have 4: "data_file ?d1 = FStr ''beam.webm''"
    by (simp add: initial_data_def self_fields)
  have 5: "getName ?s (?d1\<lparr>data_file := FStr (this_baseFolder ?s @ ''beam.webm'')\<rparr>) = Inr ''beam''"
    by (simp add: getName_def self_fields file_stem_def)
  show ?thesis
    using rotation_only_run [OF 1 2 3 4 _ _ _ _ _ _ 5]
    by (simp add: self_fields assms(1) initial_data_def)
qed

lemma beam_world_fields:
  "canvas_grid_size beam_world = Num 100" "random_draws beam_world = (\<lambda>n. 1 / 4)"
  "random_pos beam_world = 0"
  "cachedPositions beam_world (''beam'', 0) = Some \<lparr>px = Num 30, py = Num 40\<rparr>"
  by (simp_all add: beam_world_def insertCachedPosition_def example_world_def)

text \<open>
  C8, as the claim states it, fails for an effect that refers to the name it is itself
  recorded under: the run stores the position it returns in the cache that the next
  run resolves the origin from. \<open>atLocation("beam").missed()\<close> on \<open>beam.webm\<close>, with (30, 40)
  cached under \<open>beam\<close> and a random source that always draws \<open>1/4\<close>, is placed at
  (-47.5, 0) by the first run and at (-125, -40) by the second.
\<close>

theorem finalize_rerun_counterexample:
  "this_overrides self_section = [] \<and> this_postOverrides self_section = []
   \<and> map_option data_position (descriptor_of (sanitizeData self_section beam_world)) =
       Some \<lparr>px = Num (- (95 / 2)), py = Num 0\<rparr>
   \<and> map_option data_position (descriptor_of (rerun self_section beam_world)) =
       Some \<lparr>px = Num (- 125), py = Num (- 40)\<rparr>"
proof -
  let ?w1 = "insertCachedPosition (beam_world\<lparr>random_pos := 5\<rparr>) ''beam'' 0
        \<lparr>px = Num (- (95 / 2)), py = Num 0\<rparr>"
  have first: "sanitizeData self_section beam_world =
      Inr ((initial_data self_section)
             \<lparr>data_anchor := \<lparr>px = Num (1 / 2), py = Num (1 / 2)\<rparr>,
              anchor_shared := False,
              data_position := \<lparr>px = Num (- (95 / 2)), py = Num 0\<rparr>\<rparr>,
           self_section, ?w1)"
    using self_run [OF beam_world_fields(1,2,4)] by (simp add: beam_world_fields)
  have w1: "canvas_grid_size (?w1\<lparr>random_pos := 0\<rparr>) = Num 100"
    "random_draws (?w1\<lparr>random_pos := 0\<rparr>) = (\<lambda>n. 1 / 4)"
    "cachedPositions (?w1\<lparr>random_pos := 0\<rparr>) (''beam'', 0) =
       Some \<lparr>px = Num (- (95 / 2)), py = Num 0\<rparr>"
    by (simp_all add: insertCachedPosition_def beam_world_fields)
  have second: "map_option data_position
      (descriptor_of (sanitizeData self_section (?w1\<lparr>random_pos := 0\<rparr>))) =
      Some \<lparr>px = Num (- 125), py = Num (- 40)\<rparr>"
    unfolding self_run [OF w1] by (simp add: descriptor_of_def)
  have "rerun self_section beam_world = sanitizeData self_section (?w1\<lparr>random_pos := 0\<rparr>)"
    by (simp add: rerun_def first beam_world_fields)
  with second show ?thesis
    by (simp add: first descriptor_of_def self_fields)
qed

text \<open>
  C8, amended: take a section without overrides and a run of \<open>_sanitizeData\<close> that
  returns. A second run on the section as the first run left it (a run in reach mode
  writes \<open>anchor.x\<close> into the configured anchor object), from the world the first run
  started from, returns the same descriptor and leaves the same section and world.
  So does a second run from the world as the first run left it, caches included, with
  the random source seeded as for the first run, on the section as it was configured
  or as the first run left it, provided the first run did not change the cached
  position of a name that the origin or the target of the effect refers to.
\<close>

theorem finalize_deterministic:
  assumes "this_overrides s = []" and "this_postOverrides s = []"
    and "sanitizeData s w = Inr (d, s', w')"
  shows "sanitizeData s' w = Inr (d, s', w')
     \<and> ((\<forall>n. this_from s = Some (NameRef n) \<or> this_to s = Some (NameRef n) \<longrightarrow>
             cachedPositions w' (n, this_currentRepetition s) =
               cachedPositions w (n, this_currentRepetition s))
        \<longrightarrow> sanitizeData s (w'\<lparr>random_pos := random_pos w\<rparr>) = Inr (d, s', w')
          \<and> sanitizeData s' (w'\<lparr>random_pos := random_pos w\<rparr>) = Inr (d, s', w')
          \<and> rerun s w = sanitizeData s w)"
proof (intro conjI impI)
  show again: "sanitizeData s' w = Inr (d, s', w')"
    using assms by (rule sanitizeData_rerun)
  assume names: "\<forall>n. this_from s = Some (NameRef n) \<or> this_to s = Some (NameRef n) \<longrightarrow>
             cachedPositions w' (n, this_currentRepetition s) =
               cachedPositions w (n, this_currentRepetition s)"
  show "sanitizeData s (w'\<lparr>random_pos := random_pos w\<rparr>) = Inr (d, s', w')"
    using assms names by (rule sanitizeData_recached)
  from assms(3,1,2) obtain g d6 w4 w6 where
    hit: "hit_vector_step s w4 g = Inr (d6, s', w6)"
    by (rule sanitizeData_plain_InrE)
  from hit_vector_step_fields(5) [OF hit] hit_vector_step_lists [OF hit] assms(1,2)
  have same: "this_from s' = this_from s" "this_to s' = this_to s"
    "this_currentRepetition s' = this_currentRepetition s"
    "this_overrides s' = []" "this_postOverrides s' = []"
    by auto
  have names': "\<forall>n. this_from s' = Some (NameRef n) \<or> this_to s' = Some (NameRef n) \<longrightarrow>
             cachedPositions w' (n, this_currentRepetition s') =
               cachedPositions w (n, this_currentRepetition s')"
    using names by (simp add: same)
  show second: "sanitizeData s' (w'\<lparr>random_pos := random_pos w\<rparr>) = Inr (d, s', w')"
    using same(4,5) again names' by (rule sanitizeData_recached)
  show "rerun s w = sanitizeData s w"
    by (simp add: rerun_def assms(3) second)
qed

lemma anchored_fields:
  "this_file anchored_section = FStr ''beam.webm''"
  "this_baseFolder anchored_section = []"
  "this_from anchored_section = Some (Point \<lparr>px = Num 0, py = Num 0\<rparr>)"
  "this_to anchored_section = Some (Point \<lparr>px = Num 100, py = Num 0\<rparr>)"
  "this_anchor anchored_section = Some \<lparr>px = Num (3 / 10), py = Num (7 / 10)\<rparr>"
  "this_scaleMin anchored_section = SFalse"
  "\<not> this_missed anchored_section"
  "\<not> this_rotationOnly anchored_section"
  "\<not> this_randomRotation anchored_section"
  "\<not> this_JB2A anchored_section"
  "\<not> this_randomX anchored_section"
  "\<not> this_randomY anchored_section"
  "this_startPoint anchored_section = Num 50"
  "this_endPoint anchored_section = Num 0"
  "this_mustache anchored_section = None"
  "this_overrides anchored_section = []"
  "this_postOverrides anchored_section = []"
  "this_name anchored_section = None"
  "this_currentRepetition anchored_section = 0"
  by (simp_all add: anchored_section_def reach_section_fields)

lemma anchored_run:
  "sanitizeData anchored_section example_world =
     Inr (anchored_result,
          anchored_section\<lparr>this_anchor := Some \<lparr>px = Num (1 / 4), py = Num (7 / 10)\<rparr>\<rparr>,
          insertCachedPosition example_world ''beam'' 0 \<lparr>px = Num 0, py = Num 0\<rparr>)"
proof (rule sanitizeData_steps)
  let ?s = anchored_section
  let ?s' = "anchored_section\<lparr>this_anchor := Some \<lparr>px = Num (1 / 4), py = Num (7 / 10)\<rparr>\<rparr>"
  let ?d1 = "(initial_data ?s)
       \<lparr>data_position := \<lparr>px = Num 0, py = Num 0\<rparr>,
        data_rotation := Num 0, data_distance := Num 100\<rparr>"
  have init: "data_file (initial_data ?s) = FStr ''beam.webm''"
    "data_anchor (initial_data ?s) = \<lparr>px = Num (3 / 10), py = Num (7 / 10)\<rparr>"
    "anchor_shared (initial_data ?s)"
    "data_scale (initial_data ?s) = \<lparr>px = Num 1, py = Num 1\<rparr>"
    "data_rotation (initial_data ?s) = Num 0"
    by (simp_all add: initial_data_def anchored_fields)
  show "resolve_origin_target ?s example_world (initial_data ?s) = Inr (?d1, example_world)"
    by (simp add: resolve_origin_target_def anchored_fields calculatePositions_points
        and_then_def opt_truthy_def Ray_def js_sub_def atan2_def)
  show "add_random_rotation ?s example_world ?d1 = (?d1, example_world)"
    by (simp add: add_random_rotation_def anchored_fields)
  show "run_overrides (this_overrides ?s) ?s ?d1 = Inr (?d1, ?s)"
    by (simp add: anchored_fields)
  show "pick_file example_world ?d1 = (?d1, example_world)"
    by (simp add: pick_file_def init)
  show "apply_mustache ?s example_world ?d1 = Inr ?d1"
    by (simp add: apply_mustache_def anchored_fields)
  have dims: "getFileDimensions ?s example_world (FStr ''beam.webm'') =
      Inr (\<lparr>px = Num 200, py = Num 100\<rparr>, example_world)"
    by (simp add: getFileDimensions_def anchored_fields) (simp add: example_world_def)
  have "hit_vector_step ?s example_world (grid_normalize ?s example_world ?d1) =
        Inr ((grid_normalize ?s example_world ?d1)
               \<lparr>data_scale := \<lparr>px = Num (2 / 3), py = Num (2 / 3)\<rparr>,
                data_anchor := \<lparr>px = Num (1 / 4), py = Num (7 / 10)\<rparr>\<rparr>,
             ?s', example_world)"
    using dims
    by (simp add: hit_vector_step_def calculateHitVector_def getTrueLength_def Let_def
        grid_normalize_def anchored_fields init js_sub_def)
  also have "(grid_normalize ?s example_world ?d1)
               \<lparr>data_scale := \<lparr>px = Num (2 / 3), py = Num (2 / 3)\<rparr>,
                data_anchor := \<lparr>px = Num (1 / 4), py = Num (7 / 10)\<rparr>\<rparr> = anchored_result"
    by (simp add: grid_normalize_def anchored_result_def)
  finally show "hit_vector_step ?s example_world (grid_normalize ?s example_world ?d1) =
      Inr (anchored_result, ?s', example_world)" .
  have res: "data_file anchored_result = FStr ''beam.webm''"
    "data_position anchored_result = \<lparr>px = Num 0, py = Num 0\<rparr>"
    by (simp_all add: anchored_result_def init)
  show "apply_scale ?s' example_world anchored_result = (anchored_result, example_world)"
    by (simp add: apply_scale_def configured_scale_def nullish_def anchored_fields)
  show "apply_flips ?s' example_world anchored_result = (anchored_result, example_world)"
    by (simp add: apply_flips_def random_flip_def anchored_fields)
  show "run_overrides (this_postOverrides ?s') ?s' (prepend_baseFolder ?s' anchored_result) =
      Inr (anchored_result, ?s')"
    by (simp add: prepend_baseFolder_def anchored_fields res)
  show "record_position ?s' example_world anchored_result =
        Inr (insertCachedPosition example_world ''beam'' 0 \<lparr>px = Num 0, py = Num 0\<rparr>)"
    by (simp add: record_position_def getName_def and_then_def file_stem_def
        anchored_fields res)
qed


theorem finalize_deterministic_witness:
  "this_overrides anchored_section = [] \<and> this_postOverrides anchored_section = []
   \<and> sanitizeData anchored_section example_world =
       Inr (anchored_result,
            anchored_section\<lparr>this_anchor := Some \<lparr>px = Num (1 / 4), py = Num (7 / 10)\<rparr>\<rparr>,
            insertCachedPosition example_world ''beam'' 0 \<lparr>px = Num 0, py = Num 0\<rparr>)
   \<and> sanitizeData
        (anchored_section\<lparr>this_anchor := Some \<lparr>px = Num (1 / 4), py = Num (7 / 10)\<rparr>\<rparr>)
        example_world =
       Inr (anchored_result,
            anchored_section\<lparr>this_anchor := Some \<lparr>px = Num (1 / 4), py = Num (7 / 10)\<rparr>\<rparr>,
            insertCachedPosition example_world ''beam'' 0 \<lparr>px = Num 0, py = Num 0\<rparr>)
   \<and> map_option data_position (descriptor_of (sanitizeData follower_section named_world)) =
       Some \<lparr>px = Num 30, py = Num 40\<rparr>
   \<and> cachedPositions (insertCachedPosition named_world ''beam'' 0 \<lparr>px = Num 30, py = Num 40\<rparr>)
        (''n'', 0) = cachedPositions named_world (''n'', 0)
   \<and> rerun follower_section named_world = sanitizeData follower_section named_world"
proof -
  from finalize_deterministic [OF anchored_fields(16,17) anchored_run]
  have a: "sanitizeData
        (anchored_section\<lparr>this_anchor := Some \<lparr>px = Num (1 / 4), py = Num (7 / 10)\<rparr>\<rparr>)
        example_world =
       Inr (anchored_result,
            anchored_section\<lparr>this_anchor := Some \<lparr>px = Num (1 / 4), py = Num (7 / 10)\<rparr>\<rparr>,
            insertCachedPosition example_world ''beam'' 0 \<lparr>px = Num 0, py = Num 0\<rparr>)"
    by blast
  have kept: "cachedPositions
        (insertCachedPosition named_world ''beam'' 0 \<lparr>px = Num 30, py = Num 40\<rparr>) (''n'', 0) =
      cachedPositions named_world (''n'', 0)"
    by (simp add: insertCachedPosition_def)
  then have names: "\<forall>n. this_from follower_section = Some (NameRef n)
        \<or> this_to follower_section = Some (NameRef n) \<longrightarrow>
      cachedPositions (insertCachedPosition named_world ''beam'' 0 \<lparr>px = Num 30, py = Num 40\<rparr>)
        (n, this_currentRepetition follower_section) =
      cachedPositions named_world (n, this_currentRepetition follower_section)"
    by (simp add: follower_fields)
  from finalize_deterministic [OF follower_fields(6,12) follower_run] names
  have b: "rerun follower_section named_world = sanitizeData follower_section named_world"
    by blast
  from a b kept show ?thesis
    by (simp add: anchored_run anchored_fields follower_run descriptor_of_def)
qed

end
